theory Spec2Isabelle
  imports Complex_Main "HOL-Library.Char_ord" "HOL-Library.List_Lexorder"
begin

section \<open>Columnar types and the record field model\<close>

text \<open>
  The type ids of the columnar format, with the parameters the layer reads from each
  type object: the byte width of a fixed-size binary, the timezone of a timestamp,
  precision and scale of a decimal, the value field (name and type) of a list, key and
  item type of a map, the members of a struct (name, type and whether nullable), index
  and value type of a dictionary and
  the storage type of an extension type.
\<close>

datatype DataType =
    NA
  | BOOL
  | UINT8 | INT8 | UINT16 | INT16 | UINT32 | INT32 | UINT64 | INT64
  | HALF_FLOAT | FLOAT | DOUBLE
  | STRING | LARGE_STRING
  | BINARY | LARGE_BINARY
  | FIXED_SIZE_BINARY int
  | DATE32 | DATE64
  | TIMESTAMP string
  | TIME32 | TIME64
  | DECIMAL128 int int
  | DECIMAL256 int int
  | LIST string DataType
  | FIXED_SIZE_LIST string DataType int
  | LARGE_LIST string DataType
  | MAP DataType DataType
  | STRUCT "(string \<times> DataType \<times> bool) list"
  | INTERVAL_MONTHS | INTERVAL_DAY_TIME | INTERVAL_MONTH_DAY_NANO
  | SPARSE_UNION | DENSE_UNION
  | DICTIONARY DataType DataType
  | EXTENSION DataType
  | DURATION
  | RUN_END_ENCODED
  | MAX_ID

record Field =
  field_name :: string
  field_type :: DataType
  field_nullable :: bool

text \<open>
  A geometry type of the record model is a flat kind with the two dimensionality
  modifiers; \<open>OGR_GT_SetModifier\<close> replaces the modifiers of a kind.
\<close>

datatype wkbFlat =
    wkbUnknown | wkbPoint | wkbLineString | wkbPolygon
  | wkbMultiPoint | wkbMultiLineString | wkbMultiPolygon | wkbNone

record OGRwkbGeometryType =
  gt_flat :: wkbFlat
  gt_hasZ :: bool
  gt_hasM :: bool

definition OGR_GT_SetModifier :: "wkbFlat \<Rightarrow> bool \<Rightarrow> bool \<Rightarrow> OGRwkbGeometryType" where
  "OGR_GT_SetModifier k z m = \<lparr>gt_flat = k, gt_hasZ = z, gt_hasM = m\<rparr>"

datatype OGRArrowGeomEncoding =
    WKB | WKT | GEOARROW_GENERIC
  | GEOARROW_POINT | GEOARROW_LINESTRING | GEOARROW_POLYGON
  | GEOARROW_MULTIPOINT | GEOARROW_MULTILINESTRING | GEOARROW_MULTIPOLYGON

section \<open>Geometry encoding classifier\<close>

text \<open>
  \<open>IsPointType\<close> has two output parameters. They are passed in with the caller's
  value and returned with the result, so that a path of the source which assigns
  neither of them returns them as they came in.
\<close>

fun IsPointType :: "DataType \<Rightarrow> bool \<Rightarrow> bool \<Rightarrow> bool \<times> bool \<times> bool" where
  "IsPointType (FIXED_SIZE_LIST osValueFieldName value_type nOutDimensionality)
       bHasZOut bHasMOut =
     (if nOutDimensionality = 2 then (value_type = DOUBLE, False, False)
      else if nOutDimensionality = 3 then
        (if osValueFieldName = ''xym'' then (value_type = DOUBLE, False, True)
         else if osValueFieldName = ''xyz'' then (value_type = DOUBLE, True, False)
         else (value_type = DOUBLE, bHasZOut, bHasMOut))
      else if nOutDimensionality = 4 then (value_type = DOUBLE, True, True)
      else (False, bHasZOut, bHasMOut))"
| "IsPointType _ bHasZOut bHasMOut = (False, bHasZOut, bHasMOut)"

fun IsListOfPointType :: "DataType \<Rightarrow> nat \<Rightarrow> bool \<Rightarrow> bool \<Rightarrow> bool \<times> bool \<times> bool" where
  "IsListOfPointType (LIST n value_type) nDepth bHasZOut bHasMOut =
     (if nDepth = 1 then IsPointType value_type bHasZOut bHasMOut
      else if nDepth = 0 then (False, bHasZOut, bHasMOut)
      else IsListOfPointType value_type (nDepth - 1) bHasZOut bHasMOut)"
| "IsListOfPointType _ nDepth bHasZOut bHasMOut = (False, bHasZOut, bHasMOut)"

text \<open>
  \<open>IsValidGeometryEncoding\<close>: the result is \<open>None\<close> where the source returns false
  (after its warning), and the pair of the two output parameters where it returns true.
  The encoding output is assigned on every successful path; the geometry type output is
  reset to unknown on entry.
\<close>

definition geoarrow_shape ::
  "(bool \<times> bool \<times> bool) \<Rightarrow> wkbFlat \<Rightarrow> OGRArrowGeomEncoding
     \<Rightarrow> (OGRwkbGeometryType \<times> OGRArrowGeomEncoding) option" where
  "geoarrow_shape r k enc =
     (case r of (ok, bHasZ, bHasM) \<Rightarrow>
        if \<not> ok then None else Some (OGR_GT_SetModifier k bHasZ bHasM, enc))"

definition IsValidGeometryEncoding ::
  "Field \<Rightarrow> string \<Rightarrow> (OGRwkbGeometryType \<times> OGRArrowGeomEncoding) option" where
  "IsValidGeometryEncoding field osEncoding =
     (let fieldType = (case field_type field of EXTENSION storage \<Rightarrow> storage | t \<Rightarrow> t);
          eGeomTypeOut = OGR_GT_SetModifier wkbUnknown False False;
          bHasZ = False;
          bHasM = False
      in
      if osEncoding = ''WKT'' \<or> osEncoding = ''ogc.wkt'' \<or> osEncoding = ''geoarrow.wkt'' then
        (if fieldType \<noteq> LARGE_STRING \<and> fieldType \<noteq> STRING then None
         else Some (eGeomTypeOut, WKT))
      else if osEncoding = ''WKB'' \<or> osEncoding = ''ogc.wkb'' \<or> osEncoding = ''geoarrow.wkb'' then
        (if fieldType \<noteq> LARGE_BINARY \<and> fieldType \<noteq> BINARY then None
         else Some (eGeomTypeOut, WKB))
      else if osEncoding = ''geoarrow.point'' then
        geoarrow_shape (IsPointType fieldType bHasZ bHasM) wkbPoint GEOARROW_POINT
      else if osEncoding = ''geoarrow.linestring'' then
        geoarrow_shape (IsListOfPointType fieldType 1 bHasZ bHasM)
          wkbLineString GEOARROW_LINESTRING
      else if osEncoding = ''geoarrow.polygon'' then
        geoarrow_shape (IsListOfPointType fieldType 2 bHasZ bHasM)
          wkbPolygon GEOARROW_POLYGON
      else if osEncoding = ''geoarrow.multipoint'' then
        geoarrow_shape (IsListOfPointType fieldType 1 bHasZ bHasM)
          wkbMultiPoint GEOARROW_MULTIPOINT
      else if osEncoding = ''geoarrow.multilinestring'' then
        geoarrow_shape (IsListOfPointType fieldType 2 bHasZ bHasM)
          wkbMultiLineString GEOARROW_MULTILINESTRING
      else if osEncoding = ''geoarrow.multipolygon'' then
        geoarrow_shape (IsListOfPointType fieldType 3 bHasZ bHasM)
          wkbMultiPolygon GEOARROW_MULTIPOLYGON
      else None)"

section \<open>Type mapper\<close>

datatype OGRFieldType =
    OFTInteger | OFTIntegerList | OFTReal | OFTRealList | OFTString | OFTStringList
  | OFTBinary | OFTDate | OFTTime | OFTDateTime | OFTInteger64 | OFTInteger64List

datatype OGRFieldSubType =
    OFSTNone | OFSTBoolean | OFSTInt16 | OFSTFloat32 | OFSTJSON | OFSTUUID

text \<open>
  A field definition of the record model, with the attributes the mapper sets. The
  class itself is declared outside this file; its setters are modelled as plain
  assignments, and a new definition has no subtype, width 0, precision 0, is nullable,
  has the unknown timezone flag and empty texts.
\<close>

record OGRFieldDefn =
  fd_Name :: string
  fd_Type :: OGRFieldType
  fd_SubType :: OGRFieldSubType
  fd_Width :: int
  fd_Precision :: int
  fd_Nullable :: bool
  fd_TZFlag :: int
  fd_AlternativeName :: string
  fd_Comment :: string
  fd_DomainName :: string

definition new_OGRFieldDefn :: "string \<Rightarrow> OGRFieldType \<Rightarrow> OGRFieldDefn" where
  "new_OGRFieldDefn n t =
     \<lparr>fd_Name = n, fd_Type = t, fd_SubType = OFSTNone, fd_Width = 0, fd_Precision = 0,
      fd_Nullable = True, fd_TZFlag = 0, fd_AlternativeName = [], fd_Comment = [],
      fd_DomainName = []\<rparr>"

definition OGR_TZFLAG_UNKNOWN :: int where "OGR_TZFLAG_UNKNOWN = 0"
definition OGR_TZFLAG_UTC :: int where "OGR_TZFLAG_UTC = 100"

text \<open>A warning of the mapper names the field and the source type it ignores.\<close>

datatype diagnostic = UnhandledType string DataType

text \<open>
  The part of the layer the mapper writes: the fields of the feature definition, the
  column path recorded for each field, the four bounding-box field indices and the
  warnings emitted so far.
\<close>

record layer_schema =
  m_fields :: "OGRFieldDefn list"
  m_anMapFieldIndexToArrowColumn :: "int list list"
  m_iBBOXMinXField :: int
  m_iBBOXMinYField :: int
  m_iBBOXMaxXField :: int
  m_iBBOXMaxYField :: int
  m_warnings :: "diagnostic list"

definition IsIntegerArrowType :: "DataType \<Rightarrow> bool" where
  "IsIntegerArrowType typeId \<longleftrightarrow>
     typeId = INT8 \<or> typeId = UINT8 \<or> typeId = INT16 \<or> typeId = UINT16 \<or>
     typeId = INT32 \<or> typeId = UINT32 \<or> typeId = INT64 \<or> typeId = UINT64"

fun IsHandledListOrMapType :: "DataType \<Rightarrow> bool" where
  "IsHandledListOrMapType (MAP k v) = (k = STRING \<and> IsHandledListOrMapType v)"
| "IsHandledListOrMapType (LIST n v) = IsHandledListOrMapType v"
| "IsHandledListOrMapType (LARGE_LIST n v) = IsHandledListOrMapType v"
| "IsHandledListOrMapType (FIXED_SIZE_LIST n v k) = IsHandledListOrMapType v"
| "IsHandledListOrMapType (DECIMAL128 p s) = True"
| "IsHandledListOrMapType (DECIMAL256 p s) = True"
| "IsHandledListOrMapType (STRUCT fs) = True"
| "IsHandledListOrMapType t =
     (t = BOOL \<or> IsIntegerArrowType t \<or> t = HALF_FLOAT \<or> t = FLOAT \<or> t = DOUBLE \<or>
      t = STRING \<or> t = LARGE_STRING)"

definition IsHandledListType :: "DataType \<Rightarrow> bool" where
  "IsHandledListType listType =
     (case listType of
        LIST n v \<Rightarrow> IsHandledListOrMapType v
      | FIXED_SIZE_LIST n v k \<Rightarrow> IsHandledListOrMapType v
      | LARGE_LIST n v \<Rightarrow> IsHandledListOrMapType v
      | _ \<Rightarrow> False)"

definition IsHandledMapType :: "DataType \<Rightarrow> bool" where
  "IsHandledMapType mapType =
     (case mapType of MAP k v \<Rightarrow> k = STRING \<and> IsHandledListOrMapType v | _ \<Rightarrow> False)"

text \<open>
  The inner switch of the list case, on the type of the list's values. The result is
  whether the type is mapped, and the field type and subtype after the switch.
\<close>

fun map_list_value_type ::
  "DataType \<Rightarrow> DataType \<Rightarrow> OGRFieldType \<Rightarrow> OGRFieldSubType
     \<Rightarrow> bool \<times> OGRFieldType \<times> OGRFieldSubType" where
  "map_list_value_type BOOL lt eType eSubType = (True, OFTIntegerList, OFSTBoolean)"
| "map_list_value_type UINT8 lt eType eSubType = (True, OFTIntegerList, eSubType)"
| "map_list_value_type INT8 lt eType eSubType = (True, OFTIntegerList, eSubType)"
| "map_list_value_type UINT16 lt eType eSubType = (True, OFTIntegerList, eSubType)"
| "map_list_value_type INT16 lt eType eSubType = (True, OFTIntegerList, eSubType)"
| "map_list_value_type INT32 lt eType eSubType = (True, OFTIntegerList, eSubType)"
| "map_list_value_type UINT32 lt eType eSubType = (True, OFTInteger64List, eSubType)"
| "map_list_value_type UINT64 lt eType eSubType = (True, OFTRealList, eSubType)"
| "map_list_value_type INT64 lt eType eSubType = (True, OFTInteger64List, eSubType)"
| "map_list_value_type HALF_FLOAT lt eType eSubType = (True, OFTRealList, OFSTFloat32)"
| "map_list_value_type FLOAT lt eType eSubType = (True, OFTRealList, OFSTFloat32)"
| "map_list_value_type DOUBLE lt eType eSubType = (True, OFTRealList, eSubType)"
| "map_list_value_type (DECIMAL128 p s) lt eType eSubType = (True, OFTRealList, eSubType)"
| "map_list_value_type (DECIMAL256 p s) lt eType eSubType = (True, OFTRealList, eSubType)"
| "map_list_value_type STRING lt eType eSubType = (True, OFTStringList, eSubType)"
| "map_list_value_type LARGE_STRING lt eType eSubType = (True, OFTStringList, eSubType)"
| "map_list_value_type v lt eType eSubType =
     (if IsHandledListType lt then (True, OFTString, OFSTJSON)
      else (False, eType, eSubType))"

text \<open>
  The outer switch of \<open>MapArrowTypeToOGR\<close> on the source type. It returns whether the
  type is mapped, the field definition (whose width, precision and timezone flag some
  cases set), and the field type and subtype, which arrive with the caller's values and
  are returned unchanged by a case that assigns neither. The struct case is an
  assertion that disappears from a release build and then leaves the switch like the
  null type does. \<open>tz\<close> stands for the timezone parser declared outside this file.
\<close>

fun map_type_switch ::
  "(string \<Rightarrow> int) \<Rightarrow> DataType \<Rightarrow> OGRFieldDefn \<Rightarrow> OGRFieldType \<Rightarrow> OGRFieldSubType
     \<Rightarrow> bool \<times> OGRFieldDefn \<times> OGRFieldType \<times> OGRFieldSubType" where
  "map_type_switch tz NA oField eType eSubType = (True, oField, eType, eSubType)"
| "map_type_switch tz BOOL oField eType eSubType = (True, oField, OFTInteger, OFSTBoolean)"
| "map_type_switch tz UINT8 oField eType eSubType = (True, oField, OFTInteger, eSubType)"
| "map_type_switch tz INT8 oField eType eSubType = (True, oField, OFTInteger, eSubType)"
| "map_type_switch tz UINT16 oField eType eSubType = (True, oField, OFTInteger, eSubType)"
| "map_type_switch tz INT16 oField eType eSubType = (True, oField, OFTInteger, OFSTInt16)"
| "map_type_switch tz UINT32 oField eType eSubType = (True, oField, OFTInteger64, eSubType)"
| "map_type_switch tz INT32 oField eType eSubType = (True, oField, OFTInteger, eSubType)"
| "map_type_switch tz UINT64 oField eType eSubType = (True, oField, OFTReal, eSubType)"
| "map_type_switch tz INT64 oField eType eSubType = (True, oField, OFTInteger64, eSubType)"
| "map_type_switch tz HALF_FLOAT oField eType eSubType = (True, oField, OFTReal, OFSTFloat32)"
| "map_type_switch tz FLOAT oField eType eSubType = (True, oField, OFTReal, OFSTFloat32)"
| "map_type_switch tz DOUBLE oField eType eSubType = (True, oField, OFTReal, eSubType)"
| "map_type_switch tz STRING oField eType eSubType = (True, oField, OFTString, eSubType)"
| "map_type_switch tz LARGE_STRING oField eType eSubType = (True, oField, OFTString, eSubType)"
| "map_type_switch tz BINARY oField eType eSubType = (True, oField, OFTBinary, eSubType)"
| "map_type_switch tz LARGE_BINARY oField eType eSubType = (True, oField, OFTBinary, eSubType)"
| "map_type_switch tz (FIXED_SIZE_BINARY byte_width) oField eType eSubType =
     (True, oField\<lparr>fd_Width := byte_width\<rparr>, OFTBinary, eSubType)"
| "map_type_switch tz DATE32 oField eType eSubType = (True, oField, OFTDate, eSubType)"
| "map_type_switch tz DATE64 oField eType eSubType = (True, oField, OFTDate, eSubType)"
| "map_type_switch tz (TIMESTAMP osTZ) oField eType eSubType =
     (let nTZFlag = tz osTZ;
          nTZFlag' = (if nTZFlag = OGR_TZFLAG_UNKNOWN \<and> osTZ \<noteq> [] then OGR_TZFLAG_UTC
                      else nTZFlag)
      in (True, oField\<lparr>fd_TZFlag := nTZFlag'\<rparr>, OFTDateTime, eSubType))"
| "map_type_switch tz TIME32 oField eType eSubType = (True, oField, OFTTime, eSubType)"
| "map_type_switch tz TIME64 oField eType eSubType = (True, oField, OFTInteger64, eSubType)"
| "map_type_switch tz (DECIMAL128 precision scale) oField eType eSubType =
     (True, oField\<lparr>fd_Width := precision, fd_Precision := scale\<rparr>, OFTReal, eSubType)"
| "map_type_switch tz (DECIMAL256 precision scale) oField eType eSubType =
     (True, oField\<lparr>fd_Width := precision, fd_Precision := scale\<rparr>, OFTReal, eSubType)"
| "map_type_switch tz (LIST n v) oField eType eSubType =
     (case map_list_value_type v (LIST n v) eType eSubType of
        (ok, t, st) \<Rightarrow> (ok, oField, t, st))"
| "map_type_switch tz (FIXED_SIZE_LIST n v k) oField eType eSubType =
     (case map_list_value_type v (FIXED_SIZE_LIST n v k) eType eSubType of
        (ok, t, st) \<Rightarrow> (ok, oField, t, st))"
| "map_type_switch tz (MAP k v) oField eType eSubType =
     (if IsHandledMapType (MAP k v) then (True, oField, OFTString, OFSTJSON)
      else (False, oField, eType, eSubType))"
| "map_type_switch tz (STRUCT fs) oField eType eSubType = (True, oField, eType, eSubType)"
| "map_type_switch tz t oField eType eSubType = (False, oField, eType, eSubType)"

text \<open>
  The merge with an externally supplied definition of the same name: the subtype is
  taken from it only when the types agree and the switch chose no subtype; width and
  precision when positive; alternative name and comment when not empty.
\<close>

definition merge_gdal_schema ::
  "OGRFieldDefn option \<Rightarrow> OGRFieldDefn \<Rightarrow> OGRFieldType \<Rightarrow> OGRFieldSubType
     \<Rightarrow> OGRFieldDefn \<times> OGRFieldSubType" where
  "merge_gdal_schema ov oField eType eSubType =
     (case ov of
        None \<Rightarrow> (oField, eSubType)
      | Some poGDALFieldDefn \<Rightarrow>
          (let eSubType' =
                 (if fd_Type poGDALFieldDefn = eType \<and> eSubType = OFSTNone
                  then fd_SubType poGDALFieldDefn else eSubType);
               f1 = (if fd_Width poGDALFieldDefn > 0
                     then oField\<lparr>fd_Width := fd_Width poGDALFieldDefn\<rparr> else oField);
               f2 = (if fd_Precision poGDALFieldDefn > 0
                     then f1\<lparr>fd_Precision := fd_Precision poGDALFieldDefn\<rparr> else f1);
               f3 = (if fd_AlternativeName poGDALFieldDefn \<noteq> []
                     then f2\<lparr>fd_AlternativeName := fd_AlternativeName poGDALFieldDefn\<rparr>
                     else f2);
               f4 = (if fd_Comment poGDALFieldDefn \<noteq> []
                     then f3\<lparr>fd_Comment := fd_Comment poGDALFieldDefn\<rparr> else f3)
           in (f4, eSubType')))"

definition note_bbox_field :: "DataType \<Rightarrow> string \<Rightarrow> layer_schema \<Rightarrow> layer_schema" where
  "note_bbox_field t n L =
     (if t = DOUBLE then
        (if n = ''bbox.minx'' then L\<lparr>m_iBBOXMinXField := int (length (m_fields L))\<rparr>
         else if n = ''bbox.miny'' then L\<lparr>m_iBBOXMinYField := int (length (m_fields L))\<rparr>
         else if n = ''bbox.maxx'' then L\<lparr>m_iBBOXMaxXField := int (length (m_fields L))\<rparr>
         else if n = ''bbox.maxy'' then L\<lparr>m_iBBOXMaxYField := int (length (m_fields L))\<rparr>
         else L)
      else L)"

definition MapArrowTypeToOGR ::
  "(string \<Rightarrow> int) \<Rightarrow> DataType \<Rightarrow> Field \<Rightarrow> OGRFieldDefn \<Rightarrow> OGRFieldType
     \<Rightarrow> OGRFieldSubType \<Rightarrow> int list \<Rightarrow> (string \<rightharpoonup> OGRFieldDefn) \<Rightarrow> layer_schema
     \<Rightarrow> bool \<times> layer_schema" where
  "MapArrowTypeToOGR tz t field oField eType eSubType path
       oMapFieldNameToGDALSchemaFieldDefn L =
     (case map_type_switch tz t oField eType eSubType of
        (bTypeOK, oField1, eType1, eSubType1) \<Rightarrow>
          if bTypeOK then
            (case merge_gdal_schema (oMapFieldNameToGDALSchemaFieldDefn (field_name field))
                    (oField1\<lparr>fd_Type := eType1\<rparr>) eType1 eSubType1 of
               (oField2, eSubType2) \<Rightarrow>
                 (let oField3 = oField2\<lparr>fd_SubType := eSubType2,
                                        fd_Nullable := field_nullable field\<rparr>;
                      L1 = note_bbox_field t (field_name field) L
                  in (True,
                      L1\<lparr>m_fields := m_fields L1 @ [oField3],
                         m_anMapFieldIndexToArrowColumn :=
                           m_anMapFieldIndexToArrowColumn L1 @ [path]\<rparr>)))
          else
            (False, L\<lparr>m_warnings := m_warnings L @ [UnhandledType (field_name field) t]\<rparr>))"

text \<open>
  The reference table as the specification words it: for each handled source type the
  field type, subtype, width and precision it is mapped to.
\<close>

fun reference_table ::
  "DataType \<Rightarrow> (OGRFieldType \<times> OGRFieldSubType \<times> int \<times> int) option" where
  "reference_table BOOL = Some (OFTInteger, OFSTBoolean, 0, 0)"
| "reference_table UINT8 = Some (OFTInteger, OFSTNone, 0, 0)"
| "reference_table INT8 = Some (OFTInteger, OFSTNone, 0, 0)"
| "reference_table UINT16 = Some (OFTInteger, OFSTNone, 0, 0)"
| "reference_table INT16 = Some (OFTInteger, OFSTInt16, 0, 0)"
| "reference_table UINT32 = Some (OFTInteger64, OFSTNone, 0, 0)"
| "reference_table INT32 = Some (OFTInteger, OFSTNone, 0, 0)"
| "reference_table UINT64 = Some (OFTReal, OFSTNone, 0, 0)"
| "reference_table INT64 = Some (OFTInteger64, OFSTNone, 0, 0)"
| "reference_table HALF_FLOAT = Some (OFTReal, OFSTFloat32, 0, 0)"
| "reference_table FLOAT = Some (OFTReal, OFSTFloat32, 0, 0)"
| "reference_table DOUBLE = Some (OFTReal, OFSTNone, 0, 0)"
| "reference_table STRING = Some (OFTString, OFSTNone, 0, 0)"
| "reference_table LARGE_STRING = Some (OFTString, OFSTNone, 0, 0)"
| "reference_table BINARY = Some (OFTBinary, OFSTNone, 0, 0)"
| "reference_table LARGE_BINARY = Some (OFTBinary, OFSTNone, 0, 0)"
| "reference_table (FIXED_SIZE_BINARY w) = Some (OFTBinary, OFSTNone, w, 0)"
| "reference_table DATE32 = Some (OFTDate, OFSTNone, 0, 0)"
| "reference_table DATE64 = Some (OFTDate, OFSTNone, 0, 0)"
| "reference_table TIME32 = Some (OFTTime, OFSTNone, 0, 0)"
| "reference_table TIME64 = Some (OFTInteger64, OFSTNone, 0, 0)"
| "reference_table (DECIMAL128 p s) = Some (OFTReal, OFSTNone, p, s)"
| "reference_table (DECIMAL256 p s) = Some (OFTReal, OFSTNone, p, s)"
| "reference_table t = None"

text \<open>
  The kinds the specification lists as dropped with a warning: intervals, unions,
  durations, run-length encoding, extension types, large lists, the unknown type id,
  and a list or map whose content is not handled.
\<close>

fun dropped_kind :: "DataType \<Rightarrow> bool" where
  "dropped_kind INTERVAL_MONTHS = True"
| "dropped_kind INTERVAL_DAY_TIME = True"
| "dropped_kind INTERVAL_MONTH_DAY_NANO = True"
| "dropped_kind SPARSE_UNION = True"
| "dropped_kind DENSE_UNION = True"
| "dropped_kind (EXTENSION s) = True"
| "dropped_kind DURATION = True"
| "dropped_kind (LARGE_LIST n v) = True"
| "dropped_kind RUN_END_ENCODED = True"
| "dropped_kind MAX_ID = True"
| "dropped_kind (LIST n v) = (\<not> IsHandledListOrMapType v)"
| "dropped_kind (FIXED_SIZE_LIST n v k) = (\<not> IsHandledListOrMapType v)"
| "dropped_kind (MAP k v) = (\<not> (k = STRING \<and> IsHandledListOrMapType v))"
| "dropped_kind t = False"

text \<open>
  The field the schema builder hands to the mapper (a new string field of the source
  field's name), with the four attributes of a table row and the nullability of the
  source field.
\<close>

definition mapped_field ::
  "Field \<Rightarrow> OGRFieldType \<Rightarrow> OGRFieldSubType \<Rightarrow> int \<Rightarrow> int \<Rightarrow> OGRFieldDefn" where
  "mapped_field field ty st w p =
     (new_OGRFieldDefn (field_name field) ty)
       \<lparr>fd_SubType := st, fd_Width := w, fd_Precision := p,
        fd_Nullable := field_nullable field\<rparr>"

definition empty_schema :: layer_schema where
  "empty_schema =
     \<lparr>m_fields = [], m_anMapFieldIndexToArrowColumn = [], m_iBBOXMinXField = -1,
      m_iBBOXMinYField = -1, m_iBBOXMaxXField = -1, m_iBBOXMaxYField = -1,
      m_warnings = []\<rparr>"

text \<open>
  The call of the mapper that the schema builder makes for a field it hands on as it
  is: with a new string field of the field's name, the string type and no subtype.
\<close>

definition map_field ::
  "(string \<Rightarrow> int) \<Rightarrow> Field \<Rightarrow> int list \<Rightarrow> (string \<rightharpoonup> OGRFieldDefn) \<Rightarrow> layer_schema
     \<Rightarrow> bool \<times> layer_schema" where
  "map_field tz field path ov L =
     MapArrowTypeToOGR tz (field_type field) field
       (new_OGRFieldDefn (field_name field) OFTString) OFTString OFSTNone path ov L"

text \<open>
  \<open>Flatten\<close> is the columnar library's: the members of a struct field, each with the
  name of the struct and a dot in front of its own, and nullable if it or the struct
  is; a field of another type is returned alone.
\<close>

definition Flatten :: "Field \<Rightarrow> Field list" where
  "Flatten field =
     (case field_type field of
        STRUCT members \<Rightarrow>
          map (\<lambda>(n, t, nullable).
                 \<lparr>field_name = field_name field @ ''.'' @ n, field_type = t,
                  field_nullable = (nullable \<or> field_nullable field)\<rparr>) members
      | _ \<Rightarrow> [field])"

text \<open>
  The first step of \<open>CreateFieldFromSchema\<close>, on a dictionary at the top level (a
  path of one index): a dictionary of strings with integer indices is handed on as its
  index type, the field carries the name of a domain, and the domain is registered with
  the dataset under the index of the field to come; any other dictionary at the top
  level is not handed on. The result is the type handed on, the field definition,
  whether the type is handed on, and the domains registered.
\<close>

definition intercept_dictionary ::
  "Field \<Rightarrow> int list \<Rightarrow> nat \<Rightarrow> (string \<times> nat) list
     \<Rightarrow> DataType \<times> OGRFieldDefn \<times> bool \<times> (string \<times> nat) list" where
  "intercept_dictionary field path nFieldCount domains =
     (let oField = new_OGRFieldDefn (field_name field) OFTString in
      case field_type field of
        DICTIONARY indexType valueType \<Rightarrow>
          if length path = 1 then
            (if valueType = STRING \<and> IsIntegerArrowType indexType then
               (indexType, oField\<lparr>fd_DomainName := field_name field @ ''Domain''\<rparr>, True,
                domains @ [(field_name field @ ''Domain'', nFieldCount)])
             else (field_type field, oField, False, domains))
          else (field_type field, oField, True, domains)
      | t \<Rightarrow> (t, oField, True, domains))"

fun is_STRUCT :: "DataType \<Rightarrow> bool" where
  "is_STRUCT (STRUCT members) = True"
| "is_STRUCT t = False"

text \<open>
  \<open>CreateFieldFromSchema\<close>, the schema builder: a struct is not mapped but its
  members are, in order, each under the path extended by its index; any other type
  that is handed on goes to the mapper. The state is the schema and the domains
  registered with the dataset.
\<close>

function CreateFieldFromSchema ::
  "(string \<Rightarrow> int) \<Rightarrow> (string \<rightharpoonup> OGRFieldDefn) \<Rightarrow> Field \<Rightarrow> int list
     \<Rightarrow> layer_schema \<times> (string \<times> nat) list \<Rightarrow> layer_schema \<times> (string \<times> nat) list" where
  "CreateFieldFromSchema tz ov field path S =
     (case intercept_dictionary field path (length (m_fields (fst S))) (snd S) of
        (t, oField, bTypeOK, domains) \<Rightarrow>
          if is_STRUCT t then
            foldl (\<lambda>S1 j. CreateFieldFromSchema tz ov (Flatten field ! j)
                             (path @ [int j]) S1)
              (fst S, domains) [0..<length (Flatten field)]
          else if bTypeOK
          then (snd (MapArrowTypeToOGR tz t field oField OFTString OFSTNone path ov
                       (fst S)), domains)
          else (fst S, domains))"
  by pat_completeness auto

lemma is_STRUCT_iff: "is_STRUCT t \<longleftrightarrow> (\<exists>members. t = STRUCT members)"
  by (cases t) simp_all

lemma intercept_dictionary_type:
  "fst (intercept_dictionary field path n domains) = field_type field
   \<or> IsIntegerArrowType (fst (intercept_dictionary field path n domains))"
  by (simp add: intercept_dictionary_def Let_def split: DataType.splits)

lemma intercept_dictionary_struct:
  assumes "intercept_dictionary field path n domains = (t, oField, ok, domains')"
    and "is_STRUCT t"
  shows "\<exists>members. field_type field = STRUCT members"
proof -
  from intercept_dictionary_type [of field path n domains] assms(1)
  have "t = field_type field \<or> IsIntegerArrowType t" by simp
  moreover from assms(2) have "\<not> IsIntegerArrowType t"
    by (auto simp add: IsIntegerArrowType_def)
  ultimately show ?thesis using assms(2) by (simp add: is_STRUCT_iff)
qed

lemma struct_member_size:
  "x \<in> set members \<Longrightarrow> size (fst (snd x)) < size (STRUCT members)"
  by (induction members) auto

lemma Flatten_member_size:
  assumes "field_type field = STRUCT members" and "j < length (Flatten field)"
  shows "size (field_type (Flatten field ! j)) < size (field_type field)"
proof -
  from assms have j: "j < length members" by (simp add: Flatten_def)
  then have "members ! j \<in> set members" by simp
  from struct_member_size [OF this] assms j show ?thesis
    by (auto simp add: Flatten_def split: prod.splits)
qed

lemma CreateFieldFromSchema_descends:
  assumes "(t, oField, ok, domains') = intercept_dictionary field path n domains"
    and "is_STRUCT t" and "j < length (Flatten field)"
  shows "size (field_type (Flatten field ! j)) < size (field_type field)"
  using intercept_dictionary_struct [OF assms(1) [symmetric] assms(2)] assms(3)
  by (auto intro: Flatten_member_size)

termination CreateFieldFromSchema
  apply (relation "measure (\<lambda>(tz, ov, field, path, S). size (field_type field))")
   apply simp
  apply (auto intro: CreateFieldFromSchema_descends)
  done

declare CreateFieldFromSchema.simps [simp del]


text \<open>
  The merge rule in the words of the specification: the subtype of an externally
  supplied definition is preferred only when its type is the same and the field has no
  subtype of its own; its width, precision, alternative name and comment apply if
  present.
\<close>

definition overridden :: "OGRFieldDefn option \<Rightarrow> OGRFieldDefn \<Rightarrow> OGRFieldDefn" where
  "overridden supplied d =
     (case supplied of
        None \<Rightarrow> d
      | Some g \<Rightarrow>
          d\<lparr>fd_SubType := (if fd_Type g = fd_Type d \<and> fd_SubType d = OFSTNone
                            then fd_SubType g else fd_SubType d),
            fd_Width := (if fd_Width g > 0 then fd_Width g else fd_Width d),
            fd_Precision := (if fd_Precision g > 0 then fd_Precision g else fd_Precision d),
            fd_AlternativeName := (if fd_AlternativeName g \<noteq> [] then fd_AlternativeName g
                                   else fd_AlternativeName d),
            fd_Comment := (if fd_Comment g \<noteq> [] then fd_Comment g else fd_Comment d)\<rparr>)"

section \<open>Predicate compiler\<close>

text \<open>
  The predicate tree is built by the expression parser, outside this file. A node is a
  column reference (with the index of its field), a constant (with its type tag and its
  integer, floating and string values) or an operation on sub-expressions. The operator
  \<open>SWQ_ISNOTNULL\<close> is this file's own (the negated code of \<open>SWQ_ISNULL\<close>). A
  double is modelled by the real number it denotes.
\<close>

datatype swq_op =
    SWQ_OR | SWQ_AND | SWQ_NOT | SWQ_EQ | SWQ_NE | SWQ_GE | SWQ_LE | SWQ_LT | SWQ_GT
  | SWQ_LIKE | SWQ_ISNULL | SWQ_IN | SWQ_BETWEEN | SWQ_ISNOTNULL

datatype swq_field_type =
    SWQ_INTEGER | SWQ_INTEGER64 | SWQ_FLOAT | SWQ_STRING | SWQ_BOOLEAN
  | SWQ_DATE | SWQ_TIME | SWQ_TIMESTAMP

datatype swq_expr_node =
    SNT_COLUMN nat
  | SNT_CONSTANT swq_field_type int real string
  | SNT_OPERATION swq_op "swq_expr_node list"

datatype Constraint_Type = CT_Integer | CT_Integer64 | CT_Real | CT_String

text \<open>
  A compiled constraint. The source keeps the literal in a union; the model has one
  component for each member, of which the evaluator reads the one \<open>eType\<close> names.
\<close>

record Constraint =
  iField :: nat
  iArrayIdx :: int
  nOperation :: swq_op
  eType :: Constraint_Type
  sValue_Integer :: int
  sValue_Integer64 :: int
  sValue_Real :: real
  sValue_String :: string
  osValue :: string

definition new_Constraint :: "nat \<Rightarrow> swq_op \<Rightarrow> Constraint" where
  "new_Constraint i op =
     \<lparr>iField = i, iArrayIdx = -1, nOperation = op, eType = CT_Integer, sValue_Integer = 0,
      sValue_Integer64 = 0, sValue_Real = 0, sValue_String = [], osValue = []\<rparr>"

text \<open>The layer definition as the compiler reads it, and the index of the identifier
  pseudo-field relative to the field count.\<close>

record feature_defn =
  fdn_fields :: "OGRFieldDefn list"
  m_osFIDColumn :: string

definition SPF_FID :: nat where "SPF_FID = 0"

fun GetColumnSubNode :: "swq_expr_node \<Rightarrow> (nat \<times> swq_expr_node) option" where
  "GetColumnSubNode (SNT_OPERATION op [a, b]) =
     (case a of SNT_COLUMN i \<Rightarrow> Some (0, a)
      | _ \<Rightarrow> (case b of SNT_COLUMN j \<Rightarrow> Some (1, b) | _ \<Rightarrow> None))"
| "GetColumnSubNode _ = None"

fun GetConstantSubNode :: "swq_expr_node \<Rightarrow> swq_expr_node option" where
  "GetConstantSubNode (SNT_OPERATION op [a, b]) =
     (case b of SNT_CONSTANT t i f s \<Rightarrow> Some b
      | _ \<Rightarrow> (case a of SNT_CONSTANT t i f s \<Rightarrow> Some a | _ \<Rightarrow> None))"
| "GetConstantSubNode _ = None"

definition IsComparisonOp :: "swq_op \<Rightarrow> bool" where
  "IsComparisonOp op \<longleftrightarrow>
     op = SWQ_EQ \<or> op = SWQ_NE \<or> op = SWQ_LT \<or> op = SWQ_LE \<or> op = SWQ_GT \<or> op = SWQ_GE"

text \<open>
  Conversions of the literal: a double to a 32- or 64-bit integer truncates towards
  zero (the source leaves a value out of the target's range undefined), a 64-bit
  integer to a 32-bit one keeps the low 32 bits. \<open>to_string\<close> prints an integer in
  decimal; the formatting of a double is left to \<open>fmt\<close>.
\<close>

definition truncate_double :: "real \<Rightarrow> int" where
  "truncate_double x = (if 0 \<le> x then \<lfloor>x\<rfloor> else - \<lfloor>- x\<rfloor>)"

definition to_int32 :: "int \<Rightarrow> int" where
  "to_int32 v = signed_take_bit 31 v"

fun digits :: "nat \<Rightarrow> string" where
  "digits n = (if n < 10 then [char_of (48 + n)]
               else digits (n div 10) @ [char_of (48 + n mod 10)])"

definition to_string :: "int \<Rightarrow> string" where
  "to_string v = (if v < 0 then CHR ''-'' # digits (nat (- v)) else digits (nat v))"

fun FillTargetValueFromSrcExpr ::
  "(real \<Rightarrow> string) \<Rightarrow> OGRFieldDefn \<Rightarrow> Constraint \<Rightarrow> swq_expr_node \<Rightarrow> Constraint option" where
  "FillTargetValueFromSrcExpr fmt poFieldDefn c (SNT_CONSTANT src_field_type int_value float_value string_value) =
     (case fd_Type poFieldDefn of
        OFTInteger \<Rightarrow>
          (let v = (if src_field_type = SWQ_FLOAT then truncate_double float_value
                    else to_int32 int_value)
           in Some (c\<lparr>eType := CT_Integer, sValue_Integer := v, osValue := to_string v\<rparr>))
      | OFTInteger64 \<Rightarrow>
          (let v = (if src_field_type = SWQ_FLOAT then truncate_double float_value
                    else int_value)
           in Some (c\<lparr>eType := CT_Integer64, sValue_Integer64 := v, osValue := to_string v\<rparr>))
      | OFTReal \<Rightarrow>
          Some (c\<lparr>eType := CT_Real, sValue_Real := float_value, osValue := fmt float_value\<rparr>)
      | OFTString \<Rightarrow>
          Some (c\<lparr>eType := CT_String, sValue_String := string_value,
                  osValue := string_value\<rparr>)
      | _ \<Rightarrow> None)"
| "FillTargetValueFromSrcExpr fmt poFieldDefn c _ = None"

text \<open>The reversal of the operator when the constant is the left operand.\<close>

fun reverse_operator :: "swq_op \<Rightarrow> swq_op" where
  "reverse_operator SWQ_LE = SWQ_GE"
| "reverse_operator SWQ_LT = SWQ_GT"
| "reverse_operator SWQ_NE = SWQ_NE"
| "reverse_operator SWQ_EQ = SWQ_EQ"
| "reverse_operator SWQ_GE = SWQ_LE"
| "reverse_operator SWQ_GT = SWQ_LT"
| "reverse_operator op = op"

text \<open>
  \<open>ExploreExprNode\<close> appends to the layer's constraint list; the model returns the
  constraints one call appends, in order.
\<close>

definition compile_comparison ::
  "(real \<Rightarrow> string) \<Rightarrow> feature_defn \<Rightarrow> swq_expr_node \<Rightarrow> swq_op \<Rightarrow> Constraint list" where
  "compile_comparison fmt defn poNode op =
     (case (GetColumnSubNode poNode, GetConstantSubNode poNode) of
        (Some (pos, SNT_COLUMN field_index), Some poValue) \<Rightarrow>
          if field_index < length (fdn_fields defn)
             \<or> field_index = length (fdn_fields defn) + SPF_FID
          then
            (let poFieldDefn =
                   (if field_index = length (fdn_fields defn) + SPF_FID
                    then new_OGRFieldDefn (m_osFIDColumn defn) OFTInteger64
                    else fdn_fields defn ! field_index)
             in case FillTargetValueFromSrcExpr fmt poFieldDefn
                       (new_Constraint field_index op) poValue of
                  Some c \<Rightarrow>
                    [if pos = 0 then c else c\<lparr>nOperation := reverse_operator op\<rparr>]
                | None \<Rightarrow> [])
          else []
      | _ \<Rightarrow> [])"

definition compile_null_check :: "feature_defn \<Rightarrow> swq_expr_node \<Rightarrow> swq_op \<Rightarrow> Constraint list" where
  "compile_null_check defn poColumn op =
     (case poColumn of
        SNT_COLUMN field_index \<Rightarrow>
          if field_index < length (fdn_fields defn) then [new_Constraint field_index op]
          else []
      | _ \<Rightarrow> [])"

fun ExploreExprNode :: "(real \<Rightarrow> string) \<Rightarrow> feature_defn \<Rightarrow> swq_expr_node \<Rightarrow> Constraint list" where
  "ExploreExprNode fmt defn (SNT_OPERATION op [a, b]) =
     (if op = SWQ_AND then ExploreExprNode fmt defn a @ ExploreExprNode fmt defn b
      else if IsComparisonOp op then compile_comparison fmt defn (SNT_OPERATION op [a, b]) op
      else [])"
| "ExploreExprNode fmt defn (SNT_OPERATION op [a]) =
     (if op = SWQ_ISNULL then compile_null_check defn a SWQ_ISNULL
      else if op = SWQ_NOT then
        (case a of
           SNT_OPERATION op' [c] \<Rightarrow>
             if op' = SWQ_ISNULL then compile_null_check defn c SWQ_ISNOTNULL else []
         | _ \<Rightarrow> [])
      else [])"
| "ExploreExprNode fmt defn _ = []"

text \<open>
  The nodes the compiler reaches from a tree: the tree, or, through a conjunction of
  two operands, the nodes it reaches from either operand, from left to right.
\<close>

fun conjuncts :: "swq_expr_node \<Rightarrow> swq_expr_node list" where
  "conjuncts (SNT_OPERATION op [a, b]) =
     (if op = SWQ_AND then conjuncts a @ conjuncts b else [SNT_OPERATION op [a, b]])"
| "conjuncts poNode = [poNode]"

section \<open>Predicate evaluator\<close>

text \<open>
  \<open>CompareGeneric\<close>, for operands already promoted to a common type. An operator that
  is no comparison runs into an assertion and then returns true.
\<close>

fun CompareGeneric :: "swq_op \<Rightarrow> 'a::linorder \<Rightarrow> 'a \<Rightarrow> bool" where
  "CompareGeneric SWQ_LE val1 val2 = (val1 \<le> val2)"
| "CompareGeneric SWQ_LT val1 val2 = (val1 < val2)"
| "CompareGeneric SWQ_NE val1 val2 = (val1 \<noteq> val2)"
| "CompareGeneric SWQ_EQ val1 val2 = (val1 = val2)"
| "CompareGeneric SWQ_GE val1 val2 = (val1 \<ge> val2)"
| "CompareGeneric SWQ_GT val1 val2 = (val1 > val2)"
| "CompareGeneric op val1 val2 = True"

text \<open>
  The three-way comparison of the standard string class: bytewise, as unsigned values,
  over the common length, then by length. The result is its sign.
\<close>

fun string_compare :: "string \<Rightarrow> string \<Rightarrow> int" where
  "string_compare [] [] = 0"
| "string_compare [] (y # ys) = -1"
| "string_compare (x # xs) [] = 1"
| "string_compare (x # xs) (y # ys) =
     (if (of_char x :: nat) < of_char y then -1
      else if (of_char y :: nat) < of_char x then 1
      else string_compare xs ys)"

definition CompareStr :: "swq_op \<Rightarrow> string \<Rightarrow> string \<Rightarrow> bool" where
  "CompareStr op val1 val2 =
     (if op = SWQ_EQ then
        length val1 = length val2 \<and> take (length val1) val1 = take (length val1) val2
      else
        (let cmpRes = string_compare val2 val1 in
         case op of
           SWQ_LE \<Rightarrow> cmpRes \<ge> 0
         | SWQ_LT \<Rightarrow> cmpRes > 0
         | SWQ_NE \<Rightarrow> cmpRes \<noteq> 0
         | SWQ_GE \<Rightarrow> cmpRes \<le> 0
         | SWQ_GT \<Rightarrow> cmpRes < 0
         | _ \<Rightarrow> True))"

text \<open>
  A value read from a numeric column, by the C type the evaluator is instantiated at.
\<close>

datatype num_value = V_int int | V_GIntBig int | V_double real

fun num_real :: "num_value \<Rightarrow> real" where
  "num_real (V_int v) = real_of_int v"
| "num_real (V_GIntBig v) = real_of_int v"
| "num_real (V_double v) = v"

fun num_to_string :: "(real \<Rightarrow> string) \<Rightarrow> num_value \<Rightarrow> string" where
  "num_to_string fmt (V_int v) = to_string v"
| "num_to_string fmt (V_GIntBig v) = to_string v"
| "num_to_string fmt (V_double v) = fmt v"

text \<open>
  The evaluator for a numeric value. An integer value is compared with an integer
  literal as integers and with a real literal as doubles; a double value is compared
  as a double with every numeric literal; against a string literal the printed value
  is compared with the printed literal.
\<close>

fun ConstraintEvaluator :: "(real \<Rightarrow> string) \<Rightarrow> Constraint \<Rightarrow> num_value \<Rightarrow> bool" where
  "ConstraintEvaluator fmt c v =
     (case eType c of
        CT_Integer \<Rightarrow>
          (case v of
             V_int x \<Rightarrow> CompareGeneric (nOperation c) x (sValue_Integer c)
           | V_GIntBig x \<Rightarrow> CompareGeneric (nOperation c) x (sValue_Integer c)
           | V_double x \<Rightarrow> CompareGeneric (nOperation c) x (real_of_int (sValue_Integer c)))
      | CT_Integer64 \<Rightarrow>
          (case v of
             V_int x \<Rightarrow> CompareGeneric (nOperation c) x (sValue_Integer64 c)
           | V_GIntBig x \<Rightarrow> CompareGeneric (nOperation c) x (sValue_Integer64 c)
           | V_double x \<Rightarrow> CompareGeneric (nOperation c) x (real_of_int (sValue_Integer64 c)))
      | CT_Real \<Rightarrow> CompareGeneric (nOperation c) (num_real v) (sValue_Real c)
      | CT_String \<Rightarrow> CompareGeneric (nOperation c) (num_to_string fmt v) (osValue c))"

definition ConstraintEvaluator_StringView :: "Constraint \<Rightarrow> string \<Rightarrow> bool" where
  "ConstraintEvaluator_StringView c v = CompareStr (nOperation c) v (osValue c)"

text \<open>
  The comparison a predicate node denotes, in the words of the specification: the
  operator applied to its left and right operand.
\<close>

fun swq_compare :: "swq_op \<Rightarrow> 'a::linorder \<Rightarrow> 'a \<Rightarrow> bool" where
  "swq_compare SWQ_EQ l r = (l = r)"
| "swq_compare SWQ_NE l r = (l \<noteq> r)"
| "swq_compare SWQ_LT l r = (l < r)"
| "swq_compare SWQ_LE l r = (l \<le> r)"
| "swq_compare SWQ_GT l r = (l > r)"
| "swq_compare SWQ_GE l r = (l \<ge> r)"
| "swq_compare op l r = False"


text \<open>The field type a column reference resolves to, when the compiler accepts its
  index: a field of the layer, or the identifier pseudo-field (a 64-bit integer).\<close>

definition pushdown_field :: "feature_defn \<Rightarrow> nat \<Rightarrow> OGRFieldDefn option" where
  "pushdown_field defn i =
     (if i = length (fdn_fields defn) + SPF_FID
      then Some (new_OGRFieldDefn (m_osFIDColumn defn) OFTInteger64)
      else if i < length (fdn_fields defn) then Some (fdn_fields defn ! i)
      else None)"

text \<open>A comparison node with the column on the left or on the right of the constant.\<close>

definition comparison_node ::
  "bool \<Rightarrow> swq_op \<Rightarrow> nat \<Rightarrow> swq_field_type \<Rightarrow> int \<Rightarrow> real \<Rightarrow> string \<Rightarrow> swq_expr_node" where
  "comparison_node column_left op i ft iv fv sv =
     SNT_OPERATION op
       (if column_left then [SNT_COLUMN i, SNT_CONSTANT ft iv fv sv]
        else [SNT_CONSTANT ft iv fv sv, SNT_COLUMN i])"

text \<open>The original comparison at a row: the column replaced by the row's value.\<close>

definition original_comparison :: "bool \<Rightarrow> swq_op \<Rightarrow> 'a::linorder \<Rightarrow> 'a \<Rightarrow> bool" where
  "original_comparison column_left op column_value literal =
     (if column_left then swq_compare op column_value literal
      else swq_compare op literal column_value)"

text \<open>Two small layer definitions used in the examples below.\<close>

definition one_int_field :: feature_defn where
  "one_int_field = \<lparr>fdn_fields = [new_OGRFieldDefn ''pop'' OFTInteger], m_osFIDColumn = []\<rparr>"

definition one_date_field :: feature_defn where
  "one_date_field = \<lparr>fdn_fields = [new_OGRFieldDefn ''day'' OFTDate], m_osFIDColumn = []\<rparr>"


section \<open>Columnar arrays\<close>

text \<open>
  An array of the columnar format, as far as the layer reads it. Every array has one
  null flag for each row (true where the row is null). A primitive array has one raw
  value for each row, also for a null row; a list array has its offsets (one more than
  rows) and its values array; a fixed-size list array has its list size and its values
  array. A double is modelled by the real number it denotes.
\<close>

datatype Array =
    NullArray nat
  | BooleanArray "bool list" "bool list"
  | IntegerArray DataType "bool list" "int list"
  | FloatingArray DataType "bool list" "real list"
  | BinaryArray DataType "bool list" "string list"
  | ListArray "bool list" "nat list" Array
  | FixedSizeListArray "bool list" nat Array
  | StructArray "bool list" "Array list"

fun IsNull :: "Array \<Rightarrow> nat \<Rightarrow> bool" where
  "IsNull (NullArray n) i = True"
| "IsNull (BooleanArray nulls vs) i = nulls ! i"
| "IsNull (IntegerArray t nulls vs) i = nulls ! i"
| "IsNull (FloatingArray t nulls vs) i = nulls ! i"
| "IsNull (BinaryArray t nulls vs) i = nulls ! i"
| "IsNull (ListArray nulls offsets vs) i = nulls ! i"
| "IsNull (FixedSizeListArray nulls n vs) i = nulls ! i"
| "IsNull (StructArray nulls fs) i = nulls ! i"

definition value_offset :: "nat list \<Rightarrow> nat \<Rightarrow> nat" where
  "value_offset offsets i = offsets ! i"

definition value_length :: "nat list \<Rightarrow> nat \<Rightarrow> nat" where
  "value_length offsets i = offsets ! (i + 1) - offsets ! i"

section \<open>Envelopes and geometries of the record model\<close>

text \<open>
  The envelope class is declared outside this file. A new envelope is not initialised
  (its bounds are infinite, so that it intersects nothing and merging into it gives the
  merged bounds); an initialised one has finite bounds.
\<close>

datatype OGREnvelope = Uninit | Envelope (MinX: real) (MinY: real) (MaxX: real) (MaxY: real)

fun IsInit :: "OGREnvelope \<Rightarrow> bool" where
  "IsInit Uninit = False"
| "IsInit (Envelope x0 y0 x1 y1) = True"

fun Merge_point :: "OGREnvelope \<Rightarrow> real \<Rightarrow> real \<Rightarrow> OGREnvelope" where
  "Merge_point Uninit x y = Envelope x y x y"
| "Merge_point (Envelope x0 y0 x1 y1) x y = Envelope (min x0 x) (min y0 y) (max x1 x) (max y1 y)"

fun Merge :: "OGREnvelope \<Rightarrow> OGREnvelope \<Rightarrow> OGREnvelope" where
  "Merge e Uninit = e"
| "Merge Uninit e = e"
| "Merge (Envelope x0 y0 x1 y1) (Envelope a0 b0 a1 b1) =
     Envelope (min x0 a0) (min y0 b0) (max x1 a1) (max y1 b1)"

fun Intersects :: "OGREnvelope \<Rightarrow> OGREnvelope \<Rightarrow> bool" where
  "Intersects (Envelope x0 y0 x1 y1) (Envelope a0 b0 a1 b1) =
     (x0 \<le> a1 \<and> x1 \<ge> a0 \<and> y0 \<le> b1 \<and> y1 \<ge> b0)"
| "Intersects _ _ = False"

text \<open>
  A point has four coordinates, of which Z and M count only under the flags of the
  geometry it belongs to. The geometry classes are declared outside this file; a
  geometry is modelled by its kind, its two dimensionality flags (3D, measured) and its
  coordinates. Members of a collection and rings of a polygon share the flags of their
  container (adding a member makes both agree), so only the container carries flags.
\<close>

type_synonym point = "real \<times> real \<times> real \<times> real"

datatype OGRGeometry =
    OGRPoint bool bool point
  | OGRLineString bool bool "point list"
  | OGRPolygon bool bool "point list list"
  | OGRMultiPoint bool bool "point list"
  | OGRMultiLineString bool bool "point list list"
  | OGRMultiPolygon bool bool "point list list list"

fun Is3D :: "OGRGeometry \<Rightarrow> bool" where
  "Is3D (OGRPoint z m p) = z"
| "Is3D (OGRLineString z m ps) = z"
| "Is3D (OGRPolygon z m rs) = z"
| "Is3D (OGRMultiPoint z m ps) = z"
| "Is3D (OGRMultiLineString z m ls) = z"
| "Is3D (OGRMultiPolygon z m ps) = z"

fun IsMeasured :: "OGRGeometry \<Rightarrow> bool" where
  "IsMeasured (OGRPoint z m p) = m"
| "IsMeasured (OGRLineString z m ps) = m"
| "IsMeasured (OGRPolygon z m rs) = m"
| "IsMeasured (OGRMultiPoint z m ps) = m"
| "IsMeasured (OGRMultiLineString z m ls) = m"
| "IsMeasured (OGRMultiPolygon z m ps) = m"

fun set3D :: "bool \<Rightarrow> OGRGeometry \<Rightarrow> OGRGeometry" where
  "set3D b (OGRPoint z m p) = OGRPoint b m p"
| "set3D b (OGRLineString z m ps) = OGRLineString b m ps"
| "set3D b (OGRPolygon z m rs) = OGRPolygon b m rs"
| "set3D b (OGRMultiPoint z m ps) = OGRMultiPoint b m ps"
| "set3D b (OGRMultiLineString z m ls) = OGRMultiLineString b m ls"
| "set3D b (OGRMultiPolygon z m ps) = OGRMultiPolygon b m ps"

fun setMeasured :: "bool \<Rightarrow> OGRGeometry \<Rightarrow> OGRGeometry" where
  "setMeasured b (OGRPoint z m p) = OGRPoint z b p"
| "setMeasured b (OGRLineString z m ps) = OGRLineString z b ps"
| "setMeasured b (OGRPolygon z m rs) = OGRPolygon z b rs"
| "setMeasured b (OGRMultiPoint z m ps) = OGRMultiPoint z b ps"
| "setMeasured b (OGRMultiLineString z m ls) = OGRMultiLineString z b ls"
| "setMeasured b (OGRMultiPolygon z m ps) = OGRMultiPolygon z b ps"

text \<open>A geometry is empty when it has no point: a polygon when all its rings are
  empty, a collection when all its members are.\<close>

fun IsEmpty :: "OGRGeometry \<Rightarrow> bool" where
  "IsEmpty (OGRPoint z m p) = False"
| "IsEmpty (OGRLineString z m ps) = (ps = [])"
| "IsEmpty (OGRPolygon z m rs) = list_all (\<lambda>r. r = []) rs"
| "IsEmpty (OGRMultiPoint z m ps) = (ps = [])"
| "IsEmpty (OGRMultiLineString z m ls) = list_all (\<lambda>l. l = []) ls"
| "IsEmpty (OGRMultiPolygon z m ps) = list_all (list_all (\<lambda>r. r = [])) ps"

fun getGeometryType :: "OGRGeometry \<Rightarrow> wkbFlat" where
  "getGeometryType (OGRPoint z m p) = wkbPoint"
| "getGeometryType (OGRLineString z m ps) = wkbLineString"
| "getGeometryType (OGRPolygon z m rs) = wkbPolygon"
| "getGeometryType (OGRMultiPoint z m ps) = wkbMultiPoint"
| "getGeometryType (OGRMultiLineString z m ls) = wkbMultiLineString"
| "getGeometryType (OGRMultiPolygon z m ps) = wkbMultiPolygon"

text \<open>The envelope of a geometry merges all its points, of every ring and part.\<close>

definition envelope_of_points :: "point list \<Rightarrow> OGREnvelope" where
  "envelope_of_points ps = foldl (\<lambda>e p. Merge_point e (fst p) (fst (snd p))) Uninit ps"

fun getEnvelope :: "OGRGeometry \<Rightarrow> OGREnvelope" where
  "getEnvelope (OGRPoint z m p) = envelope_of_points [p]"
| "getEnvelope (OGRLineString z m ps) = envelope_of_points ps"
| "getEnvelope (OGRPolygon z m rs) = envelope_of_points (concat rs)"
| "getEnvelope (OGRMultiPoint z m ps) = envelope_of_points ps"
| "getEnvelope (OGRMultiLineString z m ls) = envelope_of_points (concat ls)"
| "getEnvelope (OGRMultiPolygon z m ps) = envelope_of_points (concat (concat ps))"

section \<open>Geometry codec\<close>

text \<open>
  \<open>CreatePoint\<close> and \<open>SetPointsOfLine\<close> read coordinates from the raw values of the
  innermost double array. Two-dimensional points are taken as consecutive pairs; with Z
  or M each point spans \<open>nDim\<close> values.
\<close>

definition nDim_of :: "bool \<Rightarrow> bool \<Rightarrow> nat" where
  "nDim_of bHasZ bHasM = 2 + (if bHasZ then 1 else 0) + (if bHasM then 1 else 0)"

definition CreatePoint :: "bool \<Rightarrow> bool \<Rightarrow> real list \<Rightarrow> nat \<Rightarrow> point" where
  "CreatePoint bHasZ bHasM pointValues pointOffset =
     (if bHasZ then
        (if bHasM then
           (pointValues ! pointOffset, pointValues ! (pointOffset + 1),
            pointValues ! (pointOffset + 2), pointValues ! (pointOffset + 3))
         else
           (pointValues ! pointOffset, pointValues ! (pointOffset + 1),
            pointValues ! (pointOffset + 2), 0))
      else if bHasM then
        (pointValues ! pointOffset, pointValues ! (pointOffset + 1), 0,
         pointValues ! (pointOffset + 2))
      else (pointValues ! pointOffset, pointValues ! (pointOffset + 1), 0, 0))"

definition SetPointsOfLine :: "bool \<Rightarrow> bool \<Rightarrow> real list \<Rightarrow> nat \<Rightarrow> nat \<Rightarrow> point list" where
  "SetPointsOfLine bHasZ bHasM pointValues pointOffset numPoints =
     map (\<lambda>k. CreatePoint bHasZ bHasM pointValues (pointOffset + nDim_of bHasZ bHasM * k))
       [0..<numPoints]"

text \<open>
  A line or ring as the decoder builds it: new (no flags, no points), then filled by
  \<open>SetPointsOfLine\<close> only when the list is not empty, which gives it the flags of
  the field. The result is the flags and the points.
\<close>

definition read_line ::
  "bool \<Rightarrow> bool \<Rightarrow> real list \<Rightarrow> nat list \<Rightarrow> nat \<Rightarrow> (bool \<times> bool) \<times> point list" where
  "read_line bHasZ bHasM pointValues offsets i =
     (let nPoints = value_length offsets i;
          nPointOffset = value_offset offsets i * nDim_of bHasZ bHasM
      in if nPoints \<noteq> 0
         then ((bHasZ, bHasM), SetPointsOfLine bHasZ bHasM pointValues nPointOffset nPoints)
         else ((False, False), []))"

text \<open>Adding members to a container: the container takes every flag a member has.\<close>

definition homogenized :: "((bool \<times> bool) \<times> 'a) list \<Rightarrow> bool \<times> bool" where
  "homogenized members =
     (list_ex (\<lambda>m. fst (fst m)) members, list_ex (\<lambda>m. snd (fst m)) members)"

definition read_rings ::
  "bool \<Rightarrow> bool \<Rightarrow> real list \<Rightarrow> nat list \<Rightarrow> nat list \<Rightarrow> nat
     \<Rightarrow> (bool \<times> bool) \<times> point list list" where
  "read_rings bHasZ bHasM pointValues ringOffsets pointOffsets i =
     (let nRings = value_length ringOffsets i;
          nRingOffset = value_offset ringOffsets i;
          rings = map (\<lambda>k. read_line bHasZ bHasM pointValues pointOffsets (nRingOffset + k))
                    [0..<nRings]
      in (homogenized rings, map snd rings))"

text \<open>After the members are added, an empty result is given the flags of the field.\<close>

definition flags_if_empty :: "bool \<Rightarrow> bool \<Rightarrow> OGRGeometry \<Rightarrow> OGRGeometry" where
  "flags_if_empty bHasZ bHasM g =
     (if IsEmpty g then setMeasured bHasM (set3D bHasZ g) else g)"

datatype fault = UnexpectedShape | TooLargeGeometry | RowOutOfRange | NoBatch

text \<open>
  \<open>ReadGeometry\<close>. The two parsers of the well-known formats are declared outside
  this file and passed as \<open>createFromWkb\<close> and \<open>createFromWkt\<close> (\<open>None\<close> where they
  fail, which leaves the geometry null). The result is a fault where the array has not
  the nesting the encoding was validated for (an assertion of the source), else the
  geometry, \<open>None\<close> for the null pointer. The spatial reference is not modelled.
\<close>

definition INT_MAX :: nat where "INT_MAX = 2147483647"

fun ReadGeometry ::
  "(string \<Rightarrow> OGRGeometry option) \<Rightarrow> (string \<Rightarrow> OGRGeometry option)
     \<Rightarrow> OGRArrowGeomEncoding \<Rightarrow> bool \<Rightarrow> bool \<Rightarrow> Array \<Rightarrow> nat
     \<Rightarrow> fault + OGRGeometry option" where
  "ReadGeometry createFromWkb createFromWkt enc bHasZ bHasM array nIdxInBatch =
     (if IsNull array nIdxInBatch then Inr None
      else case enc of
        WKB \<Rightarrow>
          (case array of
             BinaryArray t nulls vs \<Rightarrow>
               if t = BINARY then Inr (createFromWkb (vs ! nIdxInBatch))
               else if t = LARGE_BINARY then
                 (if length (vs ! nIdxInBatch) > INT_MAX then Inr None
                  else Inr (createFromWkb (vs ! nIdxInBatch)))
               else Inl UnexpectedShape
           | _ \<Rightarrow> Inl UnexpectedShape)
      | WKT \<Rightarrow>
          (case array of
             BinaryArray t nulls vs \<Rightarrow>
               if t = STRING \<or> t = LARGE_STRING then Inr (createFromWkt (vs ! nIdxInBatch))
               else Inl UnexpectedShape
           | _ \<Rightarrow> Inl UnexpectedShape)
      | GEOARROW_GENERIC \<Rightarrow> Inl UnexpectedShape
      | GEOARROW_POINT \<Rightarrow>
          (case array of
             FixedSizeListArray nulls n (FloatingArray DOUBLE vnulls pointValues) \<Rightarrow>
               if \<not> vnulls ! (nDim_of bHasZ bHasM * nIdxInBatch)
               then Inr (Some (OGRPoint bHasZ bHasM
                      (CreatePoint bHasZ bHasM pointValues (nDim_of bHasZ bHasM * nIdxInBatch))))
               else Inr None
           | _ \<Rightarrow> Inl UnexpectedShape)
      | GEOARROW_LINESTRING \<Rightarrow>
          (case array of
             ListArray nulls offsets
               (FixedSizeListArray n1 k (FloatingArray DOUBLE n2 pointValues)) \<Rightarrow>
               (let nPoints = value_length offsets nIdxInBatch;
                    nPointOffset = value_offset offsets nIdxInBatch * nDim_of bHasZ bHasM
                in if nPoints \<noteq> 0
                   then Inr (Some (OGRLineString bHasZ bHasM
                          (SetPointsOfLine bHasZ bHasM pointValues nPointOffset nPoints)))
                   else Inr (Some (setMeasured bHasM (set3D bHasZ
                          (OGRLineString False False [])))))
           | _ \<Rightarrow> Inl UnexpectedShape)
      | GEOARROW_POLYGON \<Rightarrow>
          (case array of
             ListArray nulls ringOffsets
               (ListArray n0 pointOffsets
                  (FixedSizeListArray n1 k (FloatingArray DOUBLE n2 pointValues))) \<Rightarrow>
               (case read_rings bHasZ bHasM pointValues ringOffsets pointOffsets nIdxInBatch of
                  ((z, m), rings) \<Rightarrow>
                    Inr (Some (flags_if_empty bHasZ bHasM (OGRPolygon z m rings))))
           | _ \<Rightarrow> Inl UnexpectedShape)
      | GEOARROW_MULTIPOINT \<Rightarrow>
          (case array of
             ListArray nulls offsets
               (FixedSizeListArray n1 k (FloatingArray DOUBLE n2 pointValues)) \<Rightarrow>
               (let nPoints = value_length offsets nIdxInBatch;
                    nPointOffset = value_offset offsets nIdxInBatch * nDim_of bHasZ bHasM;
                    points = map (\<lambda>k. CreatePoint bHasZ bHasM pointValues
                                         (nPointOffset + k * nDim_of bHasZ bHasM))
                               [0..<nPoints]
                in Inr (Some (flags_if_empty bHasZ bHasM
                     (OGRMultiPoint (points \<noteq> [] \<and> bHasZ) (points \<noteq> [] \<and> bHasM) points))))
           | _ \<Rightarrow> Inl UnexpectedShape)
      | GEOARROW_MULTILINESTRING \<Rightarrow>
          (case array of
             ListArray nulls stringOffsets
               (ListArray n0 pointOffsets
                  (FixedSizeListArray n1 k (FloatingArray DOUBLE n2 pointValues))) \<Rightarrow>
               (case read_rings bHasZ bHasM pointValues stringOffsets pointOffsets nIdxInBatch of
                  ((z, m), strings) \<Rightarrow>
                    Inr (Some (flags_if_empty bHasZ bHasM (OGRMultiLineString z m strings))))
           | _ \<Rightarrow> Inl UnexpectedShape)
      | GEOARROW_MULTIPOLYGON \<Rightarrow>
          (case array of
             ListArray nulls partOffsets
               (ListArray n00 ringOffsets
                  (ListArray n0 pointOffsets
                     (FixedSizeListArray n1 k (FloatingArray DOUBLE n2 pointValues)))) \<Rightarrow>
               (let nParts = value_length partOffsets nIdxInBatch;
                    nPartOffset = value_offset partOffsets nIdxInBatch;
                    polys = map (\<lambda>j. read_rings bHasZ bHasM pointValues ringOffsets
                                        pointOffsets (nPartOffset + j))
                              [0..<nParts]
                in case homogenized polys of
                     (z, m) \<Rightarrow>
                       Inr (Some (flags_if_empty bHasZ bHasM
                         (OGRMultiPolygon z m (map snd polys)))))
           | _ \<Rightarrow> Inl UnexpectedShape))"

text \<open>
  The nesting of an array above a fixed-size list of doubles (the point block), and
  the nesting each exploded-coordinate encoding is validated for.
\<close>

fun list_depth :: "Array \<Rightarrow> nat option" where
  "list_depth (FixedSizeListArray nulls k (FloatingArray t vnulls vs)) =
     (if t = DOUBLE then Some 0 else None)"
| "list_depth (ListArray nulls offsets vs) = map_option Suc (list_depth vs)"
| "list_depth _ = None"

fun required_depth :: "OGRArrowGeomEncoding \<Rightarrow> nat option" where
  "required_depth GEOARROW_LINESTRING = Some 1"
| "required_depth GEOARROW_MULTIPOINT = Some 1"
| "required_depth GEOARROW_POLYGON = Some 2"
| "required_depth GEOARROW_MULTILINESTRING = Some 2"
| "required_depth GEOARROW_MULTIPOLYGON = Some 3"
| "required_depth _ = None"

text \<open>
  A cell whose lists at nesting level \<open>l\<close> are all of length zero: level 0 is the
  list of the cell itself, level \<open>l + 1\<close> the lists that are the elements of the
  cell's list.
\<close>

fun zero_length_at :: "nat \<Rightarrow> Array \<Rightarrow> nat \<Rightarrow> bool" where
  "zero_length_at 0 (ListArray nulls offsets vs) i = (value_length offsets i = 0)"
| "zero_length_at (Suc l) (ListArray nulls offsets vs) i =
     list_all (\<lambda>k. zero_length_at l vs (value_offset offsets i + k))
       [0..<value_length offsets i]"
| "zero_length_at l _ i = False"

text \<open>A polygon column with one cell: one ring, of no points.\<close>

definition polygon_with_empty_ring :: Array where
  "polygon_with_empty_ring =
     ListArray [False] [0, 1]
       (ListArray [False] [0, 0] (FixedSizeListArray [] 3 (FloatingArray DOUBLE [] [])))"

section \<open>Layer state\<close>

record RecordBatch =
  num_rows :: nat
  columns :: "Array list"

text \<open>
  What is fixed once the schema is consumed: the schema the type mapper built, the name
  of the identifier column, the declared type and the encoding of each geometry field,
  and the maps from field indices to columns (with ignored fields, to the columns of
  the reduced batch).
\<close>

record layer_config = layer_schema +
  fid_column_name :: string
  geom_field_types :: "OGRwkbGeometryType list"
  m_aeGeomEncoding :: "OGRArrowGeomEncoding list"
  m_bIgnoredFields :: bool
  m_anMapFieldIndexToArrayIndex :: "int list"
  m_anMapGeomFieldIndexToArrowColumn :: "int list"
  m_anMapGeomFieldIndexToArrayIndex :: "int list"
  m_iFIDArrowColumn :: int
  m_nRequestedFIDColumn :: int

definition defn_of :: "layer_config \<Rightarrow> feature_defn" where
  "defn_of cfg = \<lparr>fdn_fields = m_fields cfg, m_osFIDColumn = fid_column_name cfg\<rparr>"

text \<open>
  The collaborators outside this file: the batches the physical reader delivers, in
  order; the bounding-box reader and the two parsers of the well-known formats; the
  formatting of a double; the configuration option that enables bounding-box columns;
  the bounding box of each geometry column in the dataset's metadata (the numbers of
  its "bbox" array, if any); and whether the extent may be computed when not forced.
\<close>

record environment =
  batches :: "RecordBatch list"
  OGRWKBGetBoundingBox :: "string \<Rightarrow> OGREnvelope option"
  createFromWkb :: "string \<Rightarrow> OGRGeometry option"
  createFromWkt :: "string \<Rightarrow> OGRGeometry option"
  double_to_string :: "real \<Rightarrow> string"
  USE_BBOX :: bool
  metadata_bbox :: "nat \<Rightarrow> real list option"
  CanRunNonForcedGetExtent :: bool

text \<open>
  The mutable state of the layer: the filters, the extent cache, and the cursor with
  the shortcuts \<open>SetBatch\<close> derives from the current batch. The columns of the
  current batch are those of \<open>m_poBatch\<close>.
\<close>

record layer =
  m_poFilterGeom :: "OGRGeometry option"
  m_sFilterEnvelope :: OGREnvelope
  m_iGeomFieldFilter :: nat
  m_poAttrQuery :: "swq_expr_node option"
  m_asAttributeFilterConstraints :: "Constraint list"
  m_bSpatialFilterIntersectsLayerExtent :: bool
  m_oMapExtents :: "nat \<rightharpoonup> OGREnvelope"
  m_bEOF :: bool
  m_iRecordBatch :: int
  m_poBatch :: "RecordBatch option"
  m_nIdxInBatch :: nat
  m_nFeatureIdx :: nat
  m_poArrayWKB :: "Array option"
  m_poArrayWKBLarge :: "Array option"
  m_poArrayBBOX :: "Array option"
  m_poArrayMinX :: "Array option"
  m_poArrayMinY :: "Array option"
  m_poArrayMaxX :: "Array option"
  m_poArrayMaxY :: "Array option"

definition m_poBatchColumns :: "layer \<Rightarrow> Array list" where
  "m_poBatchColumns L = (case m_poBatch L of None \<Rightarrow> [] | Some b \<Rightarrow> columns b)"

definition batch_rows :: "layer \<Rightarrow> nat" where
  "batch_rows L = (case m_poBatch L of None \<Rightarrow> 0 | Some b \<Rightarrow> num_rows b)"

text \<open>The column of the geometry field the spatial filter is set on.\<close>

definition filter_iCol :: "layer_config \<Rightarrow> layer \<Rightarrow> int" where
  "filter_iCol cfg L =
     (if m_bIgnoredFields cfg then m_anMapGeomFieldIndexToArrayIndex cfg ! m_iGeomFieldFilter L
      else m_anMapGeomFieldIndexToArrowColumn cfg ! m_iGeomFieldFilter L)"

subsection \<open>SetBatch\<close>

definition has_type_BINARY :: "Array \<Rightarrow> bool" where
  "has_type_BINARY a = (case a of BinaryArray t nulls vs \<Rightarrow> t = BINARY | _ \<Rightarrow> False)"

definition is_struct :: "Array \<Rightarrow> bool" where
  "is_struct a = (case a of StructArray nulls fs \<Rightarrow> True | _ \<Rightarrow> False)"

fun descend_struct :: "Array \<Rightarrow> int list \<Rightarrow> Array" where
  "descend_struct (StructArray nulls subArrays) (iArrowSubcol # path) =
     descend_struct (subArrays ! nat iArrowSubcol) path"
| "descend_struct array path = array"

text \<open>
  \<open>GetArray\<close> of \<open>SetBatch\<close>: the double array of a bounding-box field, and the
  top-level struct column it was reached through (by its column index, which stands
  for the pointer the source compares), if any.
\<close>

definition GetArray :: "layer_config \<Rightarrow> Array list \<Rightarrow> int \<Rightarrow> Array option \<times> nat option" where
  "GetArray cfg cols idx =
     (if m_bIgnoredFields cfg then
        (let arrayIdx = m_anMapFieldIndexToArrayIndex cfg ! nat idx in
         if arrayIdx < 0 then (None, None) else (Some (cols ! nat arrayIdx), None))
      else
        (let path = m_anMapFieldIndexToArrowColumn cfg ! nat idx;
             top = nat (hd path);
             array = cols ! top
         in (Some (descend_struct array (tl path)),
             (if is_struct array then Some top else None))))"

definition clear_shortcuts :: "layer \<Rightarrow> layer" where
  "clear_shortcuts L =
     L\<lparr>m_poArrayWKB := None, m_poArrayWKBLarge := None, m_poArrayBBOX := None,
       m_poArrayMinX := None, m_poArrayMinY := None, m_poArrayMaxX := None,
       m_poArrayMaxY := None\<rparr>"

definition set_bbox_shortcuts :: "layer_config \<Rightarrow> Array list \<Rightarrow> layer \<Rightarrow> layer" where
  "set_bbox_shortcuts cfg cols L =
     (case (GetArray cfg cols (m_iBBOXMinXField cfg), GetArray cfg cols (m_iBBOXMinYField cfg),
            GetArray cfg cols (m_iBBOXMaxXField cfg), GetArray cfg cols (m_iBBOXMaxYField cfg)) of
        ((aMinX, sMinX), (aMinY, sMinY), (aMaxX, sMaxX), (aMaxY, sMaxY)) \<Rightarrow>
          if aMinX = None \<or> aMinY = None \<or> aMaxX = None \<or> aMaxY = None then
            L\<lparr>m_poArrayBBOX := None, m_poArrayMinX := None, m_poArrayMinY := None,
              m_poArrayMaxX := None, m_poArrayMaxY := None\<rparr>
          else
            L\<lparr>m_poArrayBBOX :=
                (if sMinX \<noteq> sMinY \<or> sMinX \<noteq> sMaxX \<or> sMinX \<noteq> sMaxY then None
                 else map_option (\<lambda>i. cols ! i) sMinX),
              m_poArrayMinX := aMinX, m_poArrayMinY := aMinY,
              m_poArrayMaxX := aMaxX, m_poArrayMaxY := aMaxY\<rparr>)"

definition SetBatch :: "environment \<Rightarrow> layer_config \<Rightarrow> RecordBatch option \<Rightarrow> layer \<Rightarrow> layer" where
  "SetBatch env cfg poBatch L0 =
     (let L = clear_shortcuts (L0\<lparr>m_poBatch := poBatch\<rparr>) in
      case poBatch of
        None \<Rightarrow> L
      | Some b \<Rightarrow>
          if m_poFilterGeom L \<noteq> None \<and> filter_iCol cfg L \<ge> 0
             \<and> m_aeGeomEncoding cfg ! m_iGeomFieldFilter L = WKB
          then
            (let poArrayWKB = columns b ! nat (filter_iCol cfg L);
                 L1 = (if has_type_BINARY poArrayWKB
                       then L\<lparr>m_poArrayWKB := Some poArrayWKB\<rparr>
                       else L\<lparr>m_poArrayWKBLarge := Some poArrayWKB\<rparr>)
             in if m_iBBOXMinXField cfg \<ge> 0 \<and> m_iBBOXMinYField cfg \<ge> 0
                   \<and> m_iBBOXMaxXField cfg \<ge> 0 \<and> m_iBBOXMaxYField cfg \<ge> 0 \<and> USE_BBOX env
                then set_bbox_shortcuts cfg (columns b) L1
                else L1)
          else L)"

subsection \<open>Reading batches\<close>

text \<open>
  Modelled from the spec: \<open>ReadNextBatch\<close> is implemented by the physical readers,
  outside this file. In state NEED_BATCH it pulls the next physical batch, and an empty
  pull means the end; on every batch load the shortcuts are recomputed (\<open>SetBatch\<close>)
  and the row index starts at 0. \<open>m_iRecordBatch\<close> is the index of the current batch,
  -1 before the first.
\<close>

definition ReadNextBatch :: "environment \<Rightarrow> layer_config \<Rightarrow> layer \<Rightarrow> bool \<times> layer" where
  "ReadNextBatch env cfg L =
     (let k = m_iRecordBatch L + 1 in
      if 0 \<le> k \<and> nat k < length (batches env)
      then (True, SetBatch env cfg (Some (batches env ! nat k))
                    (L\<lparr>m_iRecordBatch := k, m_nIdxInBatch := 0\<rparr>))
      else (False, L))"

definition ResetReading :: "layer \<Rightarrow> layer" where
  "ResetReading L =
     (let L1 = L\<lparr>m_bEOF := False, m_nFeatureIdx := 0, m_nIdxInBatch := 0\<rparr> in
      if m_iRecordBatch L1 \<noteq> 0 then L1\<lparr>m_iRecordBatch := -1, m_poBatch := None\<rparr> else L1)"

section \<open>Attribute filter on a row\<close>

text \<open>
  The value the evaluator reads from a column at a row, by the type of the array: a
  numeric value in the C type the source casts to, a view on the bytes of a string, or
  nothing for a type the switch does not handle.
\<close>

datatype column_value = Numeric num_value | StringView string | Unhandled

fun read_column_value :: "Array \<Rightarrow> nat \<Rightarrow> column_value" where
  "read_column_value (BooleanArray nulls vs) i = Numeric (V_int (if vs ! i then 1 else 0))"
| "read_column_value (IntegerArray t nulls vs) i =
     (if t = UINT8 \<or> t = INT8 \<or> t = UINT16 \<or> t = INT16 \<or> t = INT32
      then Numeric (V_int (vs ! i))
      else if t = UINT32 \<or> t = INT64 then Numeric (V_GIntBig (vs ! i))
      else if t = UINT64 then Numeric (V_double (real_of_int (vs ! i)))
      else Unhandled)"
| "read_column_value (FloatingArray t nulls vs) i =
     (case t of
        HALF_FLOAT \<Rightarrow> Numeric (V_double (vs ! i))
      | FLOAT \<Rightarrow> Numeric (V_double (vs ! i))
      | DOUBLE \<Rightarrow> Numeric (V_double (vs ! i))
      | DECIMAL128 p s \<Rightarrow> Numeric (V_double (vs ! i))
      | DECIMAL256 p s \<Rightarrow> Numeric (V_double (vs ! i))
      | _ \<Rightarrow> Unhandled)"
| "read_column_value (BinaryArray t nulls vs) i =
     (if t = STRING then StringView (vs ! i) else Unhandled)"
| "read_column_value _ i = Unhandled"

definition passes_value :: "environment \<Rightarrow> Constraint \<Rightarrow> column_value \<Rightarrow> bool" where
  "passes_value env constraint v =
     (case v of
        Numeric n \<Rightarrow> ConstraintEvaluator (double_to_string env) constraint n
      | StringView s \<Rightarrow> ConstraintEvaluator_StringView constraint s
      | Unhandled \<Rightarrow> True)"

text \<open>
  \<open>SkipToNextFeatureDueToAttributeFilter\<close>, as a loop over the constraints: true
  as soon as one constraint rejects the current row.
\<close>

fun skip_due_to_constraints ::
  "environment \<Rightarrow> layer_config \<Rightarrow> layer \<Rightarrow> Constraint list \<Rightarrow> bool" where
  "skip_due_to_constraints env cfg L [] = False"
| "skip_due_to_constraints env cfg L (constraint # rest) =
     (if iArrayIdx constraint < 0 then
        (if iField constraint = length (m_fields cfg) + SPF_FID \<and> fid_column_name cfg = []
         then
           (if \<not> ConstraintEvaluator (double_to_string env) constraint
                   (V_GIntBig (int (m_nFeatureIdx L)))
            then True
            else skip_due_to_constraints env cfg L rest)
         else skip_due_to_constraints env cfg L rest)
      else
        (let array = m_poBatchColumns L ! nat (iArrayIdx constraint);
             bIsNull = IsNull array (m_nIdxInBatch L)
         in if nOperation constraint = SWQ_ISNULL then
              (if bIsNull then skip_due_to_constraints env cfg L rest else True)
            else if nOperation constraint = SWQ_ISNOTNULL then
              (if \<not> bIsNull then skip_due_to_constraints env cfg L rest else True)
            else if bIsNull then True
            else if \<not> passes_value env constraint (read_column_value array (m_nIdxInBatch L))
            then True
            else skip_due_to_constraints env cfg L rest))"

definition SkipToNextFeatureDueToAttributeFilter ::
  "environment \<Rightarrow> layer_config \<Rightarrow> layer \<Rightarrow> bool" where
  "SkipToNextFeatureDueToAttributeFilter env cfg L =
     skip_due_to_constraints env cfg L (m_asAttributeFilterConstraints L)"

section \<open>Batch cursor\<close>

definition raw_double :: "Array \<Rightarrow> nat \<Rightarrow> real" where
  "raw_double a i = (case a of FloatingArray t nulls vs \<Rightarrow> vs ! i | _ \<Rightarrow> 0)"

definition GetValue :: "Array \<Rightarrow> nat \<Rightarrow> string" where
  "GetValue a i = (case a of BinaryArray t nulls vs \<Rightarrow> vs ! i | _ \<Rightarrow> [])"

definition null_at :: "Array option \<Rightarrow> nat \<Rightarrow> bool" where
  "null_at a i = (case a of None \<Rightarrow> False | Some arr \<Rightarrow> IsNull arr i)"

text \<open>
  The spatial test of a row of a well-known-binary column: whether the row is to be
  skipped (\<open>bSkipToNextFeature\<close>). The envelope comes from the bounding-box columns
  when they are there and not null at the row, else from the bounding-box reader on the
  bytes of the geometry; a row whose bytes the reader rejects is not skipped.
\<close>

definition wkb_row_skipped :: "environment \<Rightarrow> layer \<Rightarrow> bool" where
  "wkb_row_skipped env L =
     (let i = m_nIdxInBatch L in
      if null_at (m_poArrayWKB L) i \<or> null_at (m_poArrayWKBLarge L) i then True
      else if m_poArrayMinX L \<noteq> None
              \<and> (m_poArrayBBOX L = None \<or> \<not> null_at (m_poArrayBBOX L) i)
              \<and> \<not> null_at (m_poArrayMinX L) i
      then
        \<not> Intersects (m_sFilterEnvelope L)
            (Envelope (raw_double (the (m_poArrayMinX L)) i)
                      (raw_double (the (m_poArrayMinY L)) i)
                      (raw_double (the (m_poArrayMaxX L)) i)
                      (raw_double (the (m_poArrayMaxY L)) i))
      else if m_poArrayWKB L \<noteq> None then
        (case OGRWKBGetBoundingBox env (GetValue (the (m_poArrayWKB L)) i) of
           Some sEnvelope \<Rightarrow> \<not> Intersects (m_sFilterEnvelope L) sEnvelope
         | None \<Rightarrow> False)
      else
        (let data = GetValue (the (m_poArrayWKBLarge L)) i in
         length data < INT_MAX \<and>
         (case OGRWKBGetBoundingBox env data of
            Some sEnvelope \<Rightarrow> \<not> Intersects (m_sFilterEnvelope L) sEnvelope
          | None \<Rightarrow> False)))"

text \<open>
  The fast pass over a multipolygon cell: the points of the first ring of each part
  are merged into the envelope; the other rings are not read.
\<close>

definition merge_ring_points :: "nat \<Rightarrow> real list \<Rightarrow> nat \<Rightarrow> nat \<Rightarrow> OGREnvelope \<Rightarrow> OGREnvelope" where
  "merge_ring_points nDim raw nPointOffset nPoints e =
     foldl (\<lambda>e l. Merge_point e (raw ! (nPointOffset + nDim * l))
                                  (raw ! (nPointOffset + nDim * l + 1)))
       e [0..<nPoints]"

definition merge_first_rings ::
  "nat \<Rightarrow> nat list \<Rightarrow> nat list \<Rightarrow> nat list \<Rightarrow> real list \<Rightarrow> nat \<Rightarrow> OGREnvelope \<Rightarrow> OGREnvelope" where
  "merge_first_rings nDim partOffsets ringOffsets pointOffsets raw i e =
     foldl (\<lambda>e j.
              let nRings = value_length ringOffsets (value_offset partOffsets i + j);
                  nRingOffset = value_offset ringOffsets (value_offset partOffsets i + j)
              in if nRings \<ge> 1
                 then merge_ring_points nDim raw
                        (value_offset pointOffsets nRingOffset * nDim)
                        (value_length pointOffsets nRingOffset) e
                 else e)
       e [0..<value_length partOffsets i]"

definition multipolygon_row_matches ::
  "layer_config \<Rightarrow> layer \<Rightarrow> Array \<Rightarrow> fault + bool" where
  "multipolygon_row_matches cfg L array =
     (case array of
        ListArray nulls partOffsets
          (ListArray n00 ringOffsets
             (ListArray n0 pointOffsets
                (FixedSizeListArray n1 k (FloatingArray DOUBLE n2 raw)))) \<Rightarrow>
          (let t = geom_field_types cfg ! m_iGeomFieldFilter L;
               i = m_nIdxInBatch L
           in if \<not> nulls ! i then
                Inr (value_length partOffsets i \<noteq> 0
                     \<and> Intersects (m_sFilterEnvelope L)
                         (merge_first_rings (nDim_of (gt_hasZ t) (gt_hasM t)) partOffsets
                            ringOffsets pointOffsets raw i Uninit))
              else Inr False)
      | _ \<Rightarrow> Inl UnexpectedShape)"

definition decoded_row_skipped ::
  "environment \<Rightarrow> layer_config \<Rightarrow> layer \<Rightarrow> Array \<Rightarrow> fault + bool" where
  "decoded_row_skipped env cfg L array =
     (let t = geom_field_types cfg ! m_iGeomFieldFilter L in
      case ReadGeometry (createFromWkb env) (createFromWkt env)
             (m_aeGeomEncoding cfg ! m_iGeomFieldFilter L) (gt_hasZ t) (gt_hasM t)
             array (m_nIdxInBatch L) of
        Inl f \<Rightarrow> Inl f
      | Inr None \<Rightarrow> Inr True
      | Inr (Some poGeometry) \<Rightarrow>
          Inr (IsEmpty poGeometry
               \<or> \<not> Intersects (m_sFilterEnvelope L) (getEnvelope poGeometry)))"

text \<open>
  The break conditions of the four skipping loops of \<open>GetNextRawFeature\<close>, in the
  order the source tests them. In the three spatial loops the loop is left when the row
  passes the spatial test, and also when the constraint list is not empty and the
  attribute test does not ask to skip the row.
\<close>

definition attribute_break :: "environment \<Rightarrow> layer_config \<Rightarrow> layer \<Rightarrow> bool" where
  "attribute_break env cfg L =
     (m_asAttributeFilterConstraints L \<noteq> []
      \<and> \<not> SkipToNextFeatureDueToAttributeFilter env cfg L)"

definition wkb_loop_break :: "environment \<Rightarrow> layer_config \<Rightarrow> layer \<Rightarrow> fault + bool" where
  "wkb_loop_break env cfg L =
     (if \<not> wkb_row_skipped env L then Inr True
      else if attribute_break env cfg L then Inr True
      else Inr False)"

definition multipolygon_loop_break :: "environment \<Rightarrow> layer_config \<Rightarrow> layer \<Rightarrow> fault + bool" where
  "multipolygon_loop_break env cfg L =
     (case multipolygon_row_matches cfg L (m_poBatchColumns L ! nat (filter_iCol cfg L)) of
        Inl f \<Rightarrow> Inl f
      | Inr True \<Rightarrow> Inr True
      | Inr False \<Rightarrow> if attribute_break env cfg L then Inr True else Inr False)"

definition decoded_loop_break :: "environment \<Rightarrow> layer_config \<Rightarrow> layer \<Rightarrow> fault + bool" where
  "decoded_loop_break env cfg L =
     (case decoded_row_skipped env cfg L (m_poBatchColumns L ! nat (filter_iCol cfg L)) of
        Inl f \<Rightarrow> Inl f
      | Inr False \<Rightarrow> Inr True
      | Inr True \<Rightarrow> if attribute_break env cfg L then Inr True else Inr False)"

definition attribute_loop_break :: "environment \<Rightarrow> layer_config \<Rightarrow> layer \<Rightarrow> fault + bool" where
  "attribute_loop_break env cfg L =
     (if \<not> SkipToNextFeatureDueToAttributeFilter env cfg L then Inr True else Inr False)"

text \<open>
  The skipping loop, common to the four: stay at the current row when the break
  condition holds, else count the row, move to the next and, past the last row of the
  batch, read the next batch; the end of the batches sets the end-of-data flag, with
  which \<open>GetNextRawFeature\<close> returns the null pointer. The source reads the row at the
  cursor without a check; a cursor with no batch or past the last row is a fault here.
\<close>

function advance_until ::
  "environment \<Rightarrow> layer_config \<Rightarrow> (layer \<Rightarrow> fault + bool) \<Rightarrow> layer \<Rightarrow> fault + layer" where
  "advance_until env cfg break_here L =
     (if m_poBatch L = None then Inl NoBatch
      else if m_nIdxInBatch L \<ge> batch_rows L then Inl RowOutOfRange
      else case break_here L of
        Inl f \<Rightarrow> Inl f
      | Inr True \<Rightarrow> Inr L
      | Inr False \<Rightarrow>
          (let L1 = L\<lparr>m_nFeatureIdx := m_nFeatureIdx L + 1,
                      m_nIdxInBatch := m_nIdxInBatch L + 1\<rparr>
           in if m_nIdxInBatch L1 = batch_rows L1 then
                (case ReadNextBatch env cfg L1 of
                   (ok, L2) \<Rightarrow>
                     if \<not> ok then Inr (L2\<lparr>m_bEOF := True\<rparr>)
                     else advance_until env cfg break_here L2)
              else advance_until env cfg break_here L1))"
  by pat_completeness auto

lemma set_bbox_shortcuts_cursor:
  "m_iRecordBatch (set_bbox_shortcuts cfg cols L) = m_iRecordBatch L
   \<and> m_nIdxInBatch (set_bbox_shortcuts cfg cols L) = m_nIdxInBatch L
   \<and> m_poBatch (set_bbox_shortcuts cfg cols L) = m_poBatch L"
  by (simp add: set_bbox_shortcuts_def split: prod.splits)

lemma SetBatch_cursor:
  "m_iRecordBatch (SetBatch env cfg b L) = m_iRecordBatch L
   \<and> m_nIdxInBatch (SetBatch env cfg b L) = m_nIdxInBatch L
   \<and> m_poBatch (SetBatch env cfg b L) = b"
  by (simp add: SetBatch_def Let_def clear_shortcuts_def set_bbox_shortcuts_cursor
        split: option.splits)

lemma ReadNextBatch_ok:
  assumes "ReadNextBatch env cfg L = (True, L2)"
  shows "m_iRecordBatch L2 = m_iRecordBatch L + 1 \<and> 0 \<le> m_iRecordBatch L2
       \<and> nat (m_iRecordBatch L2) < length (batches env)
       \<and> m_nIdxInBatch L2 = 0
       \<and> m_poBatch L2 = Some (batches env ! nat (m_iRecordBatch L2))"
  using assms
  by (auto simp: ReadNextBatch_def Let_def SetBatch_cursor split: if_splits)

lemma ReadNextBatch_decreases:
  assumes "(ok, L2) = ReadNextBatch env cfg L1" and ok
  shows "nat (int (length (batches env)) - m_iRecordBatch L2)
           < nat (int (length (batches env)) - m_iRecordBatch L1)"
proof -
  from assms have "ReadNextBatch env cfg L1 = (True, L2)" by simp
  from ReadNextBatch_ok [OF this] show ?thesis by auto
qed

termination advance_until
  apply (relation "measures [\<lambda>(env, cfg, b, L). nat (int (length (batches env)) - m_iRecordBatch L),
                           \<lambda>(env, cfg, b, L). batch_rows L - m_nIdxInBatch L]")
    apply simp
   apply (auto dest: ReadNextBatch_decreases simp: batch_rows_def split: option.splits)
  done

declare advance_until.simps [simp del]

section \<open>Full decode of a row\<close>

text \<open>
  A field value of a record. The decoding of dates, times, timestamps, lists and maps
  is outside this model: such a cell is represented by \<open>FOther\<close>.
\<close>

datatype OGRField =
    OGRUnset | OGRNull | FInteger int | FInteger64 int | FReal real
  | FString string | FBinary string | FOther

record OGRFeature =
  feat_FID :: int
  feat_fields :: "OGRField list"
  feat_geoms :: "OGRGeometry option list"

definition OGRNullFID :: int where "OGRNullFID = -1"

fun descend_unless_null :: "Array \<Rightarrow> int list \<Rightarrow> nat \<Rightarrow> Array option" where
  "descend_unless_null (StructArray nulls subArrays) (iArrowSubcol # path) nIdxInBatch =
     (let array = subArrays ! nat iArrowSubcol in
      if IsNull array nIdxInBatch then None
      else descend_unless_null array path nIdxInBatch)"
| "descend_unless_null array path nIdxInBatch = Some array"

fun decode_cell :: "Array \<Rightarrow> nat \<Rightarrow> OGRField" where
  "decode_cell (NullArray n) i = OGRUnset"
| "decode_cell (BooleanArray nulls vs) i = FInteger (if vs ! i then 1 else 0)"
| "decode_cell (IntegerArray t nulls vs) i =
     (if t = UINT8 \<or> t = INT8 \<or> t = UINT16 \<or> t = INT16 \<or> t = INT32 then FInteger (vs ! i)
      else if t = UINT32 \<or> t = INT64 \<or> t = TIME64 then FInteger64 (vs ! i)
      else if t = UINT64 then FReal (real_of_int (vs ! i))
      else FOther)"
| "decode_cell (FloatingArray t nulls vs) i = FReal (vs ! i)"
| "decode_cell (BinaryArray t nulls vs) i =
     (if t = STRING \<or> t = LARGE_STRING then FString (vs ! i)
      else if t = LARGE_BINARY \<and> length (vs ! i) > INT_MAX then OGRUnset
      else FBinary (vs ! i))"
| "decode_cell (ListArray nulls offsets vs) i = FOther"
| "decode_cell (FixedSizeListArray nulls k vs) i = FOther"
| "decode_cell (StructArray nulls fs) i = OGRUnset"

definition read_field :: "layer_config \<Rightarrow> Array list \<Rightarrow> nat \<Rightarrow> nat \<Rightarrow> OGRField" where
  "read_field cfg poColumnArrays nIdxInBatch i =
     (if m_bIgnoredFields cfg \<and> m_anMapFieldIndexToArrayIndex cfg ! i < 0 then OGRUnset
      else
        (let iCol = (if m_bIgnoredFields cfg then m_anMapFieldIndexToArrayIndex cfg ! i
                     else hd (m_anMapFieldIndexToArrowColumn cfg ! i));
             array = poColumnArrays ! nat iCol
         in if IsNull array nIdxInBatch then OGRNull
            else case descend_unless_null array (tl (m_anMapFieldIndexToArrowColumn cfg ! i))
                        nIdxInBatch of
                   None \<Rightarrow> OGRNull
                 | Some a \<Rightarrow> decode_cell a nIdxInBatch))"

text \<open>
  The normalisation of a decoded geometry against the declared type of its field. The
  two promotions are functions of the geometry factory, outside this file: a line
  string becomes a multi line string of one part, a polygon a multipolygon of one part.
\<close>

fun forceToMultiLineString :: "OGRGeometry \<Rightarrow> OGRGeometry" where
  "forceToMultiLineString (OGRLineString z m ps) = OGRMultiLineString z m [ps]"
| "forceToMultiLineString g = g"

fun forceToMultiPolygon :: "OGRGeometry \<Rightarrow> OGRGeometry" where
  "forceToMultiPolygon (OGRPolygon z m rs) = OGRMultiPolygon z m [rs]"
| "forceToMultiPolygon g = g"

definition normalize_geometry :: "OGRwkbGeometryType \<Rightarrow> OGRGeometry \<Rightarrow> OGRGeometry" where
  "normalize_geometry t poGeometry =
     (let g = (if getGeometryType poGeometry = wkbLineString \<and> gt_flat t = wkbMultiLineString
               then forceToMultiLineString poGeometry
               else if getGeometryType poGeometry = wkbPolygon \<and> gt_flat t = wkbMultiPolygon
               then forceToMultiPolygon poGeometry
               else poGeometry)
      in if gt_hasZ t \<and> \<not> Is3D g then set3D True g else g)"

definition read_geom_field ::
  "environment \<Rightarrow> layer_config \<Rightarrow> Array list \<Rightarrow> nat \<Rightarrow> nat \<Rightarrow> fault + OGRGeometry option" where
  "read_geom_field env cfg poColumnArrays nIdxInBatch i =
     (if m_bIgnoredFields cfg \<and> m_anMapGeomFieldIndexToArrayIndex cfg ! i < 0 then Inr None
      else
        (let iCol = (if m_bIgnoredFields cfg then m_anMapGeomFieldIndexToArrayIndex cfg ! i
                     else m_anMapGeomFieldIndexToArrowColumn cfg ! i);
             t = geom_field_types cfg ! i
         in case ReadGeometry (createFromWkb env) (createFromWkt env)
                   (m_aeGeomEncoding cfg ! i) (gt_hasZ t) (gt_hasM t)
                   (poColumnArrays ! nat iCol) nIdxInBatch of
              Inl f \<Rightarrow> Inl f
            | Inr None \<Rightarrow> Inr None
            | Inr (Some g) \<Rightarrow> Inr (Some (normalize_geometry t g))))"

fun collect :: "(fault + 'a) list \<Rightarrow> fault + 'a list" where
  "collect [] = Inr []"
| "collect (Inl f # rs) = Inl f"
| "collect (Inr x # rs) = (case collect rs of Inl f \<Rightarrow> Inl f | Inr xs \<Rightarrow> Inr (x # xs))"

definition read_fid :: "layer_config \<Rightarrow> Array list \<Rightarrow> nat \<Rightarrow> int" where
  "read_fid cfg poColumnArrays nIdxInBatch =
     (if m_iFIDArrowColumn cfg \<ge> 0 then
        (let iCol = (if m_bIgnoredFields cfg then m_nRequestedFIDColumn cfg
                     else m_iFIDArrowColumn cfg);
             array = poColumnArrays ! nat iCol
         in if \<not> IsNull array nIdxInBatch then
              (case array of
                 IntegerArray t nulls vs \<Rightarrow>
                   if t = INT64 \<or> t = INT32 then vs ! nIdxInBatch else OGRNullFID
               | _ \<Rightarrow> OGRNullFID)
            else OGRNullFID)
      else OGRNullFID)"

definition ReadFeature ::
  "environment \<Rightarrow> layer_config \<Rightarrow> nat \<Rightarrow> Array list \<Rightarrow> fault + OGRFeature" where
  "ReadFeature env cfg nIdxInBatch poColumnArrays =
     (case collect (map (read_geom_field env cfg poColumnArrays nIdxInBatch)
                      [0..<length (geom_field_types cfg)]) of
        Inl f \<Rightarrow> Inl f
      | Inr gs \<Rightarrow>
          Inr \<lparr>feat_FID = read_fid cfg poColumnArrays nIdxInBatch,
               feat_fields = map (read_field cfg poColumnArrays nIdxInBatch)
                               [0..<length (m_fields cfg)],
               feat_geoms = gs\<rparr>)"

section \<open>GetNextRawFeature\<close>

text \<open>
  The rows are skipped by one of the four loops, chosen by the filters that are set
  and by the encoding of the filtered geometry field; then the row at the cursor is
  decoded in full and the cursor moves past it. The result is a fault, or the record
  (\<open>None\<close> for the null pointer) with the new state.
\<close>

definition skip_rows :: "environment \<Rightarrow> layer_config \<Rightarrow> layer \<Rightarrow> fault + layer" where
  "skip_rows env cfg L =
     (if m_poFilterGeom L \<noteq> None then
        (let iCol = filter_iCol cfg L;
             enc = m_aeGeomEncoding cfg ! m_iGeomFieldFilter L
         in if iCol \<ge> 0 \<and> enc = WKB then advance_until env cfg (wkb_loop_break env cfg) L
            else if iCol \<ge> 0 \<and> enc = GEOARROW_MULTIPOLYGON
            then advance_until env cfg (multipolygon_loop_break env cfg) L
            else if iCol \<ge> 0 then advance_until env cfg (decoded_loop_break env cfg) L
            else Inr L)
      else if m_asAttributeFilterConstraints L \<noteq> []
      then advance_until env cfg (attribute_loop_break env cfg) L
      else Inr L)"

definition GetNextRawFeature ::
  "environment \<Rightarrow> layer_config \<Rightarrow> layer \<Rightarrow> fault + (OGRFeature option \<times> layer)" where
  "GetNextRawFeature env cfg L =
     (if m_bEOF L \<or> \<not> m_bSpatialFilterIntersectsLayerExtent L then Inr (None, L)
      else
        (let (ok, L1) = (if m_poBatch L = None \<or> m_nIdxInBatch L = batch_rows L
                         then ReadNextBatch env cfg L else (True, L))
         in if \<not> ok then Inr (None, L1\<lparr>m_bEOF := True\<rparr>)
            else case skip_rows env cfg L1 of
              Inl f \<Rightarrow> Inl f
            | Inr L2 \<Rightarrow>
                if m_bEOF L2 then Inr (None, L2)
                else if m_nIdxInBatch L2 \<ge> batch_rows L2 then Inl RowOutOfRange
                else
                  (case ReadFeature env cfg (m_nIdxInBatch L2) (m_poBatchColumns L2) of
                     Inl f \<Rightarrow> Inl f
                   | Inr poFeature \<Rightarrow>
                       Inr (Some (if m_iFIDArrowColumn cfg < 0
                                  then poFeature\<lparr>feat_FID := int (m_nFeatureIdx L2)\<rparr>
                                  else poFeature),
                            L2\<lparr>m_nFeatureIdx := m_nFeatureIdx L2 + 1,
                               m_nIdxInBatch := m_nIdxInBatch L2 + 1\<rparr>))))"

text \<open>
  Reading to the end: the records \<open>GetNextRawFeature\<close> returns until the null
  pointer, at most \<open>n\<close> of them.
\<close>

fun read_all ::
  "environment \<Rightarrow> layer_config \<Rightarrow> nat \<Rightarrow> layer \<Rightarrow> fault + OGRFeature list" where
  "read_all env cfg 0 L = Inr []"
| "read_all env cfg (Suc n) L =
     (case GetNextRawFeature env cfg L of
        Inl f \<Rightarrow> Inl f
      | Inr (None, L') \<Rightarrow> Inr []
      | Inr (Some f, L') \<Rightarrow>
          (case read_all env cfg n L' of Inl e \<Rightarrow> Inl e | Inr fs \<Rightarrow> Inr (f # fs)))"

section \<open>Setting filters\<close>

text \<open>
  \<open>ComputeConstraintsArrayIdx\<close> resolves the column of each constraint. With ignored
  fields, a constraint on the identifier pseudo-field that finds no identifier column
  while the layer has no identifier column name ends the loop, leaving the constraints
  after it unresolved.
\<close>

fun resolve_constraints :: "layer_config \<Rightarrow> Constraint list \<Rightarrow> Constraint list" where
  "resolve_constraints cfg [] = []"
| "resolve_constraints cfg (constraint # rest) =
     (if m_bIgnoredFields cfg then
        (if iField constraint = length (m_fields cfg) + SPF_FID then
           (if m_nRequestedFIDColumn cfg < 0 \<and> fid_column_name cfg = []
            then constraint\<lparr>iArrayIdx := m_nRequestedFIDColumn cfg\<rparr> # rest
            else constraint\<lparr>iArrayIdx := m_nRequestedFIDColumn cfg\<rparr>
                   # resolve_constraints cfg rest)
         else constraint\<lparr>iArrayIdx := m_anMapFieldIndexToArrayIndex cfg ! iField constraint\<rparr>
                # resolve_constraints cfg rest)
      else
        (if iField constraint = length (m_fields cfg) + SPF_FID
         then constraint\<lparr>iArrayIdx := m_iFIDArrowColumn cfg\<rparr> # resolve_constraints cfg rest
         else constraint\<lparr>iArrayIdx :=
                  hd (m_anMapFieldIndexToArrowColumn cfg ! iField constraint)\<rparr>
                # resolve_constraints cfg rest))"

definition ComputeConstraintsArrayIdx :: "layer_config \<Rightarrow> layer \<Rightarrow> layer" where
  "ComputeConstraintsArrayIdx cfg L =
     L\<lparr>m_asAttributeFilterConstraints :=
         resolve_constraints cfg (m_asAttributeFilterConstraints L)\<rparr>"

text \<open>
  Modelled from the spec: \<open>InvalidateCachedBatches\<close> is implemented by the physical
  readers. A change of predicate invalidates the cursor's cached batch-derived state:
  the current batch is dropped and reading starts again at the first batch.
\<close>

definition InvalidateCachedBatches :: "layer \<Rightarrow> layer" where
  "InvalidateCachedBatches L = ResetReading (L\<lparr>m_iRecordBatch := -1\<rparr>)"

text \<open>
  \<open>SetAttributeFilter\<close>. The parsing of the filter text is the base class's and the
  expression parser's work; its outcome is the argument: \<open>None\<close> for a text that is
  rejected, \<open>Some None\<close> for no filter, \<open>Some (Some node)\<close> for the predicate tree
  (ranges already rewritten as two comparisons). The base class stores the query and
  resets reading. The result is whether the call succeeded, and the new state.
\<close>

definition SetAttributeFilter ::
  "environment \<Rightarrow> layer_config \<Rightarrow> bool \<Rightarrow> swq_expr_node option option \<Rightarrow> layer
     \<Rightarrow> bool \<times> layer" where
  "SetAttributeFilter env cfg use_optimized parsed L =
     (let L1 = L\<lparr>m_asAttributeFilterConstraints := []\<rparr>;
          L2 = (if m_poAttrQuery L1 \<noteq> None then InvalidateCachedBatches L1 else L1)
      in case parsed of
           None \<Rightarrow> (False, L2)
         | Some query \<Rightarrow>
             (let L3 = ResetReading (L2\<lparr>m_poAttrQuery := query\<rparr>) in
              case query of
                None \<Rightarrow> (True, L3)
              | Some poNode \<Rightarrow>
                  if use_optimized then
                    (True, ComputeConstraintsArrayIdx cfg
                       (L3\<lparr>m_asAttributeFilterConstraints :=
                            m_asAttributeFilterConstraints L3
                              @ ExploreExprNode (double_to_string env) (defn_of cfg) poNode\<rparr>))
                  else (True, L3)))"

text \<open>
  \<open>GetExtentFromMetadata\<close> on the numbers of the "bbox" array of a geometry column:
  four numbers are minX, minY, maxX, maxY, six have Z bounds at the third and sixth
  place; the extent is accepted when minX is not above maxX.
\<close>

definition GetExtentFromMetadata :: "real list option \<Rightarrow> OGREnvelope option" where
  "GetExtentFromMetadata oBBox =
     (case oBBox of
        None \<Rightarrow> None
      | Some b \<Rightarrow>
          if length b = 4 then
            (if b ! 0 \<le> b ! 2 then Some (Envelope (b ! 0) (b ! 1) (b ! 2) (b ! 3)) else None)
          else if length b = 6 then
            (if b ! 0 \<le> b ! 3 then Some (Envelope (b ! 0) (b ! 1) (b ! 3) (b ! 4)) else None)
          else None)"

definition FastGetExtent :: "environment \<Rightarrow> layer \<Rightarrow> nat \<Rightarrow> OGREnvelope option" where
  "FastGetExtent env L iGeomField =
     (case m_oMapExtents L iGeomField of
        Some e \<Rightarrow> Some e
      | None \<Rightarrow>
          if USE_BBOX env then GetExtentFromMetadata (metadata_bbox env iGeomField) else None)"

text \<open>
  \<open>SetSpatialFilter\<close>. Installing the filter is the base class's work: it stores the
  geometry and its envelope, and reports whether the filter changed.
\<close>

definition InstallFilter :: "OGRGeometry option \<Rightarrow> layer \<Rightarrow> bool \<times> layer" where
  "InstallFilter poGeomIn L =
     (if m_poFilterGeom L = poGeomIn then (False, L)
      else (True, L\<lparr>m_poFilterGeom := poGeomIn,
                    m_sFilterEnvelope :=
                      (case poGeomIn of None \<Rightarrow> m_sFilterEnvelope L
                       | Some g \<Rightarrow> getEnvelope g)\<rparr>))"

definition SetSpatialFilter ::
  "environment \<Rightarrow> layer_config \<Rightarrow> int \<Rightarrow> OGRGeometry option \<Rightarrow> layer \<Rightarrow> layer" where
  "SetSpatialFilter env cfg iGeomField poGeomIn L =
     (if iGeomField < 0
         \<or> (iGeomField \<ge> int (length (geom_field_types cfg))
             \<and> \<not> (iGeomField = 0 \<and> poGeomIn = None))
      then L
      else
        (let L1 = (if m_poFilterGeom L \<noteq> None then InvalidateCachedBatches L else L);
             L2 = L1\<lparr>m_bSpatialFilterIntersectsLayerExtent := True\<rparr>;
             L3 = (if iGeomField < int (length (geom_field_types cfg)) then
                     (let L4 = L2\<lparr>m_iGeomFieldFilter := nat iGeomField\<rparr>;
                          L5 = (case InstallFilter poGeomIn L4 of
                                  (changed, L') \<Rightarrow> if changed then ResetReading L' else L')
                      in if m_poFilterGeom L5 \<noteq> None then
                           (case FastGetExtent env L5 (nat iGeomField) of
                              Some sLayerExtent \<Rightarrow>
                                L5\<lparr>m_bSpatialFilterIntersectsLayerExtent :=
                                     Intersects (m_sFilterEnvelope L5) sLayerExtent\<rparr>
                            | None \<Rightarrow> L5)
                         else L5)
                   else L2)
         in SetBatch env cfg (m_poBatch L3) L3))"

section \<open>Extent\<close>

text \<open>
  The two fast passes of \<open>GetExtent\<close> visit every row of every batch from the
  cursor on, merging the envelope of the row into the extent. Each is a loop of its
  own in the source, with the same advance; the per-row step is passed as \<open>step\<close>.
  \<open>None\<close> from the step is the failed assertion on the shape of the column.
\<close>

function extent_loop ::
  "environment \<Rightarrow> layer_config \<Rightarrow> (RecordBatch \<Rightarrow> nat \<Rightarrow> OGREnvelope \<Rightarrow> fault + OGREnvelope)
     \<Rightarrow> OGREnvelope \<Rightarrow> layer \<Rightarrow> fault + (OGREnvelope \<times> layer)" where
  "extent_loop env cfg step psExtent L =
     (case m_poBatch L of
        None \<Rightarrow> Inl NoBatch
      | Some b \<Rightarrow>
          if m_nIdxInBatch L \<ge> num_rows b then Inl RowOutOfRange
          else
            (case step b (m_nIdxInBatch L) psExtent of
               Inl f \<Rightarrow> Inl f
             | Inr psExtent' \<Rightarrow>
                 (let L1 = L\<lparr>m_nFeatureIdx := m_nFeatureIdx L + 1,
                             m_nIdxInBatch := m_nIdxInBatch L + 1\<rparr>
                  in if m_nIdxInBatch L1 = num_rows b then
                       (case ReadNextBatch env cfg L1 of
                          (ok, L2) \<Rightarrow>
                            if \<not> ok
                            then Inr (psExtent', ResetReading (L2\<lparr>m_bEOF := True\<rparr>))
                            else extent_loop env cfg step psExtent' L2)
                     else extent_loop env cfg step psExtent' L1)))"
  by pat_completeness auto
termination
  apply (relation "measures [\<lambda>(env, cfg, s, e, L). nat (int (length (batches env)) - m_iRecordBatch L),
                           \<lambda>(env, cfg, s, e, L). batch_rows L - m_nIdxInBatch L]")
    apply simp
   apply (auto dest: ReadNextBatch_decreases simp: batch_rows_def split: option.splits)
  done

declare extent_loop.simps [simp del]

text \<open>The step of the well-known-binary pass and of the multipolygon pass.\<close>

definition wkb_extent_step ::
  "environment \<Rightarrow> nat \<Rightarrow> RecordBatch \<Rightarrow> nat \<Rightarrow> OGREnvelope \<Rightarrow> fault + OGREnvelope" where
  "wkb_extent_step env iCol b i psExtent =
     (let array = columns b ! iCol in
      if \<not> IsNull array i then
        (if has_type_BINARY array then
           (case OGRWKBGetBoundingBox env (GetValue array i) of
              Some sEnvelope \<Rightarrow> Inr (Merge psExtent sEnvelope)
            | None \<Rightarrow> Inr psExtent)
         else
           (if length (GetValue array i) < INT_MAX then
              (case OGRWKBGetBoundingBox env (GetValue array i) of
                 Some sEnvelope \<Rightarrow> Inr (Merge psExtent sEnvelope)
               | None \<Rightarrow> Inr psExtent)
            else Inr psExtent))
      else Inr psExtent)"

definition multipolygon_extent_step ::
  "nat \<Rightarrow> nat \<Rightarrow> RecordBatch \<Rightarrow> nat \<Rightarrow> OGREnvelope \<Rightarrow> fault + OGREnvelope" where
  "multipolygon_extent_step nDim iCol b i psExtent =
     (case columns b ! iCol of
        ListArray nulls partOffsets
          (ListArray n00 ringOffsets
             (ListArray n0 pointOffsets
                (FixedSizeListArray n1 k (FloatingArray DOUBLE n2 raw)))) \<Rightarrow>
          if \<not> nulls ! i
          then Inr (merge_first_rings nDim partOffsets ringOffsets pointOffsets raw i psExtent)
          else Inr psExtent
      | _ \<Rightarrow> Inl UnexpectedShape)"

text \<open>
  A fast pass as \<open>GetExtent\<close> starts and ends it: reading is reset, the first batch
  is read if there is no current one, and at the end the extent is stored in the cache
  if it is initialised. The result is the extent (\<open>None\<close> for a failure) and the new
  state.
\<close>

definition fast_extent_pass ::
  "environment \<Rightarrow> layer_config \<Rightarrow> (RecordBatch \<Rightarrow> nat \<Rightarrow> OGREnvelope \<Rightarrow> fault + OGREnvelope)
     \<Rightarrow> nat \<Rightarrow> layer \<Rightarrow> fault + (OGREnvelope option \<times> layer)" where
  "fast_extent_pass env cfg step iGeomField L =
     (let L0 = ResetReading L;
          (ok, L1) = (if m_poBatch L0 = None then ReadNextBatch env cfg L0 else (True, L0))
      in if \<not> ok then Inr (None, L1\<lparr>m_bEOF := True\<rparr>)
         else case extent_loop env cfg step Uninit L1 of
           Inl f \<Rightarrow> Inl f
         | Inr (psExtent, L2) \<Rightarrow>
             if IsInit psExtent
             then Inr (Some psExtent,
                       L2\<lparr>m_oMapExtents := (m_oMapExtents L2)(iGeomField \<mapsto> psExtent)\<rparr>)
             else Inr (None, L2))"

text \<open>
  \<open>GetExtent\<close>. For the other encodings the extent is the generic implementation's,
  of the base class, passed as \<open>GetExtentInternal\<close>.
\<close>

definition GetExtent ::
  "environment \<Rightarrow> layer_config \<Rightarrow> (layer \<Rightarrow> nat \<Rightarrow> bool \<Rightarrow> OGREnvelope option \<times> layer)
     \<Rightarrow> int \<Rightarrow> bool \<Rightarrow> layer \<Rightarrow> fault + (OGREnvelope option \<times> layer)" where
  "GetExtent env cfg GetExtentInternal iGeomField bForce L =
     (if iGeomField < 0 \<or> iGeomField \<ge> int (length (geom_field_types cfg)) then Inr (None, L)
      else case FastGetExtent env L (nat iGeomField) of
        Some e \<Rightarrow> Inr (Some e, L)
      | None \<Rightarrow>
          if \<not> bForce \<and> \<not> CanRunNonForcedGetExtent env then Inr (None, L)
          else
            (let iCol = (if m_bIgnoredFields cfg
                         then m_anMapGeomFieldIndexToArrayIndex cfg ! nat iGeomField
                         else m_anMapGeomFieldIndexToArrowColumn cfg ! nat iGeomField);
                 t = geom_field_types cfg ! nat iGeomField
             in if iCol < 0 then Inr (None, L)
                else if m_aeGeomEncoding cfg ! nat iGeomField = WKB then
                  fast_extent_pass env cfg (wkb_extent_step env (nat iCol)) (nat iGeomField) L
                else if m_aeGeomEncoding cfg ! nat iGeomField = GEOARROW_MULTIPOLYGON then
                  fast_extent_pass env cfg
                    (multipolygon_extent_step (nDim_of (gt_hasZ t) (gt_hasM t)) (nat iCol))
                    (nat iGeomField) L
                else Inr (GetExtentInternal L (nat iGeomField) bForce)))"

section \<open>A scenario: three rows, a name and a point\<close>

text \<open>
  A layer with one string field "name" and one well-known-binary point field, no
  identifier column and no ignored fields; one batch of three rows with the names "a",
  null, "c" and the geometry bytes \<open>w1\<close>, \<open>w2\<close>, \<open>w3\<close>.
\<close>

definition scenario_cfg :: layer_config where
  "scenario_cfg =
     \<lparr>m_fields = [new_OGRFieldDefn ''name'' OFTString],
      m_anMapFieldIndexToArrowColumn = [[0]],
      m_iBBOXMinXField = -1, m_iBBOXMinYField = -1, m_iBBOXMaxXField = -1,
      m_iBBOXMaxYField = -1, m_warnings = [],
      fid_column_name = [],
      geom_field_types = [\<lparr>gt_flat = wkbPoint, gt_hasZ = False, gt_hasM = False\<rparr>],
      m_aeGeomEncoding = [WKB],
      m_bIgnoredFields = False,
      m_anMapFieldIndexToArrayIndex = [],
      m_anMapGeomFieldIndexToArrowColumn = [1],
      m_anMapGeomFieldIndexToArrayIndex = [],
      m_iFIDArrowColumn = -1,
      m_nRequestedFIDColumn = -1\<rparr>"

definition scenario_batch :: "string \<Rightarrow> string \<Rightarrow> string \<Rightarrow> RecordBatch" where
  "scenario_batch w1 w2 w3 =
     \<lparr>num_rows = 3,
      columns = [BinaryArray STRING [False, True, False] [''a'', [], ''c''],
                 BinaryArray BINARY [False, False, False] [w1, w2, w3]]\<rparr>"

definition scenario_env ::
  "(string \<Rightarrow> OGRGeometry option) \<Rightarrow> (string \<Rightarrow> OGREnvelope option) \<Rightarrow> RecordBatch list
     \<Rightarrow> environment" where
  "scenario_env parse_wkb bbox_of_wkb bs =
     \<lparr>batches = bs,
      OGRWKBGetBoundingBox = bbox_of_wkb,
      createFromWkb = parse_wkb,
      createFromWkt = (\<lambda>t. None),
      double_to_string = (\<lambda>x. []),
      USE_BBOX = True,
      metadata_bbox = (\<lambda>i. None),
      CanRunNonForcedGetExtent = True\<rparr>"

definition new_layer :: layer where
  "new_layer =
     \<lparr>m_poFilterGeom = None, m_sFilterEnvelope = Uninit, m_iGeomFieldFilter = 0,
      m_poAttrQuery = None, m_asAttributeFilterConstraints = [],
      m_bSpatialFilterIntersectsLayerExtent = True, m_oMapExtents = Map.empty,
      m_bEOF = False, m_iRecordBatch = -1, m_poBatch = None, m_nIdxInBatch = 0,
      m_nFeatureIdx = 0, m_poArrayWKB = None, m_poArrayWKBLarge = None,
      m_poArrayBBOX = None, m_poArrayMinX = None, m_poArrayMinY = None,
      m_poArrayMaxX = None, m_poArrayMaxY = None\<rparr>"

text \<open>The predicate \<open>name != 'a'\<close>, and the layer after it is set as attribute filter.\<close>

definition name_is_not_a :: swq_expr_node where
  "name_is_not_a = SNT_OPERATION SWQ_NE [SNT_COLUMN 0, SNT_CONSTANT SWQ_STRING 0 0 ''a'']"

definition scenario_layer :: "environment \<Rightarrow> layer" where
  "scenario_layer env =
     snd (SetAttributeFilter env scenario_cfg True (Some (Some name_is_not_a)) new_layer)"

text \<open>
  The same layer with a spatial filter on the geometry field as well: a filter
  geometry whose envelope is the square from (10, 10) to (20, 20).
\<close>

definition filter_box :: OGRGeometry where
  "filter_box = OGRLineString False False [(10, 10, 0, 0), (20, 20, 0, 0)]"

definition spatial_layer :: "environment \<Rightarrow> layer" where
  "spatial_layer env = SetSpatialFilter env scenario_cfg 0 (Some filter_box) (scenario_layer env)"

definition spatial_at :: "environment \<Rightarrow> RecordBatch \<Rightarrow> nat \<Rightarrow> layer" where
  "spatial_at env b i =
     (spatial_layer env)\<lparr>m_iRecordBatch := 0, m_poBatch := Some b,
        m_nIdxInBatch := i, m_nFeatureIdx := i, m_poArrayWKB := Some (columns b ! 1)\<rparr>"

section \<open>Scenarios for the extent\<close>

text \<open>
  The layer of the scenario above, where the bounding-box reader gives the first row
  the box from (0, 0) to (1, 1), the second the box from (2, 2) to (3, 3) and fails on
  the third; and the state of a new layer after the extent of the geometry field has
  been computed.
\<close>

definition extent_env :: environment where
  "extent_env =
     scenario_env (\<lambda>w. None)
       (\<lambda>w. if w = ''p1'' then Some (Envelope 0 0 1 1)
            else if w = ''p2'' then Some (Envelope 2 2 3 3) else None)
       [scenario_batch ''p1'' ''p2'' ''p3'']"

definition extent_done :: layer where
  "extent_done =
     new_layer\<lparr>m_oMapExtents := [0 \<mapsto> Envelope 0 0 3 3], m_iRecordBatch := 0,
       m_poBatch := Some (scenario_batch ''p1'' ''p2'' ''p3'')\<rparr>"

text \<open>
  A layer whose geometry field is encoded as points (a fixed-size list of two
  doubles), with one row.
\<close>

definition point_cfg :: layer_config where
  "point_cfg = scenario_cfg\<lparr>m_aeGeomEncoding := [GEOARROW_POINT]\<rparr>"

definition point_env :: environment where
  "point_env =
     scenario_env (\<lambda>w. None) (\<lambda>w. None)
       [\<lparr>num_rows = 1,
         columns = [BinaryArray STRING [False] [''a''],
                    FixedSizeListArray [False] 2 (FloatingArray DOUBLE [False, False] [0, 1])]\<rparr>]"

section \<open>Append buffer of the text-to-binary export\<close>

text \<open>
  Sizes are \<open>size_t\<close> values, of 64 bits: \<open>size_t\<close> is the value an arithmetic
  result wraps to. Offsets of the target array are \<open>uint32_t\<close> values.
\<close>

definition size_t :: "int \<Rightarrow> nat" where
  "size_t x = nat (x mod 2 ^ 64)"

definition uint32_t :: "nat \<Rightarrow> nat" where
  "uint32_t x = x mod 2 ^ 32"

definition MAX_SIZE_SINT32 :: nat where
  "MAX_SIZE_SINT32 = 2147483647"

text \<open>
  The allocator is outside this file. An allocation succeeds or fails; the outcomes of
  the allocations to come are a parameter, consumed one per allocation (none left: the
  allocation fails).
\<close>

definition VSI_MALLOC_ALIGNED_AUTO_VERBOSE :: "bool list \<Rightarrow> bool \<times> bool list" where
  "VSI_MALLOC_ALIGNED_AUTO_VERBOSE heap =
     (case heap of [] \<Rightarrow> (False, []) | ok # rest \<Rightarrow> (ok, rest))"

text \<open>
  The buffer: its capacity, its size, and the bytes written so far (the first
  \<open>m_nSize\<close> bytes of the raw buffer).
\<close>

record OGRAppendBuffer =
  m_nCapacity :: nat
  m_nSize :: nat
  m_pRawBuffer :: string

text \<open>
  \<open>OGRArrowLayerAppendBuffer::Grow\<close>. The copy into the new buffer keeps the
  bytes written.
\<close>

definition Grow ::
  "bool list \<Rightarrow> nat \<Rightarrow> OGRAppendBuffer \<Rightarrow> bool \<times> OGRAppendBuffer \<times> bool list" where
  "Grow heap nItemSize B =
     (if nItemSize > size_t (int MAX_SIZE_SINT32 - int (m_nSize B)) then (False, B, heap)
      else
        (let nNewCapacity = size_t (int (m_nSize B) + int nItemSize);
             nDoubleCapacity = min MAX_SIZE_SINT32 (size_t (2 * int (m_nCapacity B)));
             nNewCapacity' = (if nNewCapacity < nDoubleCapacity then nDoubleCapacity
                              else nNewCapacity)
         in case VSI_MALLOC_ALIGNED_AUTO_VERBOSE heap of
              (newBuffer, heap') \<Rightarrow>
                if \<not> newBuffer then (False, B, heap')
                else (True, B\<lparr>m_nCapacity := nNewCapacity'\<rparr>, heap')))"

text \<open>
  Modelled from the spec: \<open>GetPtrForNewBytes\<close> of the base class of the buffer,
  which is declared outside this file. The translator appends bytes into the growable
  buffer: where the item does not fit into the capacity left the buffer grows, and the
  append fails if growing fails; else the item is written after the bytes already
  there.
\<close>

definition GetPtrForNewBytes ::
  "bool list \<Rightarrow> string \<Rightarrow> OGRAppendBuffer \<Rightarrow> bool \<times> OGRAppendBuffer \<times> bool list" where
  "GetPtrForNewBytes heap item B =
     (let nItemSize = length item;
          (grown, B1, heap1) =
             (if nItemSize > size_t (int (m_nCapacity B) - int (m_nSize B))
              then Grow heap nItemSize B else (True, B, heap))
      in if \<not> grown then (False, B1, heap1)
         else (True, B1\<lparr>m_nSize := size_t (int (m_nSize B1) + int nItemSize),
                        m_pRawBuffer := m_pRawBuffer B1 @ item\<rparr>, heap1))"

text \<open>
  Modelled from the spec: \<open>TranslateWKT\<close> of the streaming translator, which is
  declared outside this file. It consumes a text and appends the bytes of its binary
  form, in one or several items; the grammar is the parameter \<open>wkt_to_wkb\<close>, giving
  the items of a text (\<open>None\<close> for a text it rejects). The result is the number of
  bytes appended, \<open>None\<close> for the failure value.
\<close>

fun append_items ::
  "bool list \<Rightarrow> string list \<Rightarrow> OGRAppendBuffer \<Rightarrow> bool \<times> OGRAppendBuffer \<times> bool list" where
  "append_items heap [] B = (True, B, heap)"
| "append_items heap (item # items) B =
     (case GetPtrForNewBytes heap item B of
        (ok, B1, heap1) \<Rightarrow>
          if \<not> ok then (False, B1, heap1) else append_items heap1 items B1)"

definition TranslateWKT ::
  "(string \<Rightarrow> string list option) \<Rightarrow> bool list \<Rightarrow> string \<Rightarrow> OGRAppendBuffer
     \<Rightarrow> nat option \<times> OGRAppendBuffer \<times> bool list" where
  "TranslateWKT wkt_to_wkb heap wkt B =
     (case wkt_to_wkb wkt of
        None \<Rightarrow> (None, B, heap)
      | Some items \<Rightarrow>
          (case append_items heap items B of
             (ok, B1, heap1) \<Rightarrow>
               if ok then (Some (length (concat items)), B1, heap1) else (None, B1, heap1)))"

text \<open>Whether a row is null in the validity buffer of the target, if it has one.\<close>

definition row_is_null :: "bool list option \<Rightarrow> nat \<Rightarrow> bool" where
  "row_is_null targetNull i = (case targetNull of Some nulls \<Rightarrow> nulls ! i | None \<Rightarrow> False)"

text \<open>
  The loop over the rows of \<open>CreateWKBArrayFromWKTArray\<close>: the offset of each row is
  the size of the buffer before the row; a null row is passed over; a failed
  translation ends the build. \<open>targetNull\<close> is the null flag of each row if the
  target has a validity buffer.
\<close>

fun translate_rows ::
  "(string \<Rightarrow> string list option) \<Rightarrow> bool list option \<Rightarrow> string list \<Rightarrow> nat \<Rightarrow> nat list
     \<Rightarrow> OGRAppendBuffer \<Rightarrow> bool list \<Rightarrow> (nat list \<times> OGRAppendBuffer) option \<times> bool list" where
  "translate_rows wkt_to_wkb targetNull [] i targetOffsets B heap =
     (Some (targetOffsets, B), heap)"
| "translate_rows wkt_to_wkb targetNull (wkt # rest) i targetOffsets B heap =
     (let targetOffsets1 = targetOffsets @ [uint32_t (m_nSize B)] in
      if row_is_null targetNull i
      then translate_rows wkt_to_wkb targetNull rest (i + 1) targetOffsets1 B heap
      else
        (case TranslateWKT wkt_to_wkb heap wkt B of
           (nWKBSize, B1, heap1) \<Rightarrow>
             if nWKBSize = None then (None, heap1)
             else translate_rows wkt_to_wkb targetNull rest (i + 1) targetOffsets1 B1 heap1))"

text \<open>
  The target array: the null flag of each row (if there is a validity buffer), the
  offsets and the bytes.
\<close>

record WKBArray =
  wkb_nulls :: "bool list option"
  wkb_offsets :: "nat list"
  wkb_data :: string

text \<open>
  The source array of texts: its null count, the null flag of each row if it has a
  validity buffer, and the text of each row.
\<close>

record WKTArray =
  null_count :: int
  wkt_nulls :: "bool list option"
  wkt_texts :: "string list"

text \<open>
  \<open>CreateWKBArrayFromWKTArray\<close>. The three buffers are allocated first (the
  validity buffer only if the source has a null count and a validity buffer), then
  checked; the result is \<open>None\<close> for the null pointer.
\<close>

definition CreateWKBArrayFromWKTArray ::
  "(string \<Rightarrow> string list option) \<Rightarrow> bool list \<Rightarrow> WKTArray
     \<Rightarrow> WKBArray option \<times> bool list" where
  "CreateWKBArrayFromWKTArray wkt_to_wkb heap sourceArray =
     (let nLength = length (wkt_texts sourceArray);
          has_nulls = (null_count sourceArray \<noteq> 0 \<and> wkt_nulls sourceArray \<noteq> None);
          (validity, heap1) =
             (if has_nulls then VSI_MALLOC_ALIGNED_AUTO_VERBOSE heap else (False, heap));
          targetNull = (if has_nulls \<and> validity then wkt_nulls sourceArray else None);
          (offsets, heap2) = VSI_MALLOC_ALIGNED_AUTO_VERBOSE heap1;
          nInitialCapacity = uint32_t (min MAX_SIZE_SINT32 (size_t (100 * int nLength)));
          (data, heap3) = VSI_MALLOC_ALIGNED_AUTO_VERBOSE heap2
      in if (has_nulls \<and> targetNull = None) \<or> \<not> offsets \<or> \<not> data then (None, heap3)
         else
           (case translate_rows wkt_to_wkb targetNull (wkt_texts sourceArray) 0 []
                   \<lparr>m_nCapacity = nInitialCapacity, m_nSize = 0, m_pRawBuffer = []\<rparr> heap3 of
              (None, heap4) \<Rightarrow> (None, heap4)
            | (Some (targetOffsets, B), heap4) \<Rightarrow>
                (Some \<lparr>wkb_nulls = targetNull,
                       wkb_offsets = targetOffsets @ [uint32_t (m_nSize B)],
                       wkb_data = m_pRawBuffer B\<rparr>, heap4)))"

text \<open>
  What the invariant of the buffer is: the size is within the capacity, the capacity
  within the largest signed 32-bit value, and the bytes written are as many as the
  size.
\<close>

definition buffer_ok :: "OGRAppendBuffer \<Rightarrow> bool" where
  "buffer_ok B \<longleftrightarrow>
     m_nSize B \<le> m_nCapacity B \<and> m_nCapacity B \<le> MAX_SIZE_SINT32
     \<and> length (m_pRawBuffer B) = m_nSize B"

text \<open>
  The bytes of the complete target array: those of every row that is not null, in
  order; and the offset of each row in them.
\<close>

fun row_bytes ::
  "(string \<Rightarrow> string list option) \<Rightarrow> bool list option \<Rightarrow> string list \<Rightarrow> nat \<Rightarrow> string list" where
  "row_bytes wkt_to_wkb targetNull [] i = []"
| "row_bytes wkt_to_wkb targetNull (wkt # rest) i =
     (if row_is_null targetNull i then []
      else concat (the (wkt_to_wkb wkt)))
     # row_bytes wkt_to_wkb targetNull rest (i + 1)"

fun offsets_from :: "nat \<Rightarrow> string list \<Rightarrow> nat list" where
  "offsets_from n [] = [n]"
| "offsets_from n (r # rs) = n # offsets_from (n + length r) rs"


text \<open>
  Every allocation made between two states of the allocator succeeded: the outcomes
  consumed are all successes.
\<close>

definition all_succeeded :: "bool list \<Rightarrow> bool list \<Rightarrow> bool" where
  "all_succeeded heap heap' \<longleftrightarrow>
     length heap' \<le> length heap
     \<and> drop (length heap - length heap') heap = heap'
     \<and> list_all (\<lambda>ok. ok) (take (length heap - length heap') heap)"

section \<open>Batch export\<close>

text \<open>
  A text column of an exported batch as the source of the translation (an exported
  array has its validity buffer and its null count), and the target as a binary
  column: the value of a row is the bytes between its offset and the next.
\<close>

definition WKTArray_of :: "Array \<Rightarrow> WKTArray option" where
  "WKTArray_of a =
     (case a of
        BinaryArray t nulls vs \<Rightarrow>
          if t = STRING \<or> t = LARGE_STRING
          then Some \<lparr>null_count = int (length (filter (\<lambda>b. b) nulls)),
                     wkt_nulls = Some nulls, wkt_texts = vs\<rparr>
          else None
      | _ \<Rightarrow> None)"

definition Array_of_WKB :: "WKBArray \<Rightarrow> Array" where
  "Array_of_WKB target =
     (let n = length (wkb_offsets target) - 1 in
      BinaryArray BINARY
        (case wkb_nulls target of Some nulls \<Rightarrow> nulls | None \<Rightarrow> replicate n False)
        (map (\<lambda>i. take (wkb_offsets target ! (i + 1) - wkb_offsets target ! i)
                      (drop (wkb_offsets target ! i) (wkb_data target)))
           [0..<n]))"

text \<open>
  What the export depends on besides the layer: whether the base implementation is
  used, whether the caller asked for the geometry encoding "WKB", which geometry fields
  are ignored; and the collaborators outside this file: the export of a batch to the
  columnar interface (\<open>None\<close> where it fails), the filtering of an exported array
  under the filters of the layer (with the identifier of its first row, if the layer
  has no identifier column), the grammar of the text-to-binary translator, and the base
  implementation.
\<close>

record arrow_stream =
  m_bUseRecordBatchBaseImplementation :: bool
  GEOMETRY_ENCODING_is_WKB :: bool
  geom_IsIgnored :: "bool list"
  ExportRecordBatch :: "RecordBatch \<Rightarrow> RecordBatch option"
  PostFilterArrowArray :: "layer \<Rightarrow> nat option \<Rightarrow> RecordBatch \<Rightarrow> RecordBatch"
  wkt_grammar :: "string \<Rightarrow> string list option"

definition EIO :: int where "EIO = 5"

definition ENOMEM :: int where "ENOMEM = 12"

text \<open>
  The replacement of the text geometry columns of an exported array by binary ones,
  over the geometry fields in order. The result is \<open>None\<close> where a translation gave
  the null pointer (the array is released and zeroed), a fault for a column that is
  not an array of texts or an encoding that is neither.
\<close>

fun replace_wkt_columns ::
  "layer_config \<Rightarrow> arrow_stream \<Rightarrow> nat list \<Rightarrow> RecordBatch \<Rightarrow> bool list
     \<Rightarrow> fault + (RecordBatch option \<times> bool list)" where
  "replace_wkt_columns cfg stream [] out_array heap = Inr (Some out_array, heap)"
| "replace_wkt_columns cfg stream (i # rest) out_array heap =
     (if \<not> geom_IsIgnored stream ! i then
        (if m_aeGeomEncoding cfg ! i = WKT then
           (let nArrayIdx = nat (if m_bIgnoredFields cfg
                                 then m_anMapGeomFieldIndexToArrayIndex cfg ! i
                                 else m_anMapGeomFieldIndexToArrowColumn cfg ! i)
            in case WKTArray_of (columns out_array ! nArrayIdx) of
                 None \<Rightarrow> Inl UnexpectedShape
               | Some sourceArray \<Rightarrow>
                   (case CreateWKBArrayFromWKTArray (wkt_grammar stream) heap sourceArray of
                      (Some targetArray, heap1) \<Rightarrow>
                        replace_wkt_columns cfg stream rest
                          (out_array\<lparr>columns :=
                               (columns out_array)[nArrayIdx := Array_of_WKB targetArray]\<rparr>)
                          heap1
                    | (None, heap1) \<Rightarrow> Inr (None, heap1)))
         else if m_aeGeomEncoding cfg ! i \<noteq> WKB then Inl UnexpectedShape
         else replace_wkt_columns cfg stream rest out_array heap)
      else replace_wkt_columns cfg stream rest out_array heap)"

text \<open>Whether the cursor has no row of a current batch left to export.\<close>

definition needs_batch :: "layer \<Rightarrow> bool" where
  "needs_batch L \<longleftrightarrow> m_poBatch L = None \<or> m_nIdxInBatch L = batch_rows L"

text \<open>The batch to export: the current one, or the next if none of its rows is left.\<close>

definition batch_to_export :: "environment \<Rightarrow> layer_config \<Rightarrow> layer \<Rightarrow> bool \<times> layer" where
  "batch_to_export env cfg L = (if needs_batch L then ReadNextBatch env cfg L else (True, L))"

text \<open>
  One round of the loop of \<open>GetNextArrowArray\<close>, on the path that does not use
  the base implementation: it returns, with the error number, the output array
  (\<open>None\<close> when it is zeroed), the new state and the allocator, or it starts again
  with a new batch. \<open>out_array\<close> is the output array as the caller passes it.
\<close>

datatype export_outcome =
    Returns int "RecordBatch option" layer "bool list"
  | Continues layer "bool list"

definition export_round ::
  "environment \<Rightarrow> layer_config \<Rightarrow> arrow_stream \<Rightarrow> RecordBatch option \<Rightarrow> bool list \<Rightarrow> layer
     \<Rightarrow> fault + export_outcome" where
  "export_round env cfg stream out_array heap L =
     (if m_bEOF L then Inr (Returns 0 None L heap)
      else
        (case batch_to_export env cfg L of
           (ok, L1) \<Rightarrow>
             if \<not> ok then
               Inr (Returns 0 None
                      ((if m_poAttrQuery L1 \<noteq> None \<or> m_poFilterGeom L1 \<noteq> None
                        then InvalidateCachedBatches L1 else L1)\<lparr>m_bEOF := True\<rparr>) heap)
             else
               (case m_poBatch L1 of
                  None \<Rightarrow> Inl NoBatch
                | Some b \<Rightarrow>
                    (let L2 = L1\<lparr>m_nIdxInBatch := num_rows b\<rparr> in
                     case ExportRecordBatch stream b of
                       None \<Rightarrow> Inr (Returns EIO out_array L2 heap)
                     | Some exported \<Rightarrow>
                         (case (if GEOMETRY_ENCODING_is_WKB stream
                                then replace_wkt_columns cfg stream
                                       [0..<length (geom_field_types cfg)] exported heap
                                else Inr (Some exported, heap)) of
                            Inl f \<Rightarrow> Inl f
                          | Inr (None, heap1) \<Rightarrow> Inr (Returns ENOMEM None L2 heap1)
                          | Inr (Some array, heap1) \<Rightarrow>
                              (let nFeatureIdxCur = m_nFeatureIdx L2;
                                   L3 = L2\<lparr>m_nFeatureIdx := m_nFeatureIdx L2 + m_nIdxInBatch L2\<rparr>
                               in if m_poAttrQuery L3 \<noteq> None \<or> m_poFilterGeom L3 \<noteq> None then
                                    (let filtered =
                                           PostFilterArrowArray stream L3
                                             (if m_iFIDArrowColumn cfg < 0
                                              then Some nFeatureIdxCur else None) array
                                     in if num_rows filtered = 0
                                        then Inr (Continues L3 heap1)
                                        else Inr (Returns 0 (Some filtered) L3 heap1))
                                  else Inr (Returns 0 (Some array) L3 heap1)))))))"

text \<open>
  \<open>GetNextArrowArray\<close>: with the base implementation, the result is the base
  class's, passed as \<open>OGRLayer_GetNextArrowArray\<close>; else the loop. When it starts
  again the output array has been released and zeroed.
\<close>

function export_loop ::
  "environment \<Rightarrow> layer_config \<Rightarrow> arrow_stream \<Rightarrow> RecordBatch option \<Rightarrow> bool list \<Rightarrow> layer
     \<Rightarrow> fault + (int \<times> RecordBatch option \<times> layer \<times> bool list)" where
  "export_loop env cfg stream out_array heap L =
     (case export_round env cfg stream out_array heap L of
        Inl f \<Rightarrow> Inl f
      | Inr (Returns err array L1 heap1) \<Rightarrow> Inr (err, array, L1, heap1)
      | Inr (Continues L1 heap1) \<Rightarrow> export_loop env cfg stream None heap1 L1)"
  by pat_completeness auto

lemma ReadNextBatch_keeps:
  "ReadNextBatch env cfg L = (ok, L1) \<Longrightarrow>
     m_bEOF L1 = m_bEOF L \<and> m_poAttrQuery L1 = m_poAttrQuery L
     \<and> m_poFilterGeom L1 = m_poFilterGeom L"
  by (auto simp add: ReadNextBatch_def SetBatch_def Let_def clear_shortcuts_def
        set_bbox_shortcuts_def split: if_splits option.splits prod.splits)

lemma export_round_continues:
  assumes "export_round env cfg stream out_array heap L = Inr (Continues L' heap')"
  shows "\<not> m_bEOF L' \<and> m_poAttrQuery L' = m_poAttrQuery L \<and> m_poFilterGeom L' = m_poFilterGeom L
       \<and> needs_batch L'
       \<and> (if needs_batch L
           then nat (int (length (batches env)) - m_iRecordBatch L')
                  < nat (int (length (batches env)) - m_iRecordBatch L)
           else m_iRecordBatch L' = m_iRecordBatch L)"
proof -
  from assms have eof: "\<not> m_bEOF L" by (auto simp add: export_round_def)
  obtain ok L1 where r: "batch_to_export env cfg L = (ok, L1)"
    by (cases "batch_to_export env cfg L") auto
  from assms eof r have ok: ok by (auto simp add: export_round_def split: if_splits)
  from assms eof r ok obtain b where b: "m_poBatch L1 = Some b"
    by (cases "m_poBatch L1") (auto simp add: export_round_def)
  from assms eof r ok b
  have L': "L' = L1\<lparr>m_nIdxInBatch := num_rows b, m_nFeatureIdx := m_nFeatureIdx L1 + num_rows b\<rparr>"
    by (auto simp add: export_round_def Let_def
          split: option.splits sum.splits prod.splits if_splits)
  have keep: "m_bEOF L1 = m_bEOF L \<and> m_poAttrQuery L1 = m_poAttrQuery L
     \<and> m_poFilterGeom L1 = m_poFilterGeom L"
    using r ReadNextBatch_keeps [of env cfg L ok L1]
    by (auto simp add: batch_to_export_def split: if_splits)
  have dec: "if needs_batch L
           then nat (int (length (batches env)) - m_iRecordBatch L1)
                  < nat (int (length (batches env)) - m_iRecordBatch L)
           else m_iRecordBatch L1 = m_iRecordBatch L"
    using r ok ReadNextBatch_decreases [of ok L1 env cfg L]
    by (auto simp add: batch_to_export_def split: if_splits)
  from L' keep dec eof b show ?thesis
    by (auto simp add: needs_batch_def batch_rows_def split: if_splits)
qed

termination export_loop
  apply (relation "measures [\<lambda>(env, cfg, stream, out, heap, L).
                               nat (int (length (batches env)) - m_iRecordBatch L),
                             \<lambda>(env, cfg, stream, out, heap, L).
                               if needs_batch L then 0 else 1]")
   apply simp
  apply (auto dest!: export_round_continues split: if_splits)
  done

declare export_loop.simps [simp del]


section \<open>Scenarios for the export\<close>

text \<open>
  A buffer of capacity 100 with nothing written; a grammar that knows two texts, a
  point of 21 bytes and a line of 9 and 320 bytes; and an array of these two texts.
\<close>

definition small_buffer :: OGRAppendBuffer where
  "small_buffer = \<lparr>m_nCapacity = 100, m_nSize = 0, m_pRawBuffer = []\<rparr>"

definition line_grammar :: "string \<Rightarrow> string list option" where
  "line_grammar wkt =
     (if wkt = ''LINESTRING'' then Some [replicate 9 (CHR ''h''), replicate 320 (CHR ''c'')]
      else if wkt = ''POINT'' then Some [replicate 21 (CHR ''p'')]
      else None)"

definition two_texts :: WKTArray where
  "two_texts = \<lparr>null_count = 0, wkt_nulls = None, wkt_texts = [''POINT'', ''LINESTRING'']\<rparr>"

text \<open>
  A layer whose geometry field is encoded as text; batches of names and texts; a reader
  that delivers a batch of one row named "a" and then a batch of two rows named "c" and
  "d"; and a reader that has nothing to deliver.
\<close>

definition text_cfg :: layer_config where
  "text_cfg = scenario_cfg\<lparr>m_aeGeomEncoding := [WKT]\<rparr>"

definition text_batch :: "string list \<Rightarrow> string list \<Rightarrow> RecordBatch" where
  "text_batch names texts =
     \<lparr>num_rows = length names,
      columns = [BinaryArray STRING (replicate (length names) False) names,
                 BinaryArray STRING (replicate (length texts) False) texts]\<rparr>"

definition export_env :: environment where
  "export_env =
     scenario_env (\<lambda>b. None) (\<lambda>b. None)
       [text_batch [''a''] [''POINT''], text_batch [''c'', ''d''] [''POINT'', ''LINESTRING'']]"


text \<open>
  The filtering of an exported array is the base class's. The filter of the examples
  lets an array in which every name is "a" come out with no row, and any other as it
  is.
\<close>

definition names_filter :: "layer \<Rightarrow> nat option \<Rightarrow> RecordBatch \<Rightarrow> RecordBatch" where
  "names_filter L fid array =
     (case columns array ! 0 of
        BinaryArray t nulls names \<Rightarrow>
          if list_all (\<lambda>n. n = ''a'') names then \<lparr>num_rows = 0, columns = []\<rparr> else array
      | _ \<Rightarrow> array)"

text \<open>
  An export that asks for the binary encoding; a new layer with an attribute query set;
  and that layer after the first batch has been exported.
\<close>

definition export_stream :: arrow_stream where
  "export_stream =
     \<lparr>m_bUseRecordBatchBaseImplementation = False, GEOMETRY_ENCODING_is_WKB = True,
      geom_IsIgnored = [False], ExportRecordBatch = Some,
      PostFilterArrowArray = names_filter, wkt_grammar = line_grammar\<rparr>"

definition export_layer :: layer where
  "export_layer = new_layer\<lparr>m_poAttrQuery := Some name_is_not_a\<rparr>"


section \<open>The extent by full decoding\<close>

text \<open>
  The extent in the words of the specification: every geometry of every batch is fully
  decoded, as for a record, and the envelopes of the geometries that are neither null
  nor empty, taken over all their rings, are merged.
\<close>

definition merge_decoded ::
  "environment \<Rightarrow> layer_config \<Rightarrow> nat \<Rightarrow> RecordBatch \<Rightarrow> fault + OGREnvelope \<Rightarrow> nat
     \<Rightarrow> fault + OGREnvelope" where
  "merge_decoded env cfg iGeomField b acc i =
     (case acc of
        Inl f \<Rightarrow> Inl f
      | Inr e \<Rightarrow>
          (case read_geom_field env cfg (columns b) i iGeomField of
             Inl f \<Rightarrow> Inl f
           | Inr None \<Rightarrow> Inr e
           | Inr (Some g) \<Rightarrow> if IsEmpty g then Inr e else Inr (Merge e (getEnvelope g))))"

definition decoded_extent :: "environment \<Rightarrow> layer_config \<Rightarrow> nat \<Rightarrow> fault + OGREnvelope" where
  "decoded_extent env cfg iGeomField =
     foldl (\<lambda>acc b. foldl (merge_decoded env cfg iGeomField b) acc [0..<num_rows b])
       (Inr Uninit) (batches env)"

text \<open>
  A layer like that of the scenario whose geometry column is a large binary array with
  one row, of the bytes \<open>w\<close>; the parser reads a point at (1, 2) from any bytes and
  the bounding-box reader gives its envelope. And a value of 2147483647 bytes.
\<close>

definition large_binary_env :: "string \<Rightarrow> environment" where
  "large_binary_env w =
     scenario_env (\<lambda>b. Some (OGRPoint False False (1, 2, 0, 0)))
       (\<lambda>b. Some (Envelope 1 2 1 2))
       [\<lparr>num_rows = 1,
         columns = [BinaryArray STRING [False] [''a''],
                    BinaryArray LARGE_BINARY [False] [w]]\<rparr>]"

definition longest_value :: string where
  "longest_value = replicate 2147483647 (CHR ''w'')"

section \<open>Results\<close>

subsection \<open>Type mapper\<close>

lemma mapper_row:
  assumes "reference_table t = Some (ty, st, w, p) \<or> t = NA \<and> (ty, st, w, p) = (OFTString, OFSTNone, 0, 0)"
  shows "MapArrowTypeToOGR tz t field ((new_OGRFieldDefn (field_name field) OFTString)
              \<lparr>fd_DomainName := dn\<rparr>) OFTString OFSTNone path ov L =
           (True, (note_bbox_field t (field_name field) L)
              \<lparr>m_fields := m_fields L
                   @ [overridden (ov (field_name field))
                        ((mapped_field field ty st w p)\<lparr>fd_DomainName := dn\<rparr>)],
               m_anMapFieldIndexToArrowColumn := m_anMapFieldIndexToArrowColumn L @ [path]\<rparr>)"
  using assms
  by (cases t; cases "ov (field_name field)")
     (auto simp: MapArrowTypeToOGR_def merge_gdal_schema_def overridden_def
        note_bbox_field_def new_OGRFieldDefn_def mapped_field_def Let_def)


lemma handled_list_value:
  "IsHandledListOrMapType v \<Longrightarrow> IsHandledListType lt
     \<Longrightarrow> fst (map_list_value_type v lt eT eST)"
  by (cases v) simp_all

lemma unhandled_list_value:
  "\<not> IsHandledListOrMapType v \<Longrightarrow> \<not> IsHandledListType lt
     \<Longrightarrow> map_list_value_type v lt eT eST = (False, eT, eST)"
  by (cases v) (simp_all add: IsIntegerArrowType_def)

lemma dropped_row:
  assumes "dropped_kind t \<or> (\<exists>i v. t = DICTIONARY i v)"
  shows "MapArrowTypeToOGR tz t field oField eT eST path ov L
       = (False, L\<lparr>m_warnings := m_warnings L @ [UnhandledType (field_name field) t]\<rparr>)"
  using assms
  by (cases t)
     (auto simp: MapArrowTypeToOGR_def IsHandledMapType_def IsHandledListType_def
        unhandled_list_value)

lemma bbox_note_keeps_fields:
  "m_fields (note_bbox_field t n L) = m_fields L
   \<and> m_warnings (note_bbox_field t n L) = m_warnings L
   \<and> m_anMapFieldIndexToArrowColumn (note_bbox_field t n L) = m_anMapFieldIndexToArrowColumn L"
  by (simp add: note_bbox_field_def)

text \<open>A field that is neither a dictionary nor a struct goes to the mapper as it is.\<close>

lemma plain_field_is_mapped:
  assumes "\<forall>i v. field_type field \<noteq> DICTIONARY i v"
    and "\<forall>members. field_type field \<noteq> STRUCT members"
  shows "CreateFieldFromSchema tz ov field path (L, D)
       = (snd (map_field tz field path ov L), D)"
  using assms
  by (cases "field_type field")
     (simp_all add: CreateFieldFromSchema.simps intercept_dictionary_def map_field_def)

lemma table_field_is_mapped:
  assumes "reference_table (field_type field) = Some (ty, st, w, p)
           \<or> field_type field = NA \<and> (ty, st, w, p) = (OFTString, OFSTNone, 0, 0)"
  shows "CreateFieldFromSchema tz ov field path (L, D) =
           ((note_bbox_field (field_type field) (field_name field) L)
              \<lparr>m_fields := m_fields L
                   @ [overridden (ov (field_name field)) (mapped_field field ty st w p)],
               m_anMapFieldIndexToArrowColumn := m_anMapFieldIndexToArrowColumn L @ [path]\<rparr>,
            D)"
proof -
  from assms have plain: "\<forall>i v. field_type field \<noteq> DICTIONARY i v"
    "\<forall>members. field_type field \<noteq> STRUCT members"
    by auto
  have oF: "new_OGRFieldDefn (field_name field) OFTString
      = (new_OGRFieldDefn (field_name field) OFTString)\<lparr>fd_DomainName := []\<rparr>"
    by (simp add: new_OGRFieldDefn_def)
  have mF: "mapped_field field ty st w p = (mapped_field field ty st w p)\<lparr>fd_DomainName := []\<rparr>"
    by (simp add: mapped_field_def new_OGRFieldDefn_def)
  from mapper_row [OF assms, of tz field "[]" path ov L] oF mF
  show ?thesis
    by (simp add: plain_field_is_mapped [OF plain] map_field_def)
qed

lemma dropped_field:
  assumes "dropped_kind (field_type field)"
  shows "CreateFieldFromSchema tz ov field path (L, D)
       = (L\<lparr>m_warnings := m_warnings L
                @ [UnhandledType (field_name field) (field_type field)]\<rparr>, D)"
proof -
  from assms have plain: "\<forall>i v. field_type field \<noteq> DICTIONARY i v"
    "\<forall>members. field_type field \<noteq> STRUCT members"
    by auto
  from assms show ?thesis
    by (simp add: plain_field_is_mapped [OF plain] map_field_def dropped_row)
qed

lemma integer_index_row:
  "IsIntegerArrowType i \<Longrightarrow> \<exists>ty st. reference_table i = Some (ty, st, 0, 0)"
  by (auto simp add: IsIntegerArrowType_def)

lemma integer_index_not_struct:
  "IsIntegerArrowType i \<Longrightarrow> \<not> is_STRUCT i"
  by (auto simp add: IsIntegerArrowType_def)

lemma domain_field:
  assumes "field_type field = DICTIONARY i STRING" and "IsIntegerArrowType i"
    and "length path = 1" and "reference_table i = Some (ty, st, w, p)"
  shows "CreateFieldFromSchema tz ov field path (L, D) =
           (L\<lparr>m_fields := m_fields L
                   @ [overridden (ov (field_name field))
                        ((mapped_field field ty st w p)
                           \<lparr>fd_DomainName := field_name field @ ''Domain''\<rparr>)],
               m_anMapFieldIndexToArrowColumn := m_anMapFieldIndexToArrowColumn L @ [path]\<rparr>,
            D @ [(field_name field @ ''Domain'', length (m_fields L))])"
proof -
  have nb: "note_bbox_field i (field_name field) L = L"
    using assms(2) by (auto simp add: note_bbox_field_def IsIntegerArrowType_def)
  from assms(2) have "\<not> is_STRUCT i" by (rule integer_index_not_struct)
  with assms(1-3) show ?thesis
    by (simp add: CreateFieldFromSchema.simps intercept_dictionary_def
          mapper_row [OF disjI1, OF assms(4)] nb)
qed

lemma other_dictionary_field:
  assumes "field_type field = DICTIONARY i v" and "\<not> (v = STRING \<and> IsIntegerArrowType i)"
    and "length path = 1"
  shows "CreateFieldFromSchema tz ov field path (L, D) = (L, D)"
  using assms by (auto simp add: CreateFieldFromSchema.simps intercept_dictionary_def)

lemma nested_dictionary_field:
  assumes "field_type field = DICTIONARY i v" and "length path \<noteq> 1"
  shows "CreateFieldFromSchema tz ov field path (L, D)
       = (L\<lparr>m_warnings := m_warnings L
                @ [UnhandledType (field_name field) (field_type field)]\<rparr>, D)"
  using assms
  by (simp add: CreateFieldFromSchema.simps intercept_dictionary_def dropped_row)

text \<open>A struct is not mapped: its members are, in order, each under its own path.\<close>

lemma struct_members_are_mapped:
  assumes "field_type field = STRUCT members"
  shows "CreateFieldFromSchema tz ov field path (L, D)
       = foldl (\<lambda>S j. CreateFieldFromSchema tz ov (Flatten field ! j) (path @ [int j]) S)
           (L, D) [0..<length members]"
  using assms
  by (simp add: CreateFieldFromSchema.simps [of tz ov field path "(L, D)"]
        intercept_dictionary_def Flatten_def)


text \<open>
  C3 (as amended). Let the schema builder run on a field. If the source type is a row
  of the reference table, exactly one field is appended, with the row's type, subtype,
  width and precision merged with the externally supplied definition of the same name
  (if any) by the merge rule; the column path is recorded at the same index, no warning
  is emitted and no domain registered. If the type is of an unhandled kind (interval,
  union, extension, duration, large list, run-end encoded, unknown id, or a list or map
  whose content fails the handled check), one warning naming the field and the type is
  emitted and nothing else changes. The null type is kept like a row of the table with
  the string type. A dictionary at the top level whose values are strings and whose
  indices are integers is mapped as its index type, by the table, with a domain named
  after the field, registered under the index of the new field; any other dictionary at
  the top level is dropped and nothing at all changes, no warning is emitted; a
  dictionary below the top level is dropped with one warning.
\<close>

theorem C3_type_mapper_table:
  assumes R: "R = CreateFieldFromSchema tz ov field path (L, D)"
  shows "(reference_table (field_type field) = Some (ty, st, w, p) \<longrightarrow>
            m_fields (fst R)
              = m_fields L @ [overridden (ov (field_name field)) (mapped_field field ty st w p)]
          \<and> m_anMapFieldIndexToArrowColumn (fst R) = m_anMapFieldIndexToArrowColumn L @ [path]
          \<and> m_warnings (fst R) = m_warnings L \<and> snd R = D)
       \<and> (dropped_kind (field_type field) \<longrightarrow>
            R = (L\<lparr>m_warnings := m_warnings L
                       @ [UnhandledType (field_name field) (field_type field)]\<rparr>, D))
       \<and> (field_type field = NA \<longrightarrow>
            m_fields (fst R)
              = m_fields L @ [overridden (ov (field_name field))
                                (mapped_field field OFTString OFSTNone 0 0)]
          \<and> m_anMapFieldIndexToArrowColumn (fst R) = m_anMapFieldIndexToArrowColumn L @ [path]
          \<and> m_warnings (fst R) = m_warnings L \<and> snd R = D)
       \<and> (field_type field = DICTIONARY i v \<longrightarrow>
            (length path = 1 \<and> v = STRING \<and> IsIntegerArrowType i \<longrightarrow>
               (\<exists>ity ist.
                  reference_table i = Some (ity, ist, 0, 0)
                  \<and> m_fields (fst R)
                      = m_fields L @ [overridden (ov (field_name field))
                                        ((mapped_field field ity ist 0 0)
                                           \<lparr>fd_DomainName := field_name field @ ''Domain''\<rparr>)]
                  \<and> m_anMapFieldIndexToArrowColumn (fst R)
                      = m_anMapFieldIndexToArrowColumn L @ [path]
                  \<and> m_warnings (fst R) = m_warnings L
                  \<and> snd R = D @ [(field_name field @ ''Domain'', length (m_fields L))]))
          \<and> (length path = 1 \<and> \<not> (v = STRING \<and> IsIntegerArrowType i) \<longrightarrow> R = (L, D))
          \<and> (length path \<noteq> 1 \<longrightarrow>
                R = (L\<lparr>m_warnings := m_warnings L
                           @ [UnhandledType (field_name field) (field_type field)]\<rparr>, D)))"
proof (intro conjI impI)
  assume r: "reference_table (field_type field) = Some (ty, st, w, p)"
  note e = table_field_is_mapped [OF disjI1, OF r, of tz ov path L D]
  show "m_fields (fst R)
          = m_fields L @ [overridden (ov (field_name field)) (mapped_field field ty st w p)]"
    by (simp add: R e)
  show "m_anMapFieldIndexToArrowColumn (fst R) = m_anMapFieldIndexToArrowColumn L @ [path]"
    by (simp add: R e)
  show "m_warnings (fst R) = m_warnings L" by (simp add: R e bbox_note_keeps_fields)
  show "snd R = D" by (simp add: R e)
next
  assume "dropped_kind (field_type field)"
  then show "R = (L\<lparr>m_warnings := m_warnings L
                     @ [UnhandledType (field_name field) (field_type field)]\<rparr>, D)"
    by (simp add: R dropped_field)
next
  assume n: "field_type field = NA"
  then have "field_type field = NA \<and> (OFTString, OFSTNone, 0, 0) = (OFTString, OFSTNone, 0::int, 0::int)"
    by simp
  note e = table_field_is_mapped [OF disjI2, OF this, of tz ov path L D]
  show "m_fields (fst R)
          = m_fields L @ [overridden (ov (field_name field))
                            (mapped_field field OFTString OFSTNone 0 0)]"
    by (simp add: R e)
  show "m_anMapFieldIndexToArrowColumn (fst R) = m_anMapFieldIndexToArrowColumn L @ [path]"
    by (simp add: R e)
  show "m_warnings (fst R) = m_warnings L" by (simp add: R e bbox_note_keeps_fields)
  show "snd R = D" by (simp add: R e)
next
  assume d: "field_type field = DICTIONARY i v"
    and c: "length path = 1 \<and> v = STRING \<and> IsIntegerArrowType i"
  from c obtain ity ist where row: "reference_table i = Some (ity, ist, 0, 0)"
    using integer_index_row by blast
  from d c have d': "field_type field = DICTIONARY i STRING" by simp
  note e = domain_field [OF d' _ _ row, of path tz ov L D]
  from c row show "\<exists>ity ist.
       reference_table i = Some (ity, ist, 0, 0)
       \<and> m_fields (fst R)
           = m_fields L @ [overridden (ov (field_name field))
                             ((mapped_field field ity ist 0 0)
                                \<lparr>fd_DomainName := field_name field @ ''Domain''\<rparr>)]
       \<and> m_anMapFieldIndexToArrowColumn (fst R)
           = m_anMapFieldIndexToArrowColumn L @ [path]
       \<and> m_warnings (fst R) = m_warnings L
       \<and> snd R = D @ [(field_name field @ ''Domain'', length (m_fields L))]"
    by (intro exI [of _ ity] exI [of _ ist]) (simp add: R e)
next
  assume "field_type field = DICTIONARY i v"
    and "length path = 1 \<and> \<not> (v = STRING \<and> IsIntegerArrowType i)"
  then show "R = (L, D)" by (simp add: R other_dictionary_field)
next
  assume "field_type field = DICTIONARY i v" and "length path \<noteq> 1"
  then show "R = (L\<lparr>m_warnings := m_warnings L
                     @ [UnhandledType (field_name field) (field_type field)]\<rparr>, D)"
    by (simp add: R nested_dictionary_field)
qed


theorem C3_witness:
  "m_fields (fst (CreateFieldFromSchema (\<lambda>z. 0) Map.empty
       \<lparr>field_name = ''pop'', field_type = INT16, field_nullable = False\<rparr> [3]
       (empty_schema, [])))
     = [mapped_field \<lparr>field_name = ''pop'', field_type = INT16, field_nullable = False\<rparr>
          OFTInteger OFSTInt16 0 0]
   \<and> m_anMapFieldIndexToArrowColumn (fst (CreateFieldFromSchema (\<lambda>z. 0) Map.empty
       \<lparr>field_name = ''pop'', field_type = INT16, field_nullable = False\<rparr> [3]
       (empty_schema, []))) = [[3]]
   \<and> CreateFieldFromSchema (\<lambda>z. 0) Map.empty
       \<lparr>field_name = ''dt'', field_type = DURATION, field_nullable = True\<rparr> [1]
       (empty_schema, [])
     = (empty_schema\<lparr>m_warnings := [UnhandledType ''dt'' DURATION]\<rparr>, [])
   \<and> m_fields (fst (CreateFieldFromSchema (\<lambda>z. 0) Map.empty
       \<lparr>field_name = ''nothing'', field_type = NA, field_nullable = True\<rparr> [2]
       (empty_schema, [])))
     = [mapped_field \<lparr>field_name = ''nothing'', field_type = NA, field_nullable = True\<rparr>
          OFTString OFSTNone 0 0]
   \<and> (\<exists>ity ist. reference_table INT8 = Some (ity, ist, 0, 0)
        \<and> m_fields (fst (CreateFieldFromSchema (\<lambda>z. 0) Map.empty
             \<lparr>field_name = ''kind'', field_type = DICTIONARY INT8 STRING,
              field_nullable = True\<rparr> [0] (empty_schema, [])))
           = [(mapped_field \<lparr>field_name = ''kind'', field_type = DICTIONARY INT8 STRING,
                              field_nullable = True\<rparr> ity ist 0 0)
                \<lparr>fd_DomainName := ''kindDomain''\<rparr>]
        \<and> snd (CreateFieldFromSchema (\<lambda>z. 0) Map.empty
             \<lparr>field_name = ''kind'', field_type = DICTIONARY INT8 STRING,
              field_nullable = True\<rparr> [0] (empty_schema, []))
           = [(''kindDomain'', 0)])"
  using
    C3_type_mapper_table [OF refl, where tz = "\<lambda>z. 0" and ov = Map.empty
      and field = "\<lparr>field_name = ''pop'', field_type = INT16, field_nullable = False\<rparr>"
      and path = "[3]" and L = empty_schema and D = "[]"
      and ty = OFTInteger and st = OFSTInt16 and w = 0 and p = 0 and i = NA and v = NA]
    C3_type_mapper_table [OF refl, where tz = "\<lambda>z. 0" and ov = Map.empty
      and field = "\<lparr>field_name = ''dt'', field_type = DURATION, field_nullable = True\<rparr>"
      and path = "[1]" and L = empty_schema and D = "[]"
      and ty = OFTInteger and st = OFSTInt16 and w = 0 and p = 0 and i = NA and v = NA]
    C3_type_mapper_table [OF refl, where tz = "\<lambda>z. 0" and ov = Map.empty
      and field = "\<lparr>field_name = ''nothing'', field_type = NA, field_nullable = True\<rparr>"
      and path = "[2]" and L = empty_schema and D = "[]"
      and ty = OFTInteger and st = OFSTInt16 and w = 0 and p = 0 and i = NA and v = NA]
    C3_type_mapper_table [OF refl, where tz = "\<lambda>z. 0" and ov = Map.empty
      and field = "\<lparr>field_name = ''kind'', field_type = DICTIONARY INT8 STRING,
                     field_nullable = True\<rparr>"
      and path = "[0]" and L = empty_schema and D = "[]"
      and ty = OFTInteger and st = OFSTInt16 and w = 0 and p = 0 and i = INT8 and v = STRING]
  by (simp add: empty_schema_def overridden_def IsIntegerArrowType_def)

text \<open>
  The claim as first stated fails in three places. The null type is no row of the
  table and is not dropped: it is kept as a string field and nothing is warned of. The
  table gives a 32-bit integer no subtype and no width, while an externally supplied
  definition of the same name and type passes its subtype and its width on to the
  field. And a dictionary of doubles at the top level is dropped with no warning.
\<close>

theorem C3_counterexample:
  "reference_table NA = None
   \<and> map (\<lambda>d. (fd_Name d, fd_Type d)) (m_fields (fst (CreateFieldFromSchema (\<lambda>z. 0) Map.empty
            \<lparr>field_name = ''nothing'', field_type = NA, field_nullable = True\<rparr>
            [0] (empty_schema, [])))) = [(''nothing'', OFTString)]
   \<and> m_warnings (fst (CreateFieldFromSchema (\<lambda>z. 0) Map.empty
            \<lparr>field_name = ''nothing'', field_type = NA, field_nullable = True\<rparr>
            [0] (empty_schema, []))) = []
   \<and> reference_table INT32 = Some (OFTInteger, OFSTNone, 0, 0)
   \<and> map (\<lambda>d. (fd_Type d, fd_SubType d, fd_Width d, fd_Precision d))
        (m_fields (fst (CreateFieldFromSchema (\<lambda>z. 0)
            [''pop'' \<mapsto> (new_OGRFieldDefn ''pop'' OFTInteger)
                            \<lparr>fd_SubType := OFSTInt16, fd_Width := 5\<rparr>]
            \<lparr>field_name = ''pop'', field_type = INT32, field_nullable = True\<rparr> [0]
            (empty_schema, []))))
       = [(OFTInteger, OFSTInt16, 5, 0)]
   \<and> CreateFieldFromSchema (\<lambda>z. 0) Map.empty
        \<lparr>field_name = ''kind'', field_type = DICTIONARY INT8 DOUBLE, field_nullable = True\<rparr>
        [0] (empty_schema, [])
       = (empty_schema, [])
   \<and> m_warnings empty_schema = []"
  by (simp add: CreateFieldFromSchema.simps intercept_dictionary_def MapArrowTypeToOGR_def
        merge_gdal_schema_def note_bbox_field_def new_OGRFieldDefn_def empty_schema_def
        IsIntegerArrowType_def)

text \<open>
  C10. A fixed-size list of doubles of list size 3 whose value field is named neither
  "xyz" nor "xym" is accepted by the point-shape classifier, which then assigns neither
  output: has-Z and has-M keep the value the caller passed. The geometry-encoding
  validator passes false for both, so under the tag "geoarrow.point" such a field is
  classified as a point type with neither Z nor M, although each point carries three
  coordinate values.
\<close>

theorem C10_three_values_unnamed_is_2D_point:
  assumes "n \<noteq> ''xyz''" and "n \<noteq> ''xym''"
  shows "IsPointType (FIXED_SIZE_LIST n DOUBLE 3) z m = (True, z, m)
       \<and> IsValidGeometryEncoding
            \<lparr>field_name = f, field_type = FIXED_SIZE_LIST n DOUBLE 3, field_nullable = nl\<rparr>
            ''geoarrow.point''
          = Some (\<lparr>gt_flat = wkbPoint, gt_hasZ = False, gt_hasM = False\<rparr>, GEOARROW_POINT)"
  using assms
  by (simp add: IsValidGeometryEncoding_def geoarrow_shape_def OGR_GT_SetModifier_def)

theorem C10_witness:
  "''xy'' \<noteq> ''xyz'' \<and> ''xy'' \<noteq> ''xym''
   \<and> IsPointType (FIXED_SIZE_LIST ''xy'' DOUBLE 3) False False = (True, False, False)
   \<and> IsValidGeometryEncoding
        \<lparr>field_name = ''geometry'', field_type = FIXED_SIZE_LIST ''xy'' DOUBLE 3,
         field_nullable = True\<rparr> ''geoarrow.point''
      = Some (\<lparr>gt_flat = wkbPoint, gt_hasZ = False, gt_hasM = False\<rparr>, GEOARROW_POINT)"
  using C10_three_values_unnamed_is_2D_point [of "''xy''" False False "''geometry''" True]
  by simp

subsection \<open>Predicate compiler\<close>

lemma string_compare_less: "string_compare a b < 0 \<longleftrightarrow> a < b"
  by (induction a b rule: string_compare.induct) (auto simp: less_char_def)

lemma string_compare_eq: "string_compare a b = 0 \<longleftrightarrow> a = b"
  by (induction a b rule: string_compare.induct) auto

lemma string_compare_greater: "string_compare a b > 0 \<longleftrightarrow> b < a"
  by (induction a b rule: string_compare.induct) (auto simp: less_char_def)

lemma string_compare_le: "string_compare a b \<le> 0 \<longleftrightarrow> a \<le> b"
  using string_compare_greater [of a b] by auto

lemma string_compare_ge: "string_compare a b \<ge> 0 \<longleftrightarrow> b \<le> a"
  using string_compare_less [of a b] by auto

lemma CompareStr_meaning:
  "IsComparisonOp op \<Longrightarrow> CompareStr op v lit = swq_compare op v lit"
  by (cases op)
     (auto simp: CompareStr_def IsComparisonOp_def string_compare_less string_compare_eq
        string_compare_greater string_compare_le string_compare_ge)

lemma CompareGeneric_meaning:
  "IsComparisonOp op \<Longrightarrow> CompareGeneric op v lit = swq_compare op v lit"
  by (cases op) (auto simp: IsComparisonOp_def)

lemma reverse_operator_comparison:
  "IsComparisonOp op \<Longrightarrow> IsComparisonOp (reverse_operator op)"
  by (cases op) (auto simp: IsComparisonOp_def)

lemma reverse_operator_meaning:
  "IsComparisonOp op \<Longrightarrow> swq_compare (reverse_operator op) v lit = swq_compare op lit v"
  by (cases op) (auto simp: IsComparisonOp_def)

lemma explore_comparison:
  assumes "IsComparisonOp op"
  shows "ExploreExprNode fmt defn (comparison_node column_left op i ft iv fv sv) =
     (case pushdown_field defn i of
        None \<Rightarrow> []
      | Some fd \<Rightarrow>
          (case FillTargetValueFromSrcExpr fmt fd (new_Constraint i op)
                  (SNT_CONSTANT ft iv fv sv) of
             None \<Rightarrow> []
           | Some c \<Rightarrow> [if column_left then c else c\<lparr>nOperation := reverse_operator op\<rparr>]))"
  using assms
  by (auto simp: comparison_node_def compile_comparison_def pushdown_field_def
        IsComparisonOp_def Let_def split: option.splits)

text \<open>The constraint of a comparison node that is the root.\<close>

lemma comparison_constraint:
  assumes cmp: "IsComparisonOp op"
    and fld: "pushdown_field defn i = Some fd"
    and ty: "fd_Type fd \<in> {OFTInteger, OFTInteger64, OFTReal, OFTString}"
  shows "\<exists>c. ExploreExprNode fmt defn (comparison_node column_left op i ft iv fv sv) = [c]
           \<and> iField c = i
           \<and> nOperation c = (if column_left then op else reverse_operator op)
           \<and> (fd_Type fd = OFTString \<longrightarrow>
                (\<forall>v. ConstraintEvaluator_StringView c v
                      = original_comparison column_left op v sv))
           \<and> (fd_Type fd = OFTInteger \<and> ft \<noteq> SWQ_FLOAT \<and> to_int32 iv = iv \<longrightarrow>
                (\<forall>v. ConstraintEvaluator fmt c (V_int v)
                      = original_comparison column_left op v iv))
           \<and> (fd_Type fd = OFTInteger64 \<and> ft \<noteq> SWQ_FLOAT \<longrightarrow>
                (\<forall>v. ConstraintEvaluator fmt c (V_GIntBig v)
                      = original_comparison column_left op v iv))
           \<and> (fd_Type fd = OFTReal \<longrightarrow>
                (\<forall>v. ConstraintEvaluator fmt c (V_double v)
                      = original_comparison column_left op v fv))"
proof -
  from ty obtain c0 where
    fill: "FillTargetValueFromSrcExpr fmt fd (new_Constraint i op) (SNT_CONSTANT ft iv fv sv)
             = Some c0"
    by (auto simp: Let_def)
  define c where "c = (if column_left then c0 else c0\<lparr>nOperation := reverse_operator op\<rparr>)"
  have ex: "ExploreExprNode fmt defn (comparison_node column_left op i ft iv fv sv) = [c]"
    by (simp add: explore_comparison [OF cmp] fld fill c_def
          del: FillTargetValueFromSrcExpr.simps)
  have opc: "nOperation c = (if column_left then op else reverse_operator op)"
    using fill ty by (auto simp: c_def new_Constraint_def Let_def split: OGRFieldType.splits)
  have fc: "iField c = i"
    using fill ty by (auto simp: c_def new_Constraint_def Let_def split: OGRFieldType.splits)
  note rev = reverse_operator_comparison [OF cmp] reverse_operator_meaning [OF cmp]
  have s: "fd_Type fd = OFTString \<longrightarrow>
        (\<forall>v. ConstraintEvaluator_StringView c v = original_comparison column_left op v sv)"
    using fill cmp
    by (auto simp: rev c_def ConstraintEvaluator_StringView_def original_comparison_def
          CompareStr_meaning new_Constraint_def)
  have n1: "fd_Type fd = OFTInteger \<and> ft \<noteq> SWQ_FLOAT \<and> to_int32 iv = iv \<longrightarrow>
        (\<forall>v. ConstraintEvaluator fmt c (V_int v) = original_comparison column_left op v iv)"
    using fill cmp
    by (auto simp: rev c_def original_comparison_def CompareGeneric_meaning new_Constraint_def
          Let_def)
  have n2: "fd_Type fd = OFTInteger64 \<and> ft \<noteq> SWQ_FLOAT \<longrightarrow>
        (\<forall>v. ConstraintEvaluator fmt c (V_GIntBig v) = original_comparison column_left op v iv)"
    using fill cmp
    by (auto simp: rev c_def original_comparison_def CompareGeneric_meaning new_Constraint_def
          Let_def)
  have n3: "fd_Type fd = OFTReal \<longrightarrow>
        (\<forall>v. ConstraintEvaluator fmt c (V_double v) = original_comparison column_left op v fv)"
    using fill cmp
    by (auto simp: rev c_def original_comparison_def CompareGeneric_meaning new_Constraint_def)
  from ex fc opc s n1 n2 n3 show ?thesis by blast
qed


lemma explore_conjuncts:
  "ExploreExprNode fmt defn tree = concat (map (ExploreExprNode fmt defn) (conjuncts tree))"
  by (induction tree rule: conjuncts.induct) simp_all

text \<open>
  C6 (as amended). Take a binary comparison node that the compiler reaches (the root, or
  below conjunctions only), one operand a column reference and the other a constant,
  where the column is a field of the layer or the identifier pseudo-field and the
  field's type is integer, 64-bit integer, real or string. The compiler emits exactly
  one constraint on that field, at the place of the node among the constraints of the
  nodes reached before and after it. Its operator is the node's when the column is the
  left operand; when it is the right operand, \<open>\<le>\<close> and \<open>\<ge>\<close> are exchanged,
  \<open><\<close> and \<open>>\<close> are exchanged, \<open>=\<close> and \<open>\<noteq>\<close> stay. Where the literal needs no
  coercion (a string for a string field, an integer literal in range for an integer
  field, the floating value for a real field), evaluating the constraint against a
  column value gives the truth value of the original comparison at that value.
\<close>

theorem C6_comparison_becomes_mirrored_constraint:
  assumes cmp: "IsComparisonOp op"
    and fld: "pushdown_field defn i = Some fd"
    and ty: "fd_Type fd \<in> {OFTInteger, OFTInteger64, OFTReal, OFTString}"
    and reached: "conjuncts tree
                    = before @ comparison_node column_left op i ft iv fv sv # after"
  shows "\<exists>c. ExploreExprNode fmt defn tree
                = concat (map (ExploreExprNode fmt defn) before) @ c
                    # concat (map (ExploreExprNode fmt defn) after)
           \<and> iField c = i
           \<and> nOperation c = (if column_left then op else reverse_operator op)
           \<and> (fd_Type fd = OFTString \<longrightarrow>
                (\<forall>v. ConstraintEvaluator_StringView c v
                      = original_comparison column_left op v sv))
           \<and> (fd_Type fd = OFTInteger \<and> ft \<noteq> SWQ_FLOAT \<and> to_int32 iv = iv \<longrightarrow>
                (\<forall>v. ConstraintEvaluator fmt c (V_int v)
                      = original_comparison column_left op v iv))
           \<and> (fd_Type fd = OFTInteger64 \<and> ft \<noteq> SWQ_FLOAT \<longrightarrow>
                (\<forall>v. ConstraintEvaluator fmt c (V_GIntBig v)
                      = original_comparison column_left op v iv))
           \<and> (fd_Type fd = OFTReal \<longrightarrow>
                (\<forall>v. ConstraintEvaluator fmt c (V_double v)
                      = original_comparison column_left op v fv))"
proof -
  from comparison_constraint [OF cmp fld ty, of fmt column_left ft iv fv sv]
  obtain c where c: "ExploreExprNode fmt defn (comparison_node column_left op i ft iv fv sv) = [c]"
    and rest: "iField c = i"
      "nOperation c = (if column_left then op else reverse_operator op)"
      "fd_Type fd = OFTString \<longrightarrow>
         (\<forall>v. ConstraintEvaluator_StringView c v = original_comparison column_left op v sv)"
      "fd_Type fd = OFTInteger \<and> ft \<noteq> SWQ_FLOAT \<and> to_int32 iv = iv \<longrightarrow>
         (\<forall>v. ConstraintEvaluator fmt c (V_int v) = original_comparison column_left op v iv)"
      "fd_Type fd = OFTInteger64 \<and> ft \<noteq> SWQ_FLOAT \<longrightarrow>
         (\<forall>v. ConstraintEvaluator fmt c (V_GIntBig v) = original_comparison column_left op v iv)"
      "fd_Type fd = OFTReal \<longrightarrow>
         (\<forall>v. ConstraintEvaluator fmt c (V_double v) = original_comparison column_left op v fv)"
    by blast
  have "ExploreExprNode fmt defn tree
          = concat (map (ExploreExprNode fmt defn) before) @ c
              # concat (map (ExploreExprNode fmt defn) after)"
    by (simp add: explore_conjuncts [of fmt defn tree] reached c)
  with rest show ?thesis by blast
qed

theorem C6_witness:
  "IsComparisonOp SWQ_LT
   \<and> pushdown_field one_int_field 0 = Some (new_OGRFieldDefn ''pop'' OFTInteger)
   \<and> fd_Type (new_OGRFieldDefn ''pop'' OFTInteger) \<in> {OFTInteger, OFTInteger64, OFTReal, OFTString}
   \<and> conjuncts (SNT_OPERATION SWQ_AND
         [SNT_OPERATION SWQ_ISNULL [SNT_COLUMN 0],
          SNT_OPERATION SWQ_AND
            [comparison_node False SWQ_LT 0 SWQ_INTEGER 5 5 [],
             comparison_node True SWQ_NE 0 SWQ_INTEGER 7 7 []]])
       = [SNT_OPERATION SWQ_ISNULL [SNT_COLUMN 0]]
           @ comparison_node False SWQ_LT 0 SWQ_INTEGER 5 5 []
           # [comparison_node True SWQ_NE 0 SWQ_INTEGER 7 7 []]
   \<and> (\<exists>c. ExploreExprNode (\<lambda>x. []) one_int_field
             (SNT_OPERATION SWQ_AND
                [SNT_OPERATION SWQ_ISNULL [SNT_COLUMN 0],
                 SNT_OPERATION SWQ_AND
                   [comparison_node False SWQ_LT 0 SWQ_INTEGER 5 5 [],
                    comparison_node True SWQ_NE 0 SWQ_INTEGER 7 7 []]])
            = [new_Constraint 0 SWQ_ISNULL, c,
               (new_Constraint 0 SWQ_NE)\<lparr>sValue_Integer := 7, osValue := to_string 7\<rparr>]
          \<and> iField c = 0 \<and> nOperation c = SWQ_GT
          \<and> (\<forall>v. ConstraintEvaluator (\<lambda>x. []) c (V_int v) = (5 < v)))"
proof -
  have r: "conjuncts (SNT_OPERATION SWQ_AND
         [SNT_OPERATION SWQ_ISNULL [SNT_COLUMN 0],
          SNT_OPERATION SWQ_AND
            [comparison_node False SWQ_LT 0 SWQ_INTEGER 5 5 [],
             comparison_node True SWQ_NE 0 SWQ_INTEGER 7 7 []]])
       = [SNT_OPERATION SWQ_ISNULL [SNT_COLUMN 0]]
           @ comparison_node False SWQ_LT 0 SWQ_INTEGER 5 5 []
           # [comparison_node True SWQ_NE 0 SWQ_INTEGER 7 7 []]"
    by (simp add: comparison_node_def)
  have others: "ExploreExprNode (\<lambda>x. []) one_int_field (SNT_OPERATION SWQ_ISNULL [SNT_COLUMN 0])
        = [new_Constraint 0 SWQ_ISNULL]"
    "ExploreExprNode (\<lambda>x. []) one_int_field (comparison_node True SWQ_NE 0 SWQ_INTEGER 7 7 [])
        = [(new_Constraint 0 SWQ_NE)\<lparr>sValue_Integer := 7, osValue := to_string 7\<rparr>]"
    by (simp_all add: comparison_node_def compile_comparison_def compile_null_check_def
          one_int_field_def new_OGRFieldDefn_def IsComparisonOp_def SPF_FID_def
          new_Constraint_def to_int32_def)
  show ?thesis
    using C6_comparison_becomes_mirrored_constraint
      [where op = SWQ_LT and defn = one_int_field and i = 0
         and fd = "new_OGRFieldDefn ''pop'' OFTInteger" and fmt = "\<lambda>x. []"
         and column_left = False and ft = SWQ_INTEGER and iv = 5 and fv = 5 and sv = "[]"
         and before = "[SNT_OPERATION SWQ_ISNULL [SNT_COLUMN 0]]"
         and after = "[comparison_node True SWQ_NE 0 SWQ_INTEGER 7 7 []]", OF _ _ _ r]
      r others
    by (simp add: IsComparisonOp_def pushdown_field_def one_int_field_def SPF_FID_def
          new_OGRFieldDefn_def to_int32_def original_comparison_def
          del: ExploreExprNode.simps conjuncts.simps)
qed

text \<open>
  The claim as first stated fails: a comparison on a date field emits no constraint, a
  comparison below a disjunction emits none, and for an integer field compared with the
  floating literal 1.5 the literal is truncated to 1, so the constraint for
  \<open>column < 1.5\<close> rejects the value 1, which the original comparison accepts.
\<close>

theorem C6_counterexample:
  "ExploreExprNode (\<lambda>x. []) one_date_field
      (comparison_node True SWQ_EQ 0 SWQ_STRING 0 0 ''2020/01/01'') = []
   \<and> ExploreExprNode (\<lambda>x. []) one_int_field
      (SNT_OPERATION SWQ_OR [comparison_node True SWQ_EQ 0 SWQ_INTEGER 1 1 [],
                             comparison_node True SWQ_EQ 0 SWQ_INTEGER 2 2 []]) = []
   \<and> (\<exists>c. ExploreExprNode (\<lambda>x. []) one_int_field
             (comparison_node True SWQ_LT 0 SWQ_FLOAT 0 (3/2) []) = [c]
          \<and> \<not> ConstraintEvaluator (\<lambda>x. []) c (V_int 1)
          \<and> original_comparison True SWQ_LT (1::real) (3/2))"
  by (simp add: comparison_node_def compile_comparison_def one_date_field_def
        one_int_field_def new_OGRFieldDefn_def IsComparisonOp_def SPF_FID_def
        new_Constraint_def truncate_double_def original_comparison_def)

subsection \<open>Geometry codec\<close>


lemma depth0: "list_depth a = Some 0 \<Longrightarrow>
  \<exists>nulls k vnulls vs. a = FixedSizeListArray nulls k (FloatingArray DOUBLE vnulls vs)"
  apply (cases a) apply (auto split: if_splits)
  subgoal for x1 x2 x3 by (cases x3) (auto split: if_splits)
  done

lemma depthS: "list_depth a = Some (Suc n) \<Longrightarrow>
  \<exists>nulls offsets vs. a = ListArray nulls offsets vs \<and> list_depth vs = Some n"
  apply (cases a) apply (auto split: if_splits)
  subgoal for x1 x2 x3 by (cases x3) (auto split: if_splits)
  done

lemma depth1: "list_depth a = Some 1 \<Longrightarrow>
  \<exists>nulls offsets n1 k n2 pv.
     a = ListArray nulls offsets (FixedSizeListArray n1 k (FloatingArray DOUBLE n2 pv))"
  using depthS [of a 0] depth0 by (metis One_nat_def)

lemma depth2: "list_depth a = Some 2 \<Longrightarrow>
  \<exists>nulls ro n0 po n1 k n2 pv.
     a = ListArray nulls ro (ListArray n0 po
           (FixedSizeListArray n1 k (FloatingArray DOUBLE n2 pv)))"
proof -
  assume "list_depth a = Some 2"
  then have "list_depth a = Some (Suc 1)" by (simp add: numeral_2_eq_2)
  from depthS [OF this] obtain nulls ro vs
    where a: "a = ListArray nulls ro vs" and "list_depth vs = Some 1" by blast
  from depth1 [OF this(2)] a show ?thesis by blast
qed

lemma depth3: "list_depth a = Some 3 \<Longrightarrow>
  \<exists>nulls pao n00 ro n0 po n1 k n2 pv.
     a = ListArray nulls pao (ListArray n00 ro (ListArray n0 po
           (FixedSizeListArray n1 k (FloatingArray DOUBLE n2 pv))))"
proof -
  assume "list_depth a = Some 3"
  then have "list_depth a = Some (Suc 2)" by (simp add: numeral_3_eq_3)
  from depthS [OF this] obtain nulls pao vs
    where a: "a = ListArray nulls pao vs" and "list_depth vs = Some 2" by blast
  from depth2 [OF this(2)] a show ?thesis by blast
qed

lemma zero_points:
  "zero_length_at l (ListArray n0 po (FixedSizeListArray n1 k v)) j \<Longrightarrow> value_length po j = 0"
  by (cases l) (auto simp: list_all_iff)

lemma zero_rings:
  assumes "zero_length_at l (ListArray nulls ro (ListArray n0 po (FixedSizeListArray n1 k v))) i"
    and "j < value_length ro i"
  shows "value_length po (value_offset ro i + j) = 0"
proof (cases l)
  case 0
  with assms show ?thesis by simp
next
  case (Suc l')
  with assms have "zero_length_at l' (ListArray n0 po (FixedSizeListArray n1 k v))
      (value_offset ro i + j)"
    by (auto simp: list_all_iff)
  then show ?thesis by (rule zero_points)
qed

lemma zero_parts:
  assumes "zero_length_at l (ListArray nulls pao (ListArray n00 ro (ListArray n0 po
             (FixedSizeListArray n1 k v)))) i"
    and "j < value_length pao i" and "r < value_length ro (value_offset pao i + j)"
  shows "value_length po (value_offset ro (value_offset pao i + j) + r) = 0"
proof (cases l)
  case 0
  with assms show ?thesis by simp
next
  case (Suc l')
  with assms have "zero_length_at l' (ListArray n00 ro (ListArray n0 po
      (FixedSizeListArray n1 k v))) (value_offset pao i + j)"
    by (auto simp: list_all_iff)
  from zero_rings [OF this assms(3)] show ?thesis .
qed

lemma read_line_empty:
  "value_length po j = 0 \<Longrightarrow> read_line z m pv po j = ((False, False), [])"
  by (simp add: read_line_def)

lemma read_rings_empty:
  assumes "\<And>j. j < value_length ro i \<Longrightarrow> value_length po (value_offset ro i + j) = 0"
  shows "list_all (\<lambda>r. r = []) (snd (read_rings z m pv ro po i))"
  using assms by (auto simp: read_rings_def Let_def list_all_iff read_line_empty)

lemma flags_if_empty_flags:
  "IsEmpty g \<Longrightarrow> IsEmpty (flags_if_empty z m g) \<and> Is3D (flags_if_empty z m g) = z
     \<and> IsMeasured (flags_if_empty z m g) = m"
  by (cases g) (auto simp: flags_if_empty_def)

lemma linestring_case:
  assumes "\<not> nulls ! i" and "zero_length_at l (ListArray nulls offs (FixedSizeListArray n1 k (FloatingArray DOUBLE n2 pv))) i"
  shows "\<exists>g. ReadGeometry wkb wkt GEOARROW_LINESTRING z m
            (ListArray nulls offs (FixedSizeListArray n1 k (FloatingArray DOUBLE n2 pv))) i = Inr (Some g)
          \<and> IsEmpty g \<and> Is3D g = z \<and> IsMeasured g = m"
  using assms zero_points [OF assms(2)] by (simp add: Let_def)

lemma multipoint_case:
  assumes "\<not> nulls ! i" and "zero_length_at l (ListArray nulls offs (FixedSizeListArray n1 k (FloatingArray DOUBLE n2 pv))) i"
  shows "\<exists>g. ReadGeometry wkb wkt GEOARROW_MULTIPOINT z m
            (ListArray nulls offs (FixedSizeListArray n1 k (FloatingArray DOUBLE n2 pv))) i = Inr (Some g)
          \<and> IsEmpty g \<and> Is3D g = z \<and> IsMeasured g = m"
  using assms zero_points [OF assms(2)] by (simp add: Let_def flags_if_empty_def)

lemma polygon_case:
  assumes "\<not> nulls ! i" and zl: "zero_length_at l (ListArray nulls ro (ListArray n0 po
      (FixedSizeListArray n1 k (FloatingArray DOUBLE n2 pv)))) i"
  shows "\<exists>g. ReadGeometry wkb wkt GEOARROW_POLYGON z m
            (ListArray nulls ro (ListArray n0 po
               (FixedSizeListArray n1 k (FloatingArray DOUBLE n2 pv)))) i = Inr (Some g)
          \<and> IsEmpty g \<and> Is3D g = z \<and> IsMeasured g = m"
proof -
  obtain f rs where r: "read_rings z m pv ro po i = (f, rs)" by (cases "read_rings z m pv ro po i")
  obtain a b where f: "f = (a, b)" by (cases f)
  have "list_all (\<lambda>r. r = []) (snd (read_rings z m pv ro po i))"
    by (rule read_rings_empty) (rule zero_rings [OF zl])
  then have "IsEmpty (OGRPolygon a b rs)" using r by simp
  from flags_if_empty_flags [OF this, of z m] assms(1) r f show ?thesis by simp
qed

lemma multilinestring_case:
  assumes "\<not> nulls ! i" and zl: "zero_length_at l (ListArray nulls ro (ListArray n0 po
      (FixedSizeListArray n1 k (FloatingArray DOUBLE n2 pv)))) i"
  shows "\<exists>g. ReadGeometry wkb wkt GEOARROW_MULTILINESTRING z m
            (ListArray nulls ro (ListArray n0 po
               (FixedSizeListArray n1 k (FloatingArray DOUBLE n2 pv)))) i = Inr (Some g)
          \<and> IsEmpty g \<and> Is3D g = z \<and> IsMeasured g = m"
proof -
  obtain f rs where r: "read_rings z m pv ro po i = (f, rs)" by (cases "read_rings z m pv ro po i")
  obtain a b where f: "f = (a, b)" by (cases f)
  have "list_all (\<lambda>r. r = []) (snd (read_rings z m pv ro po i))"
    by (rule read_rings_empty) (rule zero_rings [OF zl])
  then have "IsEmpty (OGRMultiLineString a b rs)" using r by simp
  from flags_if_empty_flags [OF this, of z m] assms(1) r f show ?thesis by simp
qed

lemma multipolygon_case:
  assumes "\<not> nulls ! i" and zl: "zero_length_at l (ListArray nulls pao (ListArray n00 ro
      (ListArray n0 po (FixedSizeListArray n1 k (FloatingArray DOUBLE n2 pv))))) i"
  shows "\<exists>g. ReadGeometry wkb wkt GEOARROW_MULTIPOLYGON z m
            (ListArray nulls pao (ListArray n00 ro (ListArray n0 po
               (FixedSizeListArray n1 k (FloatingArray DOUBLE n2 pv))))) i = Inr (Some g)
          \<and> IsEmpty g \<and> Is3D g = z \<and> IsMeasured g = m"
proof -
  define polys where "polys = map (\<lambda>j. read_rings z m pv ro po (value_offset pao i + j))
      [0..<value_length pao i]"
  obtain a b where f: "homogenized polys = (a, b)" by (cases "homogenized polys")
  have each: "list_all (\<lambda>r. r = []) (snd (read_rings z m pv ro po (value_offset pao i + j)))"
    if "j < value_length pao i" for j
    by (rule read_rings_empty) (rule zero_parts [OF zl that])
  have "list_all (list_all (\<lambda>r. r = [])) (map snd polys)"
    using each by (simp add: polys_def list_all_iff)
  then have "IsEmpty (OGRMultiPolygon a b (map snd polys))" by simp
  from flags_if_empty_flags [OF this, of z m] assms(1) f show ?thesis
    by (simp add: Let_def polys_def)
qed

text \<open>
  C5. For each of the encodings linestring, polygon, multipoint, multilinestring and
  multipolygon, on an array of the nesting the encoding was validated for, decoding a
  non-null cell whose lists are of length zero at some nesting level (the cell's own
  list, or all lists one or two levels below it) returns a geometry, not the null
  pointer and not a fault; the geometry is empty and its 3D and measured flags are the
  has-Z and has-M flags of the field.
\<close>

theorem C5_zero_length_list_decodes_to_empty_geometry:
  assumes depth: "required_depth enc = Some d" "list_depth array = Some d"
    and nonnull: "\<not> IsNull array i"
    and zero: "zero_length_at l array i"
  shows "\<exists>g. ReadGeometry parse_wkb parse_wkt enc bHasZ bHasM array i = Inr (Some g)
           \<and> IsEmpty g \<and> Is3D g = bHasZ \<and> IsMeasured g = bHasM"
proof (cases enc)
  case GEOARROW_LINESTRING
  with depth have "list_depth array = Some 1" by simp
  from depth1 [OF this] obtain nulls offs n1 k n2 pv where
    a: "array = ListArray nulls offs (FixedSizeListArray n1 k (FloatingArray DOUBLE n2 pv))"
    by blast
  from nonnull zero show ?thesis
    unfolding a GEOARROW_LINESTRING by (intro linestring_case) auto
next
  case GEOARROW_MULTIPOINT
  with depth have "list_depth array = Some 1" by simp
  from depth1 [OF this] obtain nulls offs n1 k n2 pv where
    a: "array = ListArray nulls offs (FixedSizeListArray n1 k (FloatingArray DOUBLE n2 pv))"
    by blast
  from nonnull zero show ?thesis
    unfolding a GEOARROW_MULTIPOINT by (intro multipoint_case) auto
next
  case GEOARROW_POLYGON
  with depth have "list_depth array = Some 2" by simp
  from depth2 [OF this] obtain nulls ro n0 po n1 k n2 pv where
    a: "array = ListArray nulls ro (ListArray n0 po
           (FixedSizeListArray n1 k (FloatingArray DOUBLE n2 pv)))"
    by blast
  from nonnull zero show ?thesis
    unfolding a GEOARROW_POLYGON by (intro polygon_case) auto
next
  case GEOARROW_MULTILINESTRING
  with depth have "list_depth array = Some 2" by simp
  from depth2 [OF this] obtain nulls ro n0 po n1 k n2 pv where
    a: "array = ListArray nulls ro (ListArray n0 po
           (FixedSizeListArray n1 k (FloatingArray DOUBLE n2 pv)))"
    by blast
  from nonnull zero show ?thesis
    unfolding a GEOARROW_MULTILINESTRING by (intro multilinestring_case) auto
next
  case GEOARROW_MULTIPOLYGON
  with depth have "list_depth array = Some 3" by simp
  from depth3 [OF this] obtain nulls pao n00 ro n0 po n1 k n2 pv where
    a: "array = ListArray nulls pao (ListArray n00 ro (ListArray n0 po
           (FixedSizeListArray n1 k (FloatingArray DOUBLE n2 pv))))"
    by blast
  from nonnull zero show ?thesis
    unfolding a GEOARROW_MULTIPOLYGON by (intro multipolygon_case) auto
qed (use depth in auto)


theorem C5_witness:
  "required_depth GEOARROW_POLYGON = Some 2
   \<and> list_depth polygon_with_empty_ring = Some 2
   \<and> \<not> IsNull polygon_with_empty_ring 0
   \<and> zero_length_at 1 polygon_with_empty_ring 0
   \<and> (\<exists>g. ReadGeometry (\<lambda>b. None) (\<lambda>t. None) GEOARROW_POLYGON True False
              polygon_with_empty_ring 0 = Inr (Some g)
          \<and> IsEmpty g \<and> Is3D g = True \<and> IsMeasured g = False)"
proof -
  have d: "list_depth polygon_with_empty_ring = Some 2"
    by (simp add: polygon_with_empty_ring_def)
  have n: "\<not> IsNull polygon_with_empty_ring 0"
    by (simp add: polygon_with_empty_ring_def)
  have z: "zero_length_at 1 polygon_with_empty_ring 0"
    by (simp add: polygon_with_empty_ring_def value_length_def value_offset_def)
  from C5_zero_length_list_decodes_to_empty_geometry
         [of GEOARROW_POLYGON 2 polygon_with_empty_ring 0 1 "\<lambda>b. None" "\<lambda>t. None"
             True False, OF _ d n z]
       d n z
  show ?thesis by simp
qed

subsection \<open>Batch cursor\<close>



lemma scenario_layer_eq:
  "scenario_layer env =
     new_layer\<lparr>m_poAttrQuery := Some name_is_not_a,
       m_asAttributeFilterConstraints :=
         [(new_Constraint 0 SWQ_NE)\<lparr>iArrayIdx := 0, eType := CT_String,
            sValue_String := ''a'', osValue := ''a''\<rparr>]\<rparr>"
  by (simp add: scenario_layer_def SetAttributeFilter_def name_is_not_a_def
        new_layer_def ResetReading_def InvalidateCachedBatches_def
        ComputeConstraintsArrayIdx_def defn_of_def scenario_cfg_def compile_comparison_def
        IsComparisonOp_def SPF_FID_def new_Constraint_def new_OGRFieldDefn_def Let_def)


lemma batch_rows_moved:
  "batch_rows (L\<lparr>m_nFeatureIdx := a, m_nIdxInBatch := b\<rparr>) = batch_rows L"
  by (simp add: batch_rows_def)

lemma advance_break:
  assumes "m_poBatch L \<noteq> None" "m_nIdxInBatch L < batch_rows L" "break_here L = Inr True"
  shows "advance_until env cfg break_here L = Inr L"
proof -
  from assms have n: "\<not> batch_rows L \<le> m_nIdxInBatch L" by simp
  show ?thesis by (subst advance_until.simps) (simp add: assms n)
qed

lemma advance_step:
  assumes "m_poBatch L \<noteq> None" "m_nIdxInBatch L < batch_rows L" "break_here L = Inr False"
    and "Suc (m_nIdxInBatch L) \<noteq> batch_rows L"
  shows "advance_until env cfg break_here L =
           advance_until env cfg break_here
             (L\<lparr>m_nFeatureIdx := m_nFeatureIdx L + 1, m_nIdxInBatch := m_nIdxInBatch L + 1\<rparr>)"
proof -
  from assms have n: "\<not> batch_rows L \<le> m_nIdxInBatch L" by simp
  show ?thesis by (subst advance_until.simps) (simp add: assms n Let_def batch_rows_moved)
qed

lemma advance_end:
  assumes "m_poBatch L \<noteq> None" "m_nIdxInBatch L < batch_rows L" "break_here L = Inr False"
    and "Suc (m_nIdxInBatch L) = batch_rows L"
    and "ReadNextBatch env cfg
           (L\<lparr>m_nFeatureIdx := m_nFeatureIdx L + 1, m_nIdxInBatch := m_nIdxInBatch L + 1\<rparr>)
         = (False, L2)"
  shows "advance_until env cfg break_here L = Inr (L2\<lparr>m_bEOF := True\<rparr>)"
proof -
  from assms have n: "\<not> batch_rows L \<le> m_nIdxInBatch L" by simp
  show ?thesis
    apply (subst advance_until.simps)
    apply (insert assms(5))
    apply (simp add: assms(1-4) n Let_def batch_rows_moved)
    done
qed

lemma advance_next_batch:
  assumes "m_poBatch L \<noteq> None" "m_nIdxInBatch L < batch_rows L" "break_here L = Inr False"
    and "Suc (m_nIdxInBatch L) = batch_rows L"
    and "ReadNextBatch env cfg
           (L\<lparr>m_nFeatureIdx := m_nFeatureIdx L + 1, m_nIdxInBatch := m_nIdxInBatch L + 1\<rparr>)
         = (True, L2)"
  shows "advance_until env cfg break_here L = advance_until env cfg break_here L2"
proof -
  from assms have n: "\<not> batch_rows L \<le> m_nIdxInBatch L" by simp
  show ?thesis
    apply (subst advance_until.simps)
    apply (insert assms(5))
    apply (simp add: assms(1-4) n Let_def batch_rows_moved)
    done
qed


lemma SetBatch_without_spatial_filter:
  "m_poFilterGeom L = None \<Longrightarrow>
     SetBatch env cfg (Some b) L = clear_shortcuts (L\<lparr>m_poBatch := Some b\<rparr>)"
  by (simp add: SetBatch_def clear_shortcuts_def Let_def)

definition scenario_at :: "environment \<Rightarrow> RecordBatch \<Rightarrow> nat \<Rightarrow> layer" where
  "scenario_at env b i =
     (scenario_layer env)\<lparr>m_iRecordBatch := 0, m_poBatch := Some b,
        m_nIdxInBatch := i, m_nFeatureIdx := i\<rparr>"

lemma scenario_first_batch:
  "ReadNextBatch (scenario_env p q [b]) scenario_cfg (scenario_layer (scenario_env p q [b]))
     = (True, scenario_at (scenario_env p q [b]) b 0)"
  by (simp add: ReadNextBatch_def scenario_layer_eq new_layer_def scenario_env_def
        SetBatch_without_spatial_filter clear_shortcuts_def scenario_at_def Let_def)

lemma scenario_breaks:
  "attribute_loop_break (scenario_env p q [scenario_batch w1 w2 w3]) scenario_cfg
     (scenario_at (scenario_env p q [scenario_batch w1 w2 w3]) (scenario_batch w1 w2 w3) 0)
     = Inr False"
  "attribute_loop_break (scenario_env p q [scenario_batch w1 w2 w3]) scenario_cfg
     (scenario_at (scenario_env p q [scenario_batch w1 w2 w3]) (scenario_batch w1 w2 w3) (Suc 0))
     = Inr False"
  "attribute_loop_break (scenario_env p q [scenario_batch w1 w2 w3]) scenario_cfg
     (scenario_at (scenario_env p q [scenario_batch w1 w2 w3]) (scenario_batch w1 w2 w3) (Suc (Suc 0)))
     = Inr True"
  by (simp_all add: attribute_loop_break_def SkipToNextFeatureDueToAttributeFilter_def
        scenario_at_def scenario_layer_eq new_layer_def new_Constraint_def
        m_poBatchColumns_def scenario_batch_def passes_value_def
        ConstraintEvaluator_StringView_def CompareStr_def Let_def)


lemma scenario_at_moved:
  "(scenario_at env b i)\<lparr>m_nFeatureIdx := j, m_nIdxInBatch := j\<rparr> = scenario_at env b j"
  by (simp add: scenario_at_def)

lemma scenario_at_fields:
  "m_poBatch (scenario_at env b i) = Some b" "m_nIdxInBatch (scenario_at env b i) = i"
  "m_nFeatureIdx (scenario_at env b i) = i" "batch_rows (scenario_at env b i) = num_rows b"
  "m_bEOF (scenario_at env b i) = False"
  "m_poFilterGeom (scenario_at env b i) = None"
  "m_bSpatialFilterIntersectsLayerExtent (scenario_at env b i) = True"
  "m_asAttributeFilterConstraints (scenario_at env b i) \<noteq> []"
  "m_iRecordBatch (scenario_at env b i) = 0"
  "m_poBatchColumns (scenario_at env b i) = columns b"
  by (simp_all add: scenario_at_def batch_rows_def scenario_layer_eq new_layer_def
        m_poBatchColumns_def)

lemma scenario_skip:
  "skip_rows (scenario_env p q [scenario_batch w1 w2 w3]) scenario_cfg
     (scenario_at (scenario_env p q [scenario_batch w1 w2 w3]) (scenario_batch w1 w2 w3) 0)
   = Inr (scenario_at (scenario_env p q [scenario_batch w1 w2 w3]) (scenario_batch w1 w2 w3) 2)"
proof -
  let ?env = "scenario_env p q [scenario_batch w1 w2 w3]"
  let ?b = "scenario_batch w1 w2 w3"
  let ?bh = "attribute_loop_break ?env scenario_cfg"
  have rows: "num_rows ?b = 3" by (simp add: scenario_batch_def)
  have "advance_until ?env scenario_cfg ?bh (scenario_at ?env ?b 0)
          = advance_until ?env scenario_cfg ?bh (scenario_at ?env ?b (Suc 0))"
    using advance_step [of "scenario_at ?env ?b 0" ?bh ?env scenario_cfg]
    by (simp add: scenario_at_fields scenario_breaks rows scenario_at_moved)
  also have "\<dots> = advance_until ?env scenario_cfg ?bh (scenario_at ?env ?b (Suc (Suc 0)))"
    using advance_step [of "scenario_at ?env ?b (Suc 0)" ?bh ?env scenario_cfg]
    by (simp add: scenario_at_fields scenario_breaks rows scenario_at_moved)
  also have "\<dots> = Inr (scenario_at ?env ?b (Suc (Suc 0)))"
    using advance_break [of "scenario_at ?env ?b (Suc (Suc 0))" ?bh ?env scenario_cfg]
    by (simp add: scenario_at_fields scenario_breaks rows)
  finally show ?thesis
    by (simp add: skip_rows_def scenario_at_fields numeral_2_eq_2)
qed

lemma scenario_decode:
  "ReadFeature (scenario_env p q bs) scenario_cfg 2 (columns (scenario_batch w1 w2 w3))
     = Inr \<lparr>feat_FID = -1, feat_fields = [FString ''c''], feat_geoms = [p w3]\<rparr>"
  by (simp add: ReadFeature_def read_geom_field_def read_field_def read_fid_def
        scenario_cfg_def scenario_batch_def scenario_env_def normalize_geometry_def
        OGRNullFID_def Let_def split: option.splits)

lemma scenario_first_record:
  "GetNextRawFeature (scenario_env p q [scenario_batch w1 w2 w3]) scenario_cfg
     (scenario_layer (scenario_env p q [scenario_batch w1 w2 w3]))
   = Inr (Some \<lparr>feat_FID = 2, feat_fields = [FString ''c''], feat_geoms = [p w3]\<rparr>,
          scenario_at (scenario_env p q [scenario_batch w1 w2 w3]) (scenario_batch w1 w2 w3) 3)"
proof -
  let ?env = "scenario_env p q [scenario_batch w1 w2 w3]"
  have start: "m_bEOF (scenario_layer ?env) = False"
    "m_bSpatialFilterIntersectsLayerExtent (scenario_layer ?env)"
    "m_poBatch (scenario_layer ?env) = None"
    by (simp_all add: scenario_layer_eq new_layer_def)
  have rows: "num_rows (scenario_batch w1 w2 w3) = 3" by (simp add: scenario_batch_def)
  have fid: "m_iFIDArrowColumn scenario_cfg < 0" by (simp add: scenario_cfg_def)
  note moved = scenario_at_moved
  show ?thesis
    by (simp add: GetNextRawFeature_def start scenario_first_batch scenario_skip
          scenario_at_fields rows scenario_decode fid moved)
qed

lemma scenario_then_end:
  "\<exists>L'. GetNextRawFeature (scenario_env p q [scenario_batch w1 w2 w3]) scenario_cfg
     (scenario_at (scenario_env p q [scenario_batch w1 w2 w3]) (scenario_batch w1 w2 w3) 3)
   = Inr (None, L')"
  by (simp add: GetNextRawFeature_def scenario_at_fields scenario_batch_def
        ReadNextBatch_def scenario_env_def Let_def)

lemma scenario_read_all:
  "read_all (scenario_env parse_wkb bbox_of_wkb [scenario_batch w1 w2 w3]) scenario_cfg
      (Suc (Suc n))
      (scenario_layer (scenario_env parse_wkb bbox_of_wkb [scenario_batch w1 w2 w3]))
   = Inr [\<lparr>feat_FID = 2, feat_fields = [FString ''c''], feat_geoms = [parse_wkb w3]\<rparr>]"
proof -
  obtain L' where e: "GetNextRawFeature (scenario_env parse_wkb bbox_of_wkb [scenario_batch w1 w2 w3])
      scenario_cfg
      (scenario_at (scenario_env parse_wkb bbox_of_wkb [scenario_batch w1 w2 w3])
         (scenario_batch w1 w2 w3) 3) = Inr (None, L')"
    using scenario_then_end by blast
  show ?thesis
    by (simp add: scenario_first_record e)
qed


text \<open>
  C2 (as amended). In the scenario of three rows with the names "a", null, "c" and a
  well-known-binary point column, iterating with the attribute filter \<open>name != 'a'\<close>
  yields exactly one record, that of the third row: its identifier is the row counter
  2, its name is "c" and its geometry is what the parser makes of the bytes of the
  third row. The row with the null name is skipped like the row named "a".
\<close>

theorem C2_only_the_third_row_survives:
  "read_all (scenario_env parse_wkb bbox_of_wkb [scenario_batch w1 w2 w3]) scenario_cfg
      (Suc (Suc n))
      (scenario_layer (scenario_env parse_wkb bbox_of_wkb [scenario_batch w1 w2 w3]))
   = Inr [\<lparr>feat_FID = 2, feat_fields = [FString ''c''], feat_geoms = [parse_wkb w3]\<rparr>]"
  by (rule scenario_read_all)

text \<open>
  The claim as first stated expects two records, for the second and the third row;
  the code returns one.
\<close>

theorem C2_counterexample:
  "read_all (scenario_env (\<lambda>b. None) (\<lambda>b. None) [scenario_batch ''p1'' ''p2'' ''p3''])
      scenario_cfg (Suc (Suc (Suc (Suc 0))))
      (scenario_layer
         (scenario_env (\<lambda>b. None) (\<lambda>b. None) [scenario_batch ''p1'' ''p2'' ''p3'']))
     = Inr [\<lparr>feat_FID = 2, feat_fields = [FString ''c''], feat_geoms = [None]\<rparr>]
   \<and> read_all (scenario_env (\<lambda>b. None) (\<lambda>b. None) [scenario_batch ''p1'' ''p2'' ''p3''])
      scenario_cfg (Suc (Suc (Suc (Suc 0))))
      (scenario_layer
         (scenario_env (\<lambda>b. None) (\<lambda>b. None) [scenario_batch ''p1'' ''p2'' ''p3'']))
     \<noteq> Inr [\<lparr>feat_FID = 1, feat_fields = [OGRNull], feat_geoms = [None]\<rparr>,
            \<lparr>feat_FID = 2, feat_fields = [FString ''c''], feat_geoms = [None]\<rparr>]"
  unfolding scenario_read_all by simp


lemma filter_box_envelope: "getEnvelope filter_box = Envelope 10 10 20 20"
  by (simp add: filter_box_def envelope_of_points_def)

lemma spatial_layer_eq:
  "spatial_layer (scenario_env p q bs) =
     (scenario_layer (scenario_env p q bs))\<lparr>m_poFilterGeom := Some filter_box,
        m_sFilterEnvelope := Envelope 10 10 20 20\<rparr>"
  by (simp add: spatial_layer_def SetSpatialFilter_def scenario_cfg_def scenario_layer_eq
        new_layer_def InstallFilter_def filter_box_envelope ResetReading_def
        FastGetExtent_def scenario_env_def GetExtentFromMetadata_def SetBatch_def
        clear_shortcuts_def Let_def)

lemma spatial_first_batch:
  "ReadNextBatch (scenario_env p q [scenario_batch w1 w2 w3]) scenario_cfg
       (spatial_layer (scenario_env p q [scenario_batch w1 w2 w3]))
     = (True, spatial_at (scenario_env p q [scenario_batch w1 w2 w3]) (scenario_batch w1 w2 w3) 0)"
  apply (simp add: spatial_at_def spatial_layer_eq scenario_layer_eq new_layer_def)
  apply (simp add: ReadNextBatch_def scenario_env_def SetBatch_def clear_shortcuts_def
        filter_iCol_def scenario_cfg_def scenario_batch_def has_type_BINARY_def Let_def)
  done

lemma spatial_at_fields:
  "m_poBatch (spatial_at (scenario_env p q bs) b i) = Some b"
  "m_nIdxInBatch (spatial_at (scenario_env p q bs) b i) = i"
  "m_nFeatureIdx (spatial_at (scenario_env p q bs) b i) = i"
  "batch_rows (spatial_at (scenario_env p q bs) b i) = num_rows b"
  "m_bEOF (spatial_at (scenario_env p q bs) b i) = False"
  "m_poFilterGeom (spatial_at (scenario_env p q bs) b i) = Some filter_box"
  "m_sFilterEnvelope (spatial_at (scenario_env p q bs) b i) = Envelope 10 10 20 20"
  "m_bSpatialFilterIntersectsLayerExtent (spatial_at (scenario_env p q bs) b i) = True"
  "m_iGeomFieldFilter (spatial_at (scenario_env p q bs) b i) = 0"
  "m_poBatchColumns (spatial_at (scenario_env p q bs) b i) = columns b"
  by (simp_all add: spatial_at_def batch_rows_def spatial_layer_eq scenario_layer_eq
        new_layer_def m_poBatchColumns_def)

lemma spatial_at_moved:
  "(spatial_at env b i)\<lparr>m_nFeatureIdx := j, m_nIdxInBatch := j\<rparr> = spatial_at env b j"
  by (simp add: spatial_at_def)

lemma spatial_attribute_test:
  "SkipToNextFeatureDueToAttributeFilter (scenario_env p q bs) scenario_cfg
     (spatial_at (scenario_env p q bs) (scenario_batch w1 w2 w3) 0)"
  "SkipToNextFeatureDueToAttributeFilter (scenario_env p q bs) scenario_cfg
     (spatial_at (scenario_env p q bs) (scenario_batch w1 w2 w3) (Suc 0))"
  "\<not> SkipToNextFeatureDueToAttributeFilter (scenario_env p q bs) scenario_cfg
     (spatial_at (scenario_env p q bs) (scenario_batch w1 w2 w3) (Suc (Suc 0)))"
  by (simp_all add: SkipToNextFeatureDueToAttributeFilter_def
        spatial_at_def spatial_layer_eq scenario_layer_eq new_layer_def new_Constraint_def
        m_poBatchColumns_def scenario_batch_def passes_value_def
        ConstraintEvaluator_StringView_def CompareStr_def Let_def)

lemma spatial_test:
  assumes "i < 3"
  shows "wkb_row_skipped (scenario_env p q bs)
           (spatial_at (scenario_env p q bs) (scenario_batch w1 w2 w3) i)
         = (case q ([w1, w2, w3] ! i) of
              Some e \<Rightarrow> \<not> Intersects (Envelope 10 10 20 20) e
            | None \<Rightarrow> False)"
proof -
  from assms have "i = 0 \<or> i = Suc 0 \<or> i = Suc (Suc 0)" by auto
  then show ?thesis
    apply (simp only: spatial_at_def spatial_layer_eq scenario_layer_eq new_layer_def)
    apply (auto simp: wkb_row_skipped_def null_at_def scenario_batch_def GetValue_def
          scenario_env_def Let_def split: option.splits)
    done
qed


lemma decode_first_row:
  "ReadFeature (scenario_env p q bs) scenario_cfg 0 (columns (scenario_batch w1 w2 w3))
     = Inr \<lparr>feat_FID = -1, feat_fields = [FString ''a''], feat_geoms = [p w1]\<rparr>"
  by (simp add: ReadFeature_def read_geom_field_def read_field_def read_fid_def
        scenario_cfg_def scenario_batch_def scenario_env_def normalize_geometry_def
        OGRNullFID_def Let_def split: option.splits)

lemma spatial_skip_rows:
  assumes "m_poFilterGeom L = Some g" and "m_iGeomFieldFilter L = 0"
  shows "skip_rows env scenario_cfg L
           = advance_until env scenario_cfg (wkb_loop_break env scenario_cfg) L"
proof -
  have "filter_iCol scenario_cfg L = 1" "m_aeGeomEncoding scenario_cfg ! 0 = WKB"
    using assms by (simp_all add: filter_iCol_def scenario_cfg_def)
  with assms show ?thesis by (simp add: skip_rows_def Let_def)
qed

lemma outside_filter_row_is_decoded:
  "GetNextRawFeature (scenario_env p (\<lambda>b. Some (Envelope 0 0 1 1)) [scenario_batch w1 w2 w3])
       scenario_cfg
       (spatial_layer (scenario_env p (\<lambda>b. Some (Envelope 0 0 1 1)) [scenario_batch w1 w2 w3]))
   = Inr (Some \<lparr>feat_FID = 2, feat_fields = [FString ''c''], feat_geoms = [p w3]\<rparr>,
          spatial_at (scenario_env p (\<lambda>b. Some (Envelope 0 0 1 1)) [scenario_batch w1 w2 w3])
            (scenario_batch w1 w2 w3) 3)"
proof -
  let ?q = "\<lambda>b::string. Some (Envelope 0 0 1 1)"
  let ?env = "scenario_env p ?q [scenario_batch w1 w2 w3]"
  let ?b = "scenario_batch w1 w2 w3"
  let ?bh = "wkb_loop_break ?env scenario_cfg"
  have rows: "num_rows ?b = 3" by (simp add: scenario_batch_def)
  have sk: "wkb_row_skipped ?env (spatial_at ?env ?b i)" if "i < 3" for i
    using spatial_test [OF that, of p ?q "[scenario_batch w1 w2 w3]" w1 w2 w3] by simp
  have cs: "m_asAttributeFilterConstraints (spatial_at ?env ?b i) \<noteq> []" for i
    by (simp add: spatial_at_def spatial_layer_eq scenario_layer_eq)
  have b0: "?bh (spatial_at ?env ?b 0) = Inr False"
    by (simp add: wkb_loop_break_def attribute_break_def sk spatial_attribute_test)
  have b1: "?bh (spatial_at ?env ?b (Suc 0)) = Inr False"
    by (simp add: wkb_loop_break_def attribute_break_def sk spatial_attribute_test)
  have b2: "?bh (spatial_at ?env ?b (Suc (Suc 0))) = Inr True"
    by (simp add: wkb_loop_break_def attribute_break_def sk cs spatial_attribute_test)
  have "advance_until ?env scenario_cfg ?bh (spatial_at ?env ?b 0)
          = advance_until ?env scenario_cfg ?bh (spatial_at ?env ?b (Suc 0))"
    using advance_step [of "spatial_at ?env ?b 0" ?bh ?env scenario_cfg]
    by (simp add: spatial_at_fields b0 rows spatial_at_moved)
  also have "\<dots> = advance_until ?env scenario_cfg ?bh (spatial_at ?env ?b (Suc (Suc 0)))"
    using advance_step [of "spatial_at ?env ?b (Suc 0)" ?bh ?env scenario_cfg]
    by (simp add: spatial_at_fields b1 rows spatial_at_moved)
  also have "\<dots> = Inr (spatial_at ?env ?b (Suc (Suc 0)))"
    using advance_break [of "spatial_at ?env ?b (Suc (Suc 0))" ?bh ?env scenario_cfg]
    by (simp add: spatial_at_fields b2 rows)
  finally have skip: "skip_rows ?env scenario_cfg (spatial_at ?env ?b 0)
      = Inr (spatial_at ?env ?b 2)"
    by (simp add: spatial_skip_rows spatial_at_fields numeral_2_eq_2)
  have start: "m_bEOF (spatial_layer ?env) = False"
    "m_bSpatialFilterIntersectsLayerExtent (spatial_layer ?env)"
    "m_poBatch (spatial_layer ?env) = None"
    by (simp_all add: spatial_layer_eq scenario_layer_eq new_layer_def)
  have fid: "m_iFIDArrowColumn scenario_cfg < 0" by (simp add: scenario_cfg_def)
  show ?thesis
    by (simp add: GetNextRawFeature_def start spatial_first_batch skip
          spatial_at_fields rows scenario_decode fid spatial_at_moved)
qed

lemma rejected_by_constraint_row_is_decoded:
  "GetNextRawFeature (scenario_env p (\<lambda>b. Some (Envelope 12 12 13 13)) [scenario_batch w1 w2 w3])
       scenario_cfg
       (spatial_layer (scenario_env p (\<lambda>b. Some (Envelope 12 12 13 13)) [scenario_batch w1 w2 w3]))
   = Inr (Some \<lparr>feat_FID = 0, feat_fields = [FString ''a''], feat_geoms = [p w1]\<rparr>,
          spatial_at (scenario_env p (\<lambda>b. Some (Envelope 12 12 13 13)) [scenario_batch w1 w2 w3])
            (scenario_batch w1 w2 w3) 1)"
proof -
  let ?q = "\<lambda>b::string. Some (Envelope 12 12 13 13)"
  let ?env = "scenario_env p ?q [scenario_batch w1 w2 w3]"
  let ?b = "scenario_batch w1 w2 w3"
  let ?bh = "wkb_loop_break ?env scenario_cfg"
  have rows: "num_rows ?b = 3" by (simp add: scenario_batch_def)
  have sk: "\<not> wkb_row_skipped ?env (spatial_at ?env ?b 0)"
    using spatial_test [of 0 p ?q "[scenario_batch w1 w2 w3]" w1 w2 w3] by simp
  have b0: "?bh (spatial_at ?env ?b 0) = Inr True"
    by (simp add: wkb_loop_break_def sk)
  have "advance_until ?env scenario_cfg ?bh (spatial_at ?env ?b 0) = Inr (spatial_at ?env ?b 0)"
    using advance_break [of "spatial_at ?env ?b 0" ?bh ?env scenario_cfg]
    by (simp add: spatial_at_fields b0 rows)
  then have skip: "skip_rows ?env scenario_cfg (spatial_at ?env ?b 0)
      = Inr (spatial_at ?env ?b 0)"
    by (simp add: spatial_skip_rows spatial_at_fields)
  have start: "m_bEOF (spatial_layer ?env) = False"
    "m_bSpatialFilterIntersectsLayerExtent (spatial_layer ?env)"
    "m_poBatch (spatial_layer ?env) = None"
    by (simp_all add: spatial_layer_eq scenario_layer_eq new_layer_def)
  have fid: "m_iFIDArrowColumn scenario_cfg < 0" by (simp add: scenario_cfg_def)
  show ?thesis
    by (simp add: GetNextRawFeature_def start spatial_first_batch skip
          spatial_at_fields rows decode_first_row fid spatial_at_moved)
qed

text \<open>
  C1. The claim is that a row failing the spatial test or the attribute constraints is
  skipped. In the loop for a well-known-binary column the source leaves the loop as
  soon as the row passes the spatial test, without the attribute test, and, for a row
  that fails the spatial test, also when the attribute test accepts it. So with the
  filter envelope from (10, 10) to (20, 20) and the predicate \<open>name != 'a'\<close>: when
  every row has the envelope from (0, 0) to (1, 1), which does not intersect the
  filter, the first record returned is that of the third row; and when every row has
  the envelope from (12, 12) to (13, 13), the first record is that of the row named
  "a", which the predicate rejects.
\<close>

theorem C1_row_failing_one_test_is_decoded:
  "(\<exists>L'. GetNextRawFeature
            (scenario_env p (\<lambda>b. Some (Envelope 0 0 1 1)) [scenario_batch w1 w2 w3])
            scenario_cfg
            (spatial_layer
               (scenario_env p (\<lambda>b. Some (Envelope 0 0 1 1)) [scenario_batch w1 w2 w3]))
          = Inr (Some \<lparr>feat_FID = 2, feat_fields = [FString ''c''], feat_geoms = [p w3]\<rparr>, L'))
   \<and> \<not> Intersects (Envelope 10 10 20 20) (Envelope 0 0 1 1)
   \<and> (\<exists>L'. GetNextRawFeature
            (scenario_env p (\<lambda>b. Some (Envelope 12 12 13 13)) [scenario_batch w1 w2 w3])
            scenario_cfg
            (spatial_layer
               (scenario_env p (\<lambda>b. Some (Envelope 12 12 13 13)) [scenario_batch w1 w2 w3]))
          = Inr (Some \<lparr>feat_FID = 0, feat_fields = [FString ''a''], feat_geoms = [p w1]\<rparr>, L'))
   \<and> \<not> swq_compare SWQ_NE ''a'' ''a''"
  by (simp add: outside_filter_row_is_decoded rejected_by_constraint_row_is_decoded)

subsection \<open>Extent cache\<close>

text \<open>No operation on the cursor or on the filters writes the extent cache.\<close>

lemma clear_shortcuts_extents: "m_oMapExtents (clear_shortcuts L) = m_oMapExtents L"
  by (simp add: clear_shortcuts_def)

lemma set_bbox_shortcuts_extents:
  "m_oMapExtents (set_bbox_shortcuts cfg cols L) = m_oMapExtents L"
  by (simp add: set_bbox_shortcuts_def split: prod.splits)

lemma SetBatch_extents: "m_oMapExtents (SetBatch env cfg b L) = m_oMapExtents L"
  by (simp add: SetBatch_def Let_def clear_shortcuts_def set_bbox_shortcuts_extents
        split: option.splits)

lemma ResetReading_extents: "m_oMapExtents (ResetReading L) = m_oMapExtents L"
  by (simp add: ResetReading_def Let_def)

lemma ReadNextBatch_extents:
  "m_oMapExtents (snd (ReadNextBatch env cfg L)) = m_oMapExtents L"
  by (simp add: ReadNextBatch_def Let_def SetBatch_extents)

lemma InvalidateCachedBatches_extents:
  "m_oMapExtents (InvalidateCachedBatches L) = m_oMapExtents L"
  by (simp add: InvalidateCachedBatches_def ResetReading_extents)

lemma SetAttributeFilter_extents:
  "m_oMapExtents (snd (SetAttributeFilter env cfg use_optimized parsed L)) = m_oMapExtents L"
  by (simp add: SetAttributeFilter_def Let_def ComputeConstraintsArrayIdx_def
        InvalidateCachedBatches_extents ResetReading_extents split: option.splits)

lemma InstallFilter_extents:
  "m_oMapExtents (snd (InstallFilter g L)) = m_oMapExtents L"
  by (simp add: InstallFilter_def)

lemma SetSpatialFilter_extents:
  "m_oMapExtents (SetSpatialFilter env cfg iGeomField poGeomIn L) = m_oMapExtents L"
  by (auto simp add: SetSpatialFilter_def Let_def SetBatch_extents ResetReading_extents
        InvalidateCachedBatches_extents InstallFilter_def split: option.splits prod.splits)

lemma FastGetExtent_cong:
  "m_oMapExtents L = m_oMapExtents L' \<Longrightarrow> FastGetExtent env L i = FastGetExtent env L' i"
  by (simp add: FastGetExtent_def)


lemma ReadNextBatch_same_cursor:
  assumes "m_iRecordBatch L = m_iRecordBatch L'"
  shows "fst (ReadNextBatch env cfg L) = fst (ReadNextBatch env cfg L')
       \<and> m_iRecordBatch (snd (ReadNextBatch env cfg L)) = m_iRecordBatch (snd (ReadNextBatch env cfg L'))
       \<and> (fst (ReadNextBatch env cfg L) \<longrightarrow>
            m_poBatch (snd (ReadNextBatch env cfg L)) = m_poBatch (snd (ReadNextBatch env cfg L'))
          \<and> m_nIdxInBatch (snd (ReadNextBatch env cfg L)) = m_nIdxInBatch (snd (ReadNextBatch env cfg L')))"
  using assms by (simp add: ReadNextBatch_def Let_def SetBatch_cursor)

lemma extent_loop_same_cursor:
  assumes "m_iRecordBatch L = m_iRecordBatch L'" and "m_poBatch L = m_poBatch L'"
    and "m_nIdxInBatch L = m_nIdxInBatch L'"
  shows "map_sum (\<lambda>f. f) fst (extent_loop env cfg step e L)
       = map_sum (\<lambda>f. f) fst (extent_loop env cfg step e L')"
  using assms
proof (induction env cfg step e L arbitrary: L' rule: extent_loop.induct)
  case (1 env cfg step psExtent L)
  show ?case
  proof (cases "m_poBatch L")
    case None
    with "1.prems" show ?thesis
      by (simp add: extent_loop.simps [of env cfg step psExtent L]
            extent_loop.simps [of env cfg step psExtent L'])
  next
    case (Some b)
    show ?thesis
    proof (cases "num_rows b \<le> m_nIdxInBatch L")
      case True
      with Some "1.prems" show ?thesis
        by (simp add: extent_loop.simps [of env cfg step psExtent L]
              extent_loop.simps [of env cfg step psExtent L'])
    next
      case False
      show ?thesis
      proof (cases "step b (m_nIdxInBatch L) psExtent")
        case (Inl f)
        with Some False "1.prems" show ?thesis
          by (simp add: extent_loop.simps [of env cfg step psExtent L]
                extent_loop.simps [of env cfg step psExtent L'])
      next
        case (Inr e')
        let ?L1 = "L\<lparr>m_nFeatureIdx := m_nFeatureIdx L + 1, m_nIdxInBatch := m_nIdxInBatch L + 1\<rparr>"
        let ?L1' = "L'\<lparr>m_nFeatureIdx := m_nFeatureIdx L' + 1, m_nIdxInBatch := m_nIdxInBatch L' + 1\<rparr>"
        show ?thesis
        proof (cases "m_nIdxInBatch ?L1 = num_rows b")
          case last: True
          obtain ok L2 where r: "ReadNextBatch env cfg ?L1 = (ok, L2)" by (cases "ReadNextBatch env cfg ?L1")
          obtain ok' L2' where r': "ReadNextBatch env cfg ?L1' = (ok', L2')" by (cases "ReadNextBatch env cfg ?L1'")
          have c: "m_iRecordBatch ?L1 = m_iRecordBatch ?L1'" using "1.prems" by simp
          from ReadNextBatch_same_cursor [OF c, of env cfg] r r'
          have same: "ok = ok'" "m_iRecordBatch L2 = m_iRecordBatch L2'"
            "ok \<Longrightarrow> m_poBatch L2 = m_poBatch L2'" "ok \<Longrightarrow> m_nIdxInBatch L2 = m_nIdxInBatch L2'"
            by simp_all
          show ?thesis
          proof (cases ok)
            case True
            have "map_sum (\<lambda>f. f) fst (extent_loop env cfg step e' L2)
                = map_sum (\<lambda>f. f) fst (extent_loop env cfg step e' L2')"
              using "1.IH"(1) [OF Some False Inr refl last r [symmetric] _ same(2)] True same(3,4)
              by simp
            with Some False Inr last r r' True same(1) "1.prems" show ?thesis
              by (simp add: extent_loop.simps [of env cfg step psExtent L]
                    extent_loop.simps [of env cfg step psExtent L'])
          next
            case no: False
            with Some False Inr last r r' same(1) "1.prems" show ?thesis
              by (simp add: extent_loop.simps [of env cfg step psExtent L]
                    extent_loop.simps [of env cfg step psExtent L'])
          qed
        next
          case more: False
          have "map_sum (\<lambda>f. f) fst (extent_loop env cfg step e' ?L1)
              = map_sum (\<lambda>f. f) fst (extent_loop env cfg step e' ?L1')"
            using "1.IH"(2) [OF Some False Inr refl more, of ?L1'] "1.prems" by simp
          with Some False Inr more "1.prems" show ?thesis
            by (simp add: extent_loop.simps [of env cfg step psExtent L]
                  extent_loop.simps [of env cfg step psExtent L'])
        qed
      qed
    qed
  qed
qed

lemma extent_loop_extents:
  "extent_loop env cfg step e L = Inr (e', L') \<Longrightarrow> m_oMapExtents L' = m_oMapExtents L"
proof (induction env cfg step e L rule: extent_loop.induct)
  case (1 env cfg step psExtent L)
  from "1.prems" obtain b where b: "m_poBatch L = Some b"
    by (cases "m_poBatch L") (simp_all add: extent_loop.simps [of env cfg step psExtent L])
  from "1.prems" b have nl: "\<not> num_rows b \<le> m_nIdxInBatch L"
    by (auto simp add: extent_loop.simps [of env cfg step psExtent L])
  from "1.prems" b nl obtain e1 where st: "step b (m_nIdxInBatch L) psExtent = Inr e1"
    by (cases "step b (m_nIdxInBatch L) psExtent")
       (simp_all add: extent_loop.simps [of env cfg step psExtent L])
  let ?L1 = "L\<lparr>m_nFeatureIdx := m_nFeatureIdx L + 1, m_nIdxInBatch := m_nIdxInBatch L + 1\<rparr>"
  show ?case
  proof (cases "m_nIdxInBatch ?L1 = num_rows b")
    case last: True
    obtain ok L2 where r: "ReadNextBatch env cfg ?L1 = (ok, L2)" by (cases "ReadNextBatch env cfg ?L1")
    have m2: "m_oMapExtents L2 = m_oMapExtents L"
      using ReadNextBatch_extents [of env cfg ?L1] r by simp
    show ?thesis
    proof (cases ok)
      case True
      with "1.prems" b nl st last r have "extent_loop env cfg step e1 L2 = Inr (e', L')"
        by (simp add: extent_loop.simps [of env cfg step psExtent L])
      from "1.IH"(1) [OF b nl st refl last r [symmetric] _ this] True m2 show ?thesis by simp
    next
      case False
      with "1.prems" b nl st last r have "L' = ResetReading (L2\<lparr>m_bEOF := True\<rparr>)"
        by (simp add: extent_loop.simps [of env cfg step psExtent L])
      with m2 show ?thesis by (simp add: ResetReading_extents)
    qed
  next
    case more: False
    with "1.prems" b nl st have "extent_loop env cfg step e1 ?L1 = Inr (e', L')"
      by (simp add: extent_loop.simps [of env cfg step psExtent L])
    from "1.IH"(2) [OF b nl st refl more this] show ?thesis by simp
  qed
qed


lemma ResetReading_same_cursor:
  assumes "m_iRecordBatch L = m_iRecordBatch L'" and "m_poBatch L = m_poBatch L'"
  shows "m_iRecordBatch (ResetReading L) = m_iRecordBatch (ResetReading L')
       \<and> m_poBatch (ResetReading L) = m_poBatch (ResetReading L')
       \<and> m_nIdxInBatch (ResetReading L) = m_nIdxInBatch (ResetReading L')"
  using assms by (simp add: ResetReading_def Let_def)

lemma fast_extent_pass_same_cursor:
  assumes "m_iRecordBatch L = m_iRecordBatch L'" and "m_poBatch L = m_poBatch L'"
  shows "map_sum (\<lambda>f. f) fst (fast_extent_pass env cfg step i L)
       = map_sum (\<lambda>f. f) fst (fast_extent_pass env cfg step i L')"
proof -
  let ?L0 = "ResetReading L" and ?L0' = "ResetReading L'"
  note r0 = ResetReading_same_cursor [OF assms]
  show ?thesis
  proof (cases "m_poBatch ?L0")
    case None
    then have n': "m_poBatch ?L0' = None" using r0 by simp
    from r0 have c: "m_iRecordBatch ?L0 = m_iRecordBatch ?L0'" by simp
    obtain ok L1 where r: "ReadNextBatch env cfg ?L0 = (ok, L1)" by (cases "ReadNextBatch env cfg ?L0")
    obtain ok' L1' where r': "ReadNextBatch env cfg ?L0' = (ok', L1')" by (cases "ReadNextBatch env cfg ?L0'")
    from ReadNextBatch_same_cursor [OF c, of env cfg] r r'
    have same: "ok = ok'" "m_iRecordBatch L1 = m_iRecordBatch L1'"
      "ok \<Longrightarrow> m_poBatch L1 = m_poBatch L1'" "ok \<Longrightarrow> m_nIdxInBatch L1 = m_nIdxInBatch L1'"
      by simp_all
    show ?thesis
    proof (cases ok)
      case True
      from extent_loop_same_cursor [OF same(2) same(3) [OF True] same(4) [OF True], of env cfg step Uninit]
      have "map_sum (\<lambda>f. f) fst (extent_loop env cfg step Uninit L1)
          = map_sum (\<lambda>f. f) fst (extent_loop env cfg step Uninit L1')" .
      then show ?thesis using None n' r r' True same(1)
        by (cases "extent_loop env cfg step Uninit L1"; cases "extent_loop env cfg step Uninit L1'")
           (auto simp add: fast_extent_pass_def Let_def)
    next
      case False
      then show ?thesis using None n' r r' same(1)
        by (simp add: fast_extent_pass_def Let_def)
    qed
  next
    case (Some b)
    then have s': "m_poBatch ?L0' = Some b" using r0 by simp
    from r0 have "map_sum (\<lambda>f. f) fst (extent_loop env cfg step Uninit ?L0)
          = map_sum (\<lambda>f. f) fst (extent_loop env cfg step Uninit ?L0')"
      by (intro extent_loop_same_cursor) simp_all
    then show ?thesis using Some s'
      by (cases "extent_loop env cfg step Uninit ?L0"; cases "extent_loop env cfg step Uninit ?L0'")
         (auto simp add: fast_extent_pass_def Let_def)
  qed
qed

lemma fast_extent_pass_stored:
  assumes "fast_extent_pass env cfg step i L = Inr (r, L')"
  shows "m_oMapExtents L' = (case r of None \<Rightarrow> m_oMapExtents L
                             | Some e \<Rightarrow> (m_oMapExtents L)(i \<mapsto> e))"
proof -
  let ?L0 = "ResetReading L"
  obtain ok L1 where r: "(if m_poBatch ?L0 = None then ReadNextBatch env cfg ?L0 else (True, ?L0)) = (ok, L1)"
    by (cases "if m_poBatch ?L0 = None then ReadNextBatch env cfg ?L0 else (True, ?L0)")
  have m1: "m_oMapExtents L1 = m_oMapExtents L"
    using r ReadNextBatch_extents [of env cfg ?L0]
    by (auto simp add: ResetReading_extents split: if_splits)
  show ?thesis
  proof (cases ok)
    case False
    with assms r m1 show ?thesis by (auto simp add: fast_extent_pass_def Let_def)
  next
    case True
    with assms r obtain e L2 where l: "extent_loop env cfg step Uninit L1 = Inr (e, L2)"
      by (cases "extent_loop env cfg step Uninit L1") (auto simp add: fast_extent_pass_def Let_def)
    from extent_loop_extents [OF l] m1 have "m_oMapExtents L2 = m_oMapExtents L" by simp
    with assms r True l show ?thesis
      by (auto simp add: fast_extent_pass_def Let_def split: if_splits)
  qed
qed


lemma GetExtent_in_range:
  assumes "GetExtent env cfg G iGeomField bForce L = Inr (Some e, L1)"
  shows "0 \<le> iGeomField \<and> iGeomField < int (length (geom_field_types cfg))"
  using assms by (auto simp add: GetExtent_def split: if_splits)

lemma GetExtent_cached:
  assumes "FastGetExtent env L (nat iGeomField) = Some e"
    and "0 \<le> iGeomField" and "iGeomField < int (length (geom_field_types cfg))"
  shows "GetExtent env cfg G iGeomField bForce L = Inr (Some e, L)"
  using assms by (simp add: GetExtent_def)

lemma GetExtent_fast_stored:
  assumes enc: "m_aeGeomEncoding cfg ! nat iGeomField = WKB
                \<or> m_aeGeomEncoding cfg ! nat iGeomField = GEOARROW_MULTIPOLYGON"
    and computed: "GetExtent env cfg G iGeomField bForce L = Inr (Some e, L1)"
  shows "FastGetExtent env L1 (nat iGeomField) = Some e
       \<and> (FastGetExtent env L (nat iGeomField) = None
            \<longrightarrow> m_oMapExtents L1 = (m_oMapExtents L)(nat iGeomField \<mapsto> e))"
proof (cases "FastGetExtent env L (nat iGeomField)")
  case (Some e0)
  with computed GetExtent_in_range [OF computed] show ?thesis
    by (simp add: GetExtent_def)
next
  case None
  from computed None GetExtent_in_range [OF computed] enc
  obtain step where "fast_extent_pass env cfg step (nat iGeomField) L = Inr (Some e, L1)"
    by (auto simp add: GetExtent_def Let_def split: if_splits)
  from fast_extent_pass_stored [OF this]
  have "m_oMapExtents L1 = (m_oMapExtents L)(nat iGeomField \<mapsto> e)" by simp
  with None show ?thesis by (simp add: FastGetExtent_def)
qed

lemma GetExtent_same_cursor:
  assumes enc: "m_aeGeomEncoding cfg ! nat iGeomField = WKB
                \<or> m_aeGeomEncoding cfg ! nat iGeomField = GEOARROW_MULTIPOLYGON"
    and "m_iRecordBatch L = m_iRecordBatch L'" and "m_poBatch L = m_poBatch L'"
    and "m_oMapExtents L = m_oMapExtents L'"
  shows "map_sum (\<lambda>f. f) fst (GetExtent env cfg G iGeomField bForce L)
       = map_sum (\<lambda>f. f) fst (GetExtent env cfg G iGeomField bForce L')"
proof -
  have f: "FastGetExtent env L (nat iGeomField) = FastGetExtent env L' (nat iGeomField)"
    using assms(4) by (rule FastGetExtent_cong)
  have p: "map_sum (\<lambda>f. f) fst (fast_extent_pass env cfg step (nat iGeomField) L)
         = map_sum (\<lambda>f. f) fst (fast_extent_pass env cfg step (nat iGeomField) L')" for step
    using assms(2,3) by (rule fast_extent_pass_same_cursor)
  show ?thesis
    using enc f p
    by (cases "FastGetExtent env L' (nat iGeomField)")
       (auto simp add: GetExtent_def Let_def)
qed

lemma extent_of_scenario:
  "GetExtent extent_env scenario_cfg G 0 True new_layer
     = Inr (Some (Envelope 0 0 3 3), extent_done)"
  by (simp add: GetExtent_def FastGetExtent_def new_layer_def extent_env_def scenario_env_def
        scenario_cfg_def GetExtentFromMetadata_def fast_extent_pass_def ResetReading_def
        ReadNextBatch_def SetBatch_def clear_shortcuts_def scenario_batch_def Let_def
        extent_loop.simps wkb_extent_step_def has_type_BINARY_def GetValue_def
        extent_done_def)

text \<open>
  C7 (as amended). For a geometry field encoded as well-known binary or as a GeoArrow
  multipolygon, once \<open>GetExtent\<close> has returned an extent: if it was not already
  available it has been stored in the cache under the index of the field; every later
  request returns the same extent and leaves the state as it is, whatever the force
  flag; setting an attribute filter or a spatial filter leaves the cache as it is, and
  a request after either returns the same extent; and the computation itself does not
  look at the filters: started from the same state with any other filter geometry,
  filter envelope, filter field, attribute query and constraints, it gives the same
  extent.
\<close>

theorem C7_extent_cache_survives_filter_changes:
  assumes enc: "m_aeGeomEncoding cfg ! nat iGeomField = WKB
                \<or> m_aeGeomEncoding cfg ! nat iGeomField = GEOARROW_MULTIPOLYGON"
    and computed: "GetExtent env cfg G iGeomField bForce L = Inr (Some e, L1)"
  shows "(FastGetExtent env L (nat iGeomField) = None
            \<longrightarrow> m_oMapExtents L1 = (m_oMapExtents L)(nat iGeomField \<mapsto> e))
       \<and> GetExtent env cfg G' iGeomField bForce' L1 = Inr (Some e, L1)
       \<and> m_oMapExtents (snd (SetAttributeFilter env cfg use_optimized parsed L1))
           = m_oMapExtents L1
       \<and> m_oMapExtents (SetSpatialFilter env cfg iFilterField poGeomIn L1) = m_oMapExtents L1
       \<and> GetExtent env cfg G' iGeomField bForce'
             (snd (SetAttributeFilter env cfg use_optimized parsed L1))
           = Inr (Some e, snd (SetAttributeFilter env cfg use_optimized parsed L1))
       \<and> GetExtent env cfg G' iGeomField bForce'
             (SetSpatialFilter env cfg iFilterField poGeomIn L1)
           = Inr (Some e, SetSpatialFilter env cfg iFilterField poGeomIn L1)
       \<and> map_sum (\<lambda>f. f) fst
           (GetExtent env cfg G iGeomField bForce
              (L\<lparr>m_poFilterGeom := g, m_sFilterEnvelope := box, m_iGeomFieldFilter := k,
                 m_poAttrQuery := q, m_asAttributeFilterConstraints := cs,
                 m_bSpatialFilterIntersectsLayerExtent := s\<rparr>))
           = Inr (Some e)"
proof -
  note st = GetExtent_fast_stored [OF enc computed]
  note rg = GetExtent_in_range [OF computed]
  from st have f1: "FastGetExtent env L1 (nat iGeomField) = Some e" by simp
  have a: "FastGetExtent env (snd (SetAttributeFilter env cfg use_optimized parsed L1))
             (nat iGeomField) = Some e"
    using f1 FastGetExtent_cong [OF SetAttributeFilter_extents] by simp
  have b: "FastGetExtent env (SetSpatialFilter env cfg iFilterField poGeomIn L1)
             (nat iGeomField) = Some e"
    using f1 FastGetExtent_cong [OF SetSpatialFilter_extents] by simp
  have c: "map_sum (\<lambda>f. f) fst
           (GetExtent env cfg G iGeomField bForce
              (L\<lparr>m_poFilterGeom := g, m_sFilterEnvelope := box, m_iGeomFieldFilter := k,
                 m_poAttrQuery := q, m_asAttributeFilterConstraints := cs,
                 m_bSpatialFilterIntersectsLayerExtent := s\<rparr>))
         = map_sum (\<lambda>f. f) fst (GetExtent env cfg G iGeomField bForce L)"
    by (rule GetExtent_same_cursor [OF enc]) simp_all
  show ?thesis
    using st rg
    by (simp add: GetExtent_cached [OF f1] GetExtent_cached [OF a] GetExtent_cached [OF b]
          SetAttributeFilter_extents SetSpatialFilter_extents c computed)
qed

theorem C7_witness:
  "(m_aeGeomEncoding scenario_cfg ! nat 0 = WKB
      \<or> m_aeGeomEncoding scenario_cfg ! nat 0 = GEOARROW_MULTIPOLYGON)
   \<and> GetExtent extent_env scenario_cfg (\<lambda>L i f. (None, L)) 0 True new_layer
       = Inr (Some (Envelope 0 0 3 3), extent_done)
   \<and> FastGetExtent extent_env new_layer (nat 0) = None
   \<and> m_oMapExtents extent_done = (m_oMapExtents new_layer)(nat 0 \<mapsto> Envelope 0 0 3 3)
   \<and> GetExtent extent_env scenario_cfg (\<lambda>L i f. (None, L)) 0 False extent_done
       = Inr (Some (Envelope 0 0 3 3), extent_done)
   \<and> GetExtent extent_env scenario_cfg (\<lambda>L i f. (None, L)) 0 False
        (snd (SetAttributeFilter extent_env scenario_cfg True (Some (Some name_is_not_a))
                extent_done))
       = Inr (Some (Envelope 0 0 3 3),
              snd (SetAttributeFilter extent_env scenario_cfg True (Some (Some name_is_not_a))
                     extent_done))
   \<and> GetExtent extent_env scenario_cfg (\<lambda>L i f. (None, L)) 0 False
        (SetSpatialFilter extent_env scenario_cfg 0 (Some filter_box) extent_done)
       = Inr (Some (Envelope 0 0 3 3),
              SetSpatialFilter extent_env scenario_cfg 0 (Some filter_box) extent_done)
   \<and> map_sum (\<lambda>f. f) fst
        (GetExtent extent_env scenario_cfg (\<lambda>L i f. (None, L)) 0 True
           (new_layer\<lparr>m_poFilterGeom := Some filter_box,
              m_sFilterEnvelope := Envelope 10 10 20 20, m_iGeomFieldFilter := 0,
              m_poAttrQuery := Some name_is_not_a, m_asAttributeFilterConstraints := [],
              m_bSpatialFilterIntersectsLayerExtent := False\<rparr>))
       = Inr (Some (Envelope 0 0 3 3))"
proof -
  have enc: "m_aeGeomEncoding scenario_cfg ! nat 0 = WKB
      \<or> m_aeGeomEncoding scenario_cfg ! nat 0 = GEOARROW_MULTIPOLYGON"
    by (simp add: scenario_cfg_def)
  have miss: "FastGetExtent extent_env new_layer (nat 0) = None"
    by (simp add: FastGetExtent_def new_layer_def extent_env_def scenario_env_def
          GetExtentFromMetadata_def)
  show ?thesis
    using C7_extent_cache_survives_filter_changes
            [OF enc extent_of_scenario [of "\<lambda>L i f. (None, L)"],
             where G' = "\<lambda>L i f. (None, L)" and bForce' = False and use_optimized = True
               and parsed = "Some (Some name_is_not_a)" and iFilterField = 0
               and poGeomIn = "Some filter_box" and g = "Some filter_box"
               and box = "Envelope 10 10 20 20" and k = 0 and q = "Some name_is_not_a"
               and cs = "[]" and s = False]
          enc miss extent_of_scenario [of "\<lambda>L i f. (None, L)"]
    by simp
qed

text \<open>
  The claim as first stated holds of every geometry field. For a field of another
  encoding the extent is the generic implementation's, which is returned as it is:
  after the request has returned the extent, the cache has no entry for the field.
\<close>

theorem C7_counterexample:
  "GetExtent point_env point_cfg (\<lambda>L i f. (Some (Envelope 0 1 0 1), L)) 0 True new_layer
     = Inr (Some (Envelope 0 1 0 1), new_layer)
   \<and> m_oMapExtents new_layer 0 = None
   \<and> FastGetExtent point_env new_layer 0 = None"
  by (simp add: GetExtent_def FastGetExtent_def new_layer_def point_env_def scenario_env_def
        point_cfg_def scenario_cfg_def GetExtentFromMetadata_def Let_def)

subsection \<open>Text-to-binary export\<close>

lemma malloc_cases:
  "VSI_MALLOC_ALIGNED_AUTO_VERBOSE heap = (ok, heap') \<Longrightarrow> length heap' \<le> length heap"
  by (auto simp add: VSI_MALLOC_ALIGNED_AUTO_VERBOSE_def split: list.splits)

lemma Grow_law:
  assumes "buffer_ok B" and "Grow heap nItemSize B = (ok, B', heap')"
  shows "(ok \<longleftrightarrow> m_nSize B + nItemSize \<le> MAX_SIZE_SINT32
                  \<and> fst (VSI_MALLOC_ALIGNED_AUTO_VERBOSE heap))
       \<and> (ok \<longrightarrow> B' = B\<lparr>m_nCapacity :=
                          max (m_nSize B + nItemSize)
                              (min MAX_SIZE_SINT32 (2 * m_nCapacity B))\<rparr>)
       \<and> (\<not> ok \<longrightarrow> B' = B)"
proof -
  from assms(1) have b: "m_nSize B \<le> MAX_SIZE_SINT32" "m_nCapacity B \<le> MAX_SIZE_SINT32"
    by (simp_all add: buffer_ok_def)
  have s1: "size_t (int MAX_SIZE_SINT32 - int (m_nSize B)) = MAX_SIZE_SINT32 - m_nSize B"
    using b by (simp add: size_t_def MAX_SIZE_SINT32_def nat_diff_distrib)
  have s3: "size_t (2 * int (m_nCapacity B)) = 2 * m_nCapacity B"
    using b by (simp add: size_t_def MAX_SIZE_SINT32_def nat_mult_distrib)
  show ?thesis
  proof (cases "nItemSize > MAX_SIZE_SINT32 - m_nSize B")
    case True
    with assms(2) s1 b show ?thesis by (auto simp add: Grow_def)
  next
    case False
    then have le: "m_nSize B + nItemSize \<le> MAX_SIZE_SINT32" using b by simp
    have s2: "size_t (int (m_nSize B) + int nItemSize) = m_nSize B + nItemSize"
      using le by (simp add: size_t_def MAX_SIZE_SINT32_def nat_add_distrib)
    from assms(2) False s1 s2 s3 le show ?thesis
      by (auto simp add: Grow_def Let_def max_def min_def split: prod.splits if_splits)
  qed
qed


lemma GetPtrForNewBytes_law:
  assumes ok: "buffer_ok B" and r: "GetPtrForNewBytes heap item B = (done, B', heap')"
  shows "buffer_ok B'
       \<and> (done \<longrightarrow> m_pRawBuffer B' = m_pRawBuffer B @ item)
       \<and> (\<not> done \<longrightarrow> B' = B)
       \<and> (MAX_SIZE_SINT32 < m_nSize B + length item \<longrightarrow> \<not> done)
       \<and> m_nCapacity B \<le> m_nCapacity B'"
proof -
  from ok have b: "m_nSize B \<le> m_nCapacity B" "m_nCapacity B \<le> MAX_SIZE_SINT32"
    "length (m_pRawBuffer B) = m_nSize B"
    by (simp_all add: buffer_ok_def)
  have s1: "size_t (int (m_nCapacity B) - int (m_nSize B)) = m_nCapacity B - m_nSize B"
    using b by (simp add: size_t_def MAX_SIZE_SINT32_def nat_diff_distrib)
  show ?thesis
  proof (cases "length item > m_nCapacity B - m_nSize B")
    case False
    then have le: "m_nSize B + length item \<le> m_nCapacity B" using b by simp
    then have s2: "size_t (int (m_nSize B) + int (length item)) = m_nSize B + length item"
      using b by (simp add: size_t_def MAX_SIZE_SINT32_def nat_add_distrib)
    from r False s1 s2 le b show ?thesis
      by (auto simp add: GetPtrForNewBytes_def Let_def buffer_ok_def)
  next
    case True
    obtain g B1 h1 where g: "Grow heap (length item) B = (g, B1, h1)"
      by (cases "Grow heap (length item) B") auto
    note law = Grow_law [OF ok g]
    show ?thesis
    proof (cases g)
      case False
      with r True s1 g law ok show ?thesis
        by (auto simp add: GetPtrForNewBytes_def Let_def)
    next
      case gt: True
      with law have le: "m_nSize B + length item \<le> MAX_SIZE_SINT32"
        and B1: "B1 = B\<lparr>m_nCapacity := max (m_nSize B + length item)
                              (min MAX_SIZE_SINT32 (2 * m_nCapacity B))\<rparr>"
        by simp_all
      have s2: "size_t (int (m_nSize B) + int (length item)) = m_nSize B + length item"
        using le by (simp add: size_t_def MAX_SIZE_SINT32_def nat_add_distrib)
      from r True s1 g gt B1 s2 le b show ?thesis
        by (auto simp add: GetPtrForNewBytes_def Let_def buffer_ok_def)
    qed
  qed
qed

lemma append_items_law:
  assumes "buffer_ok B" and "append_items heap items B = (done, B', heap')"
  shows "buffer_ok B'
       \<and> (done \<longrightarrow> m_pRawBuffer B' = m_pRawBuffer B @ concat items)
       \<and> (MAX_SIZE_SINT32 < m_nSize B + length (concat items) \<longrightarrow> \<not> done)
       \<and> m_nCapacity B \<le> m_nCapacity B'"
  using assms
proof (induction items arbitrary: heap B)
  case Nil
  then show ?case by (auto simp add: buffer_ok_def)
next
  case (Cons item items)
  obtain d1 B1 h1 where g: "GetPtrForNewBytes heap item B = (d1, B1, h1)"
    by (cases "GetPtrForNewBytes heap item B") auto
  note law = GetPtrForNewBytes_law [OF Cons.prems(1) g]
  show ?case
  proof (cases d1)
    case False
    with Cons.prems g law show ?thesis by auto
  next
    case True
    with Cons.prems g have rest: "append_items h1 items B1 = (done, B', heap')" by simp
    from law have ok1: "buffer_ok B1" by simp
    note ih = Cons.IH [OF ok1 rest]
    from law True have raw: "m_pRawBuffer B1 = m_pRawBuffer B @ item" by simp
    from ok1 Cons.prems(1) raw have sz: "m_nSize B1 = m_nSize B + length item"
      by (simp add: buffer_ok_def)
    from ih law raw sz show ?thesis by (auto simp add: add.assoc)
  qed
qed

lemma TranslateWKT_law:
  assumes "buffer_ok B" and "TranslateWKT wkt_to_wkb heap wkt B = (r, B', heap')"
  shows "buffer_ok B'
       \<and> (r \<noteq> None \<longrightarrow> wkt_to_wkb wkt \<noteq> None
            \<and> m_pRawBuffer B' = m_pRawBuffer B @ concat (the (wkt_to_wkb wkt)))
       \<and> (wkt_to_wkb wkt = None \<longrightarrow> r = None)
       \<and> (MAX_SIZE_SINT32 < m_nSize B + length (concat (the (wkt_to_wkb wkt))) \<longrightarrow> r = None)"
proof (cases "wkt_to_wkb wkt")
  case None
  with assms show ?thesis by (simp add: TranslateWKT_def)
next
  case (Some items)
  obtain d B1 h1 where a: "append_items heap items B = (d, B1, h1)"
    by (cases "append_items heap items B") auto
  from append_items_law [OF assms(1) a] assms(2) Some a show ?thesis
    by (auto simp add: TranslateWKT_def split: if_splits)
qed


lemma all_succeeded_refl: "all_succeeded heap heap"
  by (simp add: all_succeeded_def)

lemma all_succeeded_iff:
  "all_succeeded heap heap' \<longleftrightarrow> (\<exists>used. heap = used @ heap' \<and> list_all (\<lambda>ok. ok) used)"
proof
  assume a: "all_succeeded heap heap'"
  then have "heap = take (length heap - length heap') heap @ heap'"
    by (metis all_succeeded_def append_take_drop_id)
  with a show "\<exists>used. heap = used @ heap' \<and> list_all (\<lambda>ok. ok) used"
    unfolding all_succeeded_def by blast
next
  assume "\<exists>used. heap = used @ heap' \<and> list_all (\<lambda>ok. ok) used"
  then show "all_succeeded heap heap'" by (auto simp add: all_succeeded_def)
qed

lemma all_succeeded_trans:
  "all_succeeded h1 h2 \<Longrightarrow> all_succeeded h2 h3 \<Longrightarrow> all_succeeded h1 h3"
  unfolding all_succeeded_iff by (metis append.assoc list_all_append)

lemma malloc_succeeded:
  "VSI_MALLOC_ALIGNED_AUTO_VERBOSE heap = (True, heap') \<Longrightarrow> all_succeeded heap heap'"
  unfolding all_succeeded_iff
  by (cases heap) (auto simp add: VSI_MALLOC_ALIGNED_AUTO_VERBOSE_def intro: exI [of _ "[True]"])

lemma Grow_succeeded:
  "Grow heap n B = (True, B', heap') \<Longrightarrow> all_succeeded heap heap'"
  by (auto simp add: Grow_def Let_def malloc_succeeded split: if_splits prod.splits)

lemma GetPtrForNewBytes_succeeded:
  "GetPtrForNewBytes heap item B = (True, B', heap') \<Longrightarrow> all_succeeded heap heap'"
  by (auto simp add: GetPtrForNewBytes_def Let_def all_succeeded_refl
        split: if_splits prod.splits dest: Grow_succeeded)

lemma append_items_succeeded:
  "append_items heap items B = (True, B', heap') \<Longrightarrow> all_succeeded heap heap'"
proof (induction items arbitrary: heap B)
  case Nil
  then show ?case by (simp add: all_succeeded_refl)
next
  case (Cons item items)
  then show ?case
    by (auto split: prod.splits if_splits
          dest!: GetPtrForNewBytes_succeeded intro: all_succeeded_trans)
qed

lemma TranslateWKT_succeeded:
  "TranslateWKT wkt_to_wkb heap wkt B = (Some n, B', heap') \<Longrightarrow> all_succeeded heap heap'"
  by (auto simp add: TranslateWKT_def split: option.splits prod.splits if_splits
        dest: append_items_succeeded)

lemma uint32_t_small: "n \<le> MAX_SIZE_SINT32 \<Longrightarrow> uint32_t n = n"
  by (simp add: uint32_t_def MAX_SIZE_SINT32_def)

lemma buffer_ok_size: "buffer_ok B \<Longrightarrow> uint32_t (m_nSize B) = m_nSize B"
  by (rule uint32_t_small) (simp add: buffer_ok_def)

lemma translate_rows_law:
  assumes "buffer_ok B"
    and "translate_rows wkt_to_wkb targetNull texts i offs B heap = (Some (offs', B'), heap')"
  shows "buffer_ok B'
       \<and> m_pRawBuffer B' = m_pRawBuffer B @ concat (row_bytes wkt_to_wkb targetNull texts i)
       \<and> offs' @ [m_nSize B']
           = offs @ offsets_from (m_nSize B) (row_bytes wkt_to_wkb targetNull texts i)
       \<and> all_succeeded heap heap'
       \<and> (\<forall>k<length texts.
             \<not> row_is_null targetNull (i + k)
             \<longrightarrow> wkt_to_wkb (texts ! k) \<noteq> None)"
  using assms
proof (induction texts arbitrary: i offs B heap)
  case Nil
  then show ?case by (simp add: all_succeeded_refl)
next
  case (Cons wkt rest)
  let ?null = "row_is_null targetNull i"
  note sz = buffer_ok_size [OF Cons.prems(1)]
  show ?case
  proof (cases ?null)
    case True
    with Cons.prems(2) sz
    have r: "translate_rows wkt_to_wkb targetNull rest (i + 1) (offs @ [m_nSize B]) B heap
               = (Some (offs', B'), heap')"
      by (simp add: Let_def)
    from Cons.IH [OF Cons.prems(1) r] True show ?thesis
      by (auto simp add: less_Suc_eq_0_disj)
  next
    case False
    obtain n B1 h1 where t: "TranslateWKT wkt_to_wkb heap wkt B = (n, B1, h1)"
      by (cases "TranslateWKT wkt_to_wkb heap wkt B") auto
    with Cons.prems(2) False sz have n: "n \<noteq> None"
      and r: "translate_rows wkt_to_wkb targetNull rest (i + 1) (offs @ [m_nSize B]) B1 h1
               = (Some (offs', B'), heap')"
      by (auto simp add: Let_def split: if_splits)
    note law = TranslateWKT_law [OF Cons.prems(1) t]
    from law have ok1: "buffer_ok B1" by simp
    from law n have acc: "wkt_to_wkb wkt \<noteq> None"
      and raw: "m_pRawBuffer B1 = m_pRawBuffer B @ concat (the (wkt_to_wkb wkt))"
      by simp_all
    from ok1 Cons.prems(1) raw
    have sz1: "m_nSize B1 = m_nSize B + length (concat (the (wkt_to_wkb wkt)))"
      by (simp add: buffer_ok_def)
    from n t have s1: "all_succeeded heap h1" by (auto dest: TranslateWKT_succeeded)
    note ih = Cons.IH [OF ok1 r]
    from ih s1 have "all_succeeded heap heap'" by (auto intro: all_succeeded_trans)
    with ih False acc raw sz1 show ?thesis
      by (auto simp add: less_Suc_eq_0_disj)
  qed
qed


lemma translate_rows_too_large:
  assumes "buffer_ok B"
    and "MAX_SIZE_SINT32 < m_nSize B + length (concat (row_bytes wkt_to_wkb targetNull texts i))"
  shows "fst (translate_rows wkt_to_wkb targetNull texts i offs B heap) = None"
  using assms
proof (induction texts arbitrary: i offs B heap)
  case Nil
  then show ?case by (simp add: buffer_ok_def)
next
  case (Cons wkt rest)
  show ?case
  proof (cases "row_is_null targetNull i")
    case True
    with Cons.prems Cons.IH [OF Cons.prems(1)] show ?thesis by (simp add: Let_def)
  next
    case False
    obtain n B1 h1 where t: "TranslateWKT wkt_to_wkb heap wkt B = (n, B1, h1)"
      by (cases "TranslateWKT wkt_to_wkb heap wkt B") auto
    show ?thesis
    proof (cases n)
      case None
      with t False show ?thesis by (simp add: Let_def)
    next
      case (Some m)
      note law = TranslateWKT_law [OF Cons.prems(1) t]
      from law have ok1: "buffer_ok B1" by simp
      from law Some have raw: "m_pRawBuffer B1 = m_pRawBuffer B @ concat (the (wkt_to_wkb wkt))"
        by simp
      from ok1 Cons.prems(1) raw
      have sz1: "m_nSize B1 = m_nSize B + length (concat (the (wkt_to_wkb wkt)))"
        by (simp add: buffer_ok_def)
      from Cons.prems(2) False sz1
      have "MAX_SIZE_SINT32
              < m_nSize B1 + length (concat (row_bytes wkt_to_wkb targetNull rest (i + 1)))"
        by simp
      from Cons.IH [OF ok1 this] t False Some show ?thesis by (simp add: Let_def)
    qed
  qed
qed

lemma initial_buffer_ok:
  "buffer_ok \<lparr>m_nCapacity = uint32_t (min MAX_SIZE_SINT32 (size_t (100 * int nLength))),
              m_nSize = 0, m_pRawBuffer = []\<rparr>"
  by (simp add: buffer_ok_def uint32_t_small)

lemma offsets_from_length: "length (offsets_from n rs) = length rs + 1"
  by (induction rs arbitrary: n) simp_all

lemma row_bytes_length: "length (row_bytes wkt_to_wkb targetNull texts i) = length texts"
  by (induction texts arbitrary: i) simp_all

lemma offsets_from_bound:
  "o' \<in> set (offsets_from n rs) \<Longrightarrow> n \<le> o' \<and> o' \<le> n + length (concat rs)"
  by (induction rs arbitrary: n) fastforce+

lemma CreateWKBArrayFromWKTArray_law:
  assumes "CreateWKBArrayFromWKTArray wkt_to_wkb heap sourceArray = (Some target, heap')"
  shows "wkb_data target
           = concat (row_bytes wkt_to_wkb (wkb_nulls target) (wkt_texts sourceArray) 0)
       \<and> wkb_offsets target
           = offsets_from 0 (row_bytes wkt_to_wkb (wkb_nulls target) (wkt_texts sourceArray) 0)
       \<and> wkb_nulls target
           = (if null_count sourceArray \<noteq> 0 then wkt_nulls sourceArray else None)
       \<and> length (wkb_data target) \<le> MAX_SIZE_SINT32
       \<and> all_succeeded heap heap'
       \<and> (\<forall>k<length (wkt_texts sourceArray).
             \<not> row_is_null (wkb_nulls target) k
             \<longrightarrow> wkt_to_wkb (wkt_texts sourceArray ! k) \<noteq> None)"
proof -
  let ?has = "null_count sourceArray \<noteq> 0 \<and> wkt_nulls sourceArray \<noteq> None"
  let ?B0 = "\<lparr>m_nCapacity =
                uint32_t (min MAX_SIZE_SINT32 (size_t (100 * int (length (wkt_texts sourceArray))))),
              m_nSize = 0, m_pRawBuffer = []\<rparr>"
  obtain v h1 where a1: "(if ?has then VSI_MALLOC_ALIGNED_AUTO_VERBOSE heap else (False, heap)) = (v, h1)"
    by (cases "if ?has then VSI_MALLOC_ALIGNED_AUTO_VERBOSE heap else (False, heap)") auto
  obtain o2 h2 where a2: "VSI_MALLOC_ALIGNED_AUTO_VERBOSE h1 = (o2, h2)"
    by (cases "VSI_MALLOC_ALIGNED_AUTO_VERBOSE h1") auto
  obtain d3 h3 where a3: "VSI_MALLOC_ALIGNED_AUTO_VERBOSE h2 = (d3, h3)"
    by (cases "VSI_MALLOC_ALIGNED_AUTO_VERBOSE h2") auto
  let ?tn = "if ?has \<and> v then wkt_nulls sourceArray else None"
  from assms a1 a2 a3 have chk: "\<not> (?has \<and> ?tn = None)" "o2" "d3"
    by (auto simp add: CreateWKBArrayFromWKTArray_def Let_def split: if_splits)
  from chk(1) have tn: "?tn = (if null_count sourceArray \<noteq> 0 then wkt_nulls sourceArray else None)"
    by auto
  from chk(1) a1 have s1: "all_succeeded heap h1"
    by (auto simp add: all_succeeded_refl split: if_splits intro: malloc_succeeded)
  from a2 chk(2) have s2: "all_succeeded h1 h2" by (auto intro: malloc_succeeded)
  from a3 chk(3) have s3: "all_succeeded h2 h3" by (auto intro: malloc_succeeded)
  from assms a1 a2 a3 chk obtain offs B where
    r: "translate_rows wkt_to_wkb ?tn (wkt_texts sourceArray) 0 [] ?B0 h3 = (Some (offs, B), heap')"
    and t: "target = \<lparr>wkb_nulls = ?tn, wkb_offsets = offs @ [uint32_t (m_nSize B)],
                      wkb_data = m_pRawBuffer B\<rparr>"
    by (auto simp add: CreateWKBArrayFromWKTArray_def Let_def split: if_splits option.splits prod.splits)
  note law = translate_rows_law [OF initial_buffer_ok r]
  from law have okB: "buffer_ok B" by simp
  from law s1 s2 s3 have s: "all_succeeded heap heap'" by (blast intro: all_succeeded_trans)
  from okB have len: "length (m_pRawBuffer B) \<le> MAX_SIZE_SINT32" by (simp add: buffer_ok_def)
  from law t tn s len buffer_ok_size [OF okB] show ?thesis by simp
qed


lemma Grow_keeps_ok:
  assumes "buffer_ok B" and "Grow heap nItemSize B = (ok, B', heap')"
  shows "buffer_ok B'"
proof -
  note law = Grow_law [OF assms]
  show ?thesis
  proof (cases ok)
    case True
    with law have "m_nSize B + nItemSize \<le> MAX_SIZE_SINT32"
      and "B' = B\<lparr>m_nCapacity := max (m_nSize B + nItemSize)
                                   (min MAX_SIZE_SINT32 (2 * m_nCapacity B))\<rparr>"
      by simp_all
    with assms(1) show ?thesis by (auto simp add: buffer_ok_def)
  next
    case False
    with law assms(1) show ?thesis by simp
  qed
qed

lemma CreateWKBArrayFromWKTArray_too_large:
  assumes "MAX_SIZE_SINT32
             < length (concat (row_bytes wkt_to_wkb
                 (if null_count sourceArray \<noteq> 0 then wkt_nulls sourceArray else None)
                 (wkt_texts sourceArray) 0))"
  shows "fst (CreateWKBArrayFromWKTArray wkt_to_wkb heap sourceArray) = None"
proof (cases "fst (CreateWKBArrayFromWKTArray wkt_to_wkb heap sourceArray)")
  case None
  then show ?thesis .
next
  case (Some target)
  then have "CreateWKBArrayFromWKTArray wkt_to_wkb heap sourceArray
      = (Some target, snd (CreateWKBArrayFromWKTArray wkt_to_wkb heap sourceArray))"
    by (cases "CreateWKBArrayFromWKTArray wkt_to_wkb heap sourceArray") simp
  from CreateWKBArrayFromWKTArray_law [OF this]
  have "wkb_data target
          = concat (row_bytes wkt_to_wkb
              (if null_count sourceArray \<noteq> 0 then wkt_nulls sourceArray else None)
              (wkt_texts sourceArray) 0)"
    and "length (wkb_data target) \<le> MAX_SIZE_SINT32"
    by metis+
  with assms show ?thesis by simp
qed

lemma first_allocation_fails:
  assumes "\<not> fst (VSI_MALLOC_ALIGNED_AUTO_VERBOSE heap)"
  shows "fst (CreateWKBArrayFromWKTArray wkt_to_wkb heap sourceArray) = None"
  using assms
  by (auto simp add: CreateWKBArrayFromWKTArray_def Let_def split: prod.splits)

lemma replace_head_fails:
  assumes "\<not> geom_IsIgnored stream ! i" and "m_aeGeomEncoding cfg ! i = WKT"
    and "WKTArray_of (columns out_array
           ! nat (if m_bIgnoredFields cfg then m_anMapGeomFieldIndexToArrayIndex cfg ! i
                  else m_anMapGeomFieldIndexToArrowColumn cfg ! i)) = Some sourceArray"
    and "CreateWKBArrayFromWKTArray (wkt_grammar stream) heap sourceArray = (None, heap1)"
  shows "replace_wkt_columns cfg stream (i # rest) out_array heap = Inr (None, heap1)"
  using assms by (simp add: Let_def)

lemma export_round_out_of_memory:
  assumes "\<not> m_bEOF L" and "batch_to_export env cfg L = (True, L1)"
    and "m_poBatch L1 = Some b" and "ExportRecordBatch stream b = Some exported"
    and "GEOMETRY_ENCODING_is_WKB stream"
    and "replace_wkt_columns cfg stream [0..<length (geom_field_types cfg)] exported heap
           = Inr (None, heap1)"
  shows "export_loop env cfg stream out_array heap L
           = Inr (ENOMEM, None, L1\<lparr>m_nIdxInBatch := num_rows b\<rparr>, heap1)"
  using assms
  by (simp add: export_loop.simps [of env cfg stream out_array heap L] export_round_def Let_def)

lemma export_round_error_array:
  assumes "export_round env cfg stream out_array heap L = Inr (Returns err array L' heap')"
  shows "err \<in> {0, EIO, ENOMEM} \<and> (err = ENOMEM \<longrightarrow> array = None)
       \<and> (err = EIO \<longrightarrow> array = out_array)"
proof (cases "m_bEOF L")
  case True
  with assms show ?thesis by (auto simp add: export_round_def EIO_def ENOMEM_def)
next
  case eof: False
  obtain ok L1 where b: "batch_to_export env cfg L = (ok, L1)"
    by (cases "batch_to_export env cfg L") auto
  show ?thesis
  proof (cases ok)
    case False
    with assms eof b show ?thesis by (auto simp add: export_round_def EIO_def ENOMEM_def)
  next
    case True
    with assms eof b obtain bt where bt: "m_poBatch L1 = Some bt"
      by (cases "m_poBatch L1") (auto simp add: export_round_def)
    from assms eof b True bt show ?thesis
      by (auto simp add: export_round_def Let_def EIO_def ENOMEM_def
            split: option.splits sum.splits prod.splits if_splits)
  qed
qed

lemma export_loop_out_of_memory:
  assumes "export_loop env cfg stream out_array heap L = Inr (err, array, L', heap')"
    and "err = ENOMEM"
  shows "array = None"
  using assms
proof (induction env cfg stream out_array heap L rule: export_loop.induct)
  case (1 env cfg stream out_array heap L)
  show ?case
  proof (cases "export_round env cfg stream out_array heap L")
    case (Inl f)
    with "1.prems"(1) show ?thesis
      by (simp add: export_loop.simps [of env cfg stream out_array heap L])
  next
    case (Inr outcome)
    show ?thesis
    proof (cases outcome)
      case (Returns e a L1 h1)
      with Inr "1.prems"(1) have eq: "e = err" "a = array" "L1 = L'" "h1 = heap'"
        by (simp_all add: export_loop.simps [of env cfg stream out_array heap L])
      from Inr Returns eq
      have "export_round env cfg stream out_array heap L = Inr (Returns err array L' heap')"
        by simp
      from export_round_error_array [OF this] "1.prems"(2) show ?thesis by simp
    next
      case (Continues L1 h1)
      with Inr "1.prems"(1)
      have rec: "export_loop env cfg stream None h1 L1 = Inr (err, array, L', heap')"
        by (simp add: export_loop.simps [of env cfg stream out_array heap L])
      from "1.IH" [OF Inr Continues rec "1.prems"(2)] show ?thesis .
    qed
  qed
qed


text \<open>
  C9 (as amended). The buffer of a build starts within the bound (size within capacity,
  capacity at most 2^31 - 1), and growing and appending keep it there. Growing by an
  item succeeds exactly when size plus item is at most 2^31 - 1 and the allocation
  succeeds; the new capacity is then the larger of the size needed and twice the old
  capacity capped at 2^31 - 1, and on failure the buffer is as before. An append that
  would take the size past 2^31 - 1 fails and leaves the buffer as it was. A build that
  returns an array returns the complete one: the bytes of every row that is not null,
  in order, with the offset of each row, at most 2^31 - 1 bytes, every allocation on
  the way having succeeded and every text having been accepted; a build whose bytes
  would exceed the bound, or whose first allocation fails, returns the null pointer.
  When the translation of a column returns the null pointer, the replacement of the
  columns does, and the export returns the out-of-memory error with a zeroed array; the
  export never returns that error with an array.
\<close>

theorem C9_append_buffer_stays_within_signed_32_bits:
  assumes ok: "buffer_ok B"
    and G: "G = Grow heap nItemSize B"
    and A: "A = GetPtrForNewBytes heap item B"
    and W: "W = CreateWKBArrayFromWKTArray translate hp sourceArray"
  shows "buffer_ok \<lparr>m_nCapacity = uint32_t (min MAX_SIZE_SINT32 (size_t (100 * int nLength))),
                    m_nSize = 0, m_pRawBuffer = []\<rparr>
       \<and> buffer_ok (fst (snd G)) \<and> buffer_ok (fst (snd A))
       \<and> (fst G \<longleftrightarrow> m_nSize B + nItemSize \<le> MAX_SIZE_SINT32
                      \<and> fst (VSI_MALLOC_ALIGNED_AUTO_VERBOSE heap))
       \<and> (fst G \<longrightarrow> fst (snd G)
                      = B\<lparr>m_nCapacity := max (m_nSize B + nItemSize)
                                             (min MAX_SIZE_SINT32 (2 * m_nCapacity B))\<rparr>)
       \<and> (\<not> fst G \<longrightarrow> fst (snd G) = B)
       \<and> (MAX_SIZE_SINT32 < m_nSize B + length item \<longrightarrow> \<not> fst A \<and> fst (snd A) = B)
       \<and> (fst A \<longrightarrow> m_pRawBuffer (fst (snd A)) = m_pRawBuffer B @ item)
       \<and> (\<forall>target. fst W = Some target \<longrightarrow>
             wkb_data target
               = concat (row_bytes translate (wkb_nulls target) (wkt_texts sourceArray) 0)
           \<and> wkb_offsets target
               = offsets_from 0 (row_bytes translate (wkb_nulls target) (wkt_texts sourceArray) 0)
           \<and> wkb_nulls target
               = (if null_count sourceArray \<noteq> 0 then wkt_nulls sourceArray else None)
           \<and> length (wkb_data target) \<le> MAX_SIZE_SINT32
           \<and> all_succeeded hp (snd W)
           \<and> (\<forall>k<length (wkt_texts sourceArray).
                 \<not> row_is_null (wkb_nulls target) k
                 \<longrightarrow> translate (wkt_texts sourceArray ! k) \<noteq> None))
       \<and> (MAX_SIZE_SINT32
             < length (concat (row_bytes translate
                 (if null_count sourceArray \<noteq> 0 then wkt_nulls sourceArray else None)
                 (wkt_texts sourceArray) 0))
            \<longrightarrow> fst W = None)
       \<and> (\<not> fst (VSI_MALLOC_ALIGNED_AUTO_VERBOSE hp) \<longrightarrow> fst W = None)
       \<and> (\<not> geom_IsIgnored stream ! i \<and> m_aeGeomEncoding cfg ! i = WKT
            \<and> WKTArray_of (columns exported
                 ! nat (if m_bIgnoredFields cfg then m_anMapGeomFieldIndexToArrayIndex cfg ! i
                        else m_anMapGeomFieldIndexToArrowColumn cfg ! i)) = Some sourceArray
            \<and> translate = wkt_grammar stream \<and> fst W = None
            \<longrightarrow> replace_wkt_columns cfg stream (i # rest) exported hp = Inr (None, snd W))
       \<and> (\<not> m_bEOF L \<and> batch_to_export env cfg L = (True, L1) \<and> m_poBatch L1 = Some b
            \<and> ExportRecordBatch stream b = Some exported \<and> GEOMETRY_ENCODING_is_WKB stream
            \<and> replace_wkt_columns cfg stream [0..<length (geom_field_types cfg)] exported hp
                 = Inr (None, heap1)
            \<longrightarrow> export_loop env cfg stream out_array hp L
                  = Inr (ENOMEM, None, L1\<lparr>m_nIdxInBatch := num_rows b\<rparr>, heap1))
       \<and> (\<forall>array L' heap'.
             export_loop env cfg stream out_array hp L = Inr (ENOMEM, array, L', heap')
             \<longrightarrow> array = None)"
proof -
  obtain g Bg hg where g: "Grow heap nItemSize B = (g, Bg, hg)"
    by (cases "Grow heap nItemSize B") auto
  obtain a Ba ha where a: "GetPtrForNewBytes heap item B = (a, Ba, ha)"
    by (cases "GetPtrForNewBytes heap item B") auto
  note gl = Grow_law [OF ok g] Grow_keeps_ok [OF ok g]
  note al = GetPtrForNewBytes_law [OF ok a]
  have c1: "buffer_ok \<lparr>m_nCapacity = uint32_t (min MAX_SIZE_SINT32 (size_t (100 * int nLength))),
                    m_nSize = 0, m_pRawBuffer = []\<rparr>"
    by (rule initial_buffer_ok)
  have c2: "buffer_ok (fst (snd G)) \<and> buffer_ok (fst (snd A))"
    using gl al by (simp add: G A g a)
  have c3: "(fst G \<longleftrightarrow> m_nSize B + nItemSize \<le> MAX_SIZE_SINT32
                      \<and> fst (VSI_MALLOC_ALIGNED_AUTO_VERBOSE heap))
       \<and> (fst G \<longrightarrow> fst (snd G)
                      = B\<lparr>m_nCapacity := max (m_nSize B + nItemSize)
                                             (min MAX_SIZE_SINT32 (2 * m_nCapacity B))\<rparr>)
       \<and> (\<not> fst G \<longrightarrow> fst (snd G) = B)"
    using gl(1) by (simp add: G g)
  have c4: "(MAX_SIZE_SINT32 < m_nSize B + length item \<longrightarrow> \<not> fst A \<and> fst (snd A) = B)
       \<and> (fst A \<longrightarrow> m_pRawBuffer (fst (snd A)) = m_pRawBuffer B @ item)"
    using al by (simp add: A a)
  have c5: "\<forall>target. fst W = Some target \<longrightarrow>
             wkb_data target
               = concat (row_bytes translate (wkb_nulls target) (wkt_texts sourceArray) 0)
           \<and> wkb_offsets target
               = offsets_from 0 (row_bytes translate (wkb_nulls target) (wkt_texts sourceArray) 0)
           \<and> wkb_nulls target
               = (if null_count sourceArray \<noteq> 0 then wkt_nulls sourceArray else None)
           \<and> length (wkb_data target) \<le> MAX_SIZE_SINT32
           \<and> all_succeeded hp (snd W)
           \<and> (\<forall>k<length (wkt_texts sourceArray).
                 \<not> row_is_null (wkb_nulls target) k
                 \<longrightarrow> translate (wkt_texts sourceArray ! k) \<noteq> None)"
  proof (intro allI impI)
    fix target
    assume "fst W = Some target"
    then have "CreateWKBArrayFromWKTArray translate hp sourceArray = (Some target, snd W)"
      by (simp add: W prod_eq_iff)
    from CreateWKBArrayFromWKTArray_law [OF this]
    show "wkb_data target
               = concat (row_bytes translate (wkb_nulls target) (wkt_texts sourceArray) 0)
           \<and> wkb_offsets target
               = offsets_from 0 (row_bytes translate (wkb_nulls target) (wkt_texts sourceArray) 0)
           \<and> wkb_nulls target
               = (if null_count sourceArray \<noteq> 0 then wkt_nulls sourceArray else None)
           \<and> length (wkb_data target) \<le> MAX_SIZE_SINT32
           \<and> all_succeeded hp (snd W)
           \<and> (\<forall>k<length (wkt_texts sourceArray).
                 \<not> row_is_null (wkb_nulls target) k
                 \<longrightarrow> translate (wkt_texts sourceArray ! k) \<noteq> None)" .
  qed
  have c6: "MAX_SIZE_SINT32
             < length (concat (row_bytes translate
                 (if null_count sourceArray \<noteq> 0 then wkt_nulls sourceArray else None)
                 (wkt_texts sourceArray) 0))
            \<longrightarrow> fst W = None"
    by (simp add: W CreateWKBArrayFromWKTArray_too_large)
  have c7: "\<not> fst (VSI_MALLOC_ALIGNED_AUTO_VERBOSE hp) \<longrightarrow> fst W = None"
    by (simp add: W first_allocation_fails)
  have c8: "\<not> geom_IsIgnored stream ! i \<and> m_aeGeomEncoding cfg ! i = WKT
            \<and> WKTArray_of (columns exported
                 ! nat (if m_bIgnoredFields cfg then m_anMapGeomFieldIndexToArrayIndex cfg ! i
                        else m_anMapGeomFieldIndexToArrowColumn cfg ! i)) = Some sourceArray
            \<and> translate = wkt_grammar stream \<and> fst W = None
            \<longrightarrow> replace_wkt_columns cfg stream (i # rest) exported hp = Inr (None, snd W)"
  proof (intro impI, elim conjE)
    assume h: "\<not> geom_IsIgnored stream ! i" "m_aeGeomEncoding cfg ! i = WKT"
      "WKTArray_of (columns exported
                 ! nat (if m_bIgnoredFields cfg then m_anMapGeomFieldIndexToArrayIndex cfg ! i
                        else m_anMapGeomFieldIndexToArrowColumn cfg ! i)) = Some sourceArray"
      "translate = wkt_grammar stream" "fst W = None"
    from h(4,5) have "CreateWKBArrayFromWKTArray (wkt_grammar stream) hp sourceArray
        = (None, snd W)"
      by (simp add: W prod_eq_iff)
    from replace_head_fails [OF h(1) h(2) h(3) this]
    show "replace_wkt_columns cfg stream (i # rest) exported hp = Inr (None, snd W)" .
  qed
  have c9: "\<not> m_bEOF L \<and> batch_to_export env cfg L = (True, L1) \<and> m_poBatch L1 = Some b
            \<and> ExportRecordBatch stream b = Some exported \<and> GEOMETRY_ENCODING_is_WKB stream
            \<and> replace_wkt_columns cfg stream [0..<length (geom_field_types cfg)] exported hp
                 = Inr (None, heap1)
            \<longrightarrow> export_loop env cfg stream out_array hp L
                  = Inr (ENOMEM, None, L1\<lparr>m_nIdxInBatch := num_rows b\<rparr>, heap1)"
    using export_round_out_of_memory [of L env cfg L1 b stream exported hp heap1 out_array]
    by blast
  have c10: "\<forall>array L' heap'.
             export_loop env cfg stream out_array hp L = Inr (ENOMEM, array, L', heap')
             \<longrightarrow> array = None"
    using export_loop_out_of_memory by blast
  from c1 c2 c3 c4 c5 c6 c7 c8 c9 c10 show ?thesis by blast
qed

lemma build_two_texts:
  "CreateWKBArrayFromWKTArray line_grammar [True, True, True] two_texts
     = (Some \<lparr>wkb_nulls = None, wkb_offsets = [0, 21, 350],
               wkb_data = replicate 21 (CHR ''p'') @ replicate 9 (CHR ''h'')
                            @ replicate 320 (CHR ''c'')\<rparr>, [])"
  by (simp add: CreateWKBArrayFromWKTArray_def two_texts_def Let_def
        VSI_MALLOC_ALIGNED_AUTO_VERBOSE_def TranslateWKT_def line_grammar_def
        GetPtrForNewBytes_def Grow_def size_t_def uint32_t_def MAX_SIZE_SINT32_def
        row_is_null_def)

lemma grow_small_buffer:
  "Grow [True] 329 small_buffer = (True, small_buffer\<lparr>m_nCapacity := 329\<rparr>, [])"
  by (simp add: Grow_def small_buffer_def size_t_def MAX_SIZE_SINT32_def Let_def
        VSI_MALLOC_ALIGNED_AUTO_VERBOSE_def)


lemma export_stream_fields:
  "ExportRecordBatch export_stream b = Some b"
  "GEOMETRY_ENCODING_is_WKB export_stream"
  "PostFilterArrowArray export_stream = names_filter"
  "\<not> m_bUseRecordBatchBaseImplementation export_stream"
  by (simp_all add: export_stream_def)


lemma first_batch_to_export:
  "batch_to_export export_env text_cfg export_layer
      = (True, export_layer\<lparr>m_iRecordBatch := 0,
                 m_poBatch := Some (text_batch [''a''] [''POINT''])\<rparr>)"
  by (simp add: batch_to_export_def needs_batch_def export_layer_def new_layer_def
        ReadNextBatch_def export_env_def scenario_env_def SetBatch_def clear_shortcuts_def
        Let_def)

lemma no_memory_for_first:
  "WKTArray_of (columns (text_batch [''a''] [''POINT''])
       ! nat (if m_bIgnoredFields text_cfg then m_anMapGeomFieldIndexToArrayIndex text_cfg ! 0
              else m_anMapGeomFieldIndexToArrowColumn text_cfg ! 0))
     = Some \<lparr>null_count = 0, wkt_nulls = Some [False], wkt_texts = [''POINT'']\<rparr>"
  "\<not> geom_IsIgnored export_stream ! 0" "m_aeGeomEncoding text_cfg ! 0 = WKT"
  "wkt_grammar export_stream = line_grammar"
  "[0..<length (geom_field_types text_cfg)] = [0]"
  by (simp_all add: text_cfg_def scenario_cfg_def text_batch_def WKTArray_of_def
        export_stream_def)

theorem C9_witness:
  "buffer_ok small_buffer
   \<and> Grow [True] 329 small_buffer = (True, small_buffer\<lparr>m_nCapacity := 329\<rparr>, [])
   \<and> buffer_ok (small_buffer\<lparr>m_nCapacity := 329\<rparr>)
   \<and> max (m_nSize small_buffer + 329) (min MAX_SIZE_SINT32 (2 * m_nCapacity small_buffer)) = 329
   \<and> \<not> fst (GetPtrForNewBytes [True] (replicate 2147483648 (CHR ''x'')) small_buffer)
   \<and> fst (CreateWKBArrayFromWKTArray line_grammar [True, True, True] two_texts)
       = Some \<lparr>wkb_nulls = None, wkb_offsets = [0, 21, 350],
               wkb_data = replicate 21 (CHR ''p'') @ replicate 9 (CHR ''h'')
                            @ replicate 320 (CHR ''c'')\<rparr>
   \<and> length (replicate 21 (CHR ''p'') @ replicate 9 (CHR ''h'') @ replicate 320 (CHR ''c''))
       \<le> MAX_SIZE_SINT32
   \<and> all_succeeded [True, True, True]
        (snd (CreateWKBArrayFromWKTArray line_grammar [True, True, True] two_texts))
   \<and> fst (CreateWKBArrayFromWKTArray line_grammar [False] two_texts) = None
   \<and> replace_wkt_columns text_cfg export_stream [0] (text_batch [''a''] [''POINT'']) []
       = Inr (None, [])
   \<and> export_loop export_env text_cfg export_stream None [] export_layer
       = Inr (ENOMEM, None,
              export_layer\<lparr>m_iRecordBatch := 0,
                 m_poBatch := Some (text_batch [''a''] [''POINT'']),
                 m_nIdxInBatch := num_rows (text_batch [''a''] [''POINT''])\<rparr>, [])"
proof -
  have ok: "buffer_ok small_buffer"
    by (simp add: buffer_ok_def small_buffer_def MAX_SIZE_SINT32_def)
  note t1 = C9_append_buffer_stays_within_signed_32_bits
      [OF ok refl refl refl, where heap = "[True]" and nItemSize = 329
         and item = "replicate 2147483648 (CHR ''x'')"
         and translate = line_grammar and hp = "[True, True, True]"
         and sourceArray = two_texts]
  note t2 = C9_append_buffer_stays_within_signed_32_bits
      [OF ok refl refl refl, where heap = "[True]" and nItemSize = 329
         and item = "replicate 2147483648 (CHR ''x'')"
         and translate = line_grammar and hp = "[False]"
         and sourceArray = two_texts]
  note t3 = C9_append_buffer_stays_within_signed_32_bits
      [OF ok refl refl refl, where heap = "[True]" and nItemSize = 329
         and item = "replicate 2147483648 (CHR ''x'')"
         and translate = line_grammar and hp = "[]"
         and sourceArray = "\<lparr>null_count = 0, wkt_nulls = Some [False], wkt_texts = [''POINT'']\<rparr>"
         and stream = export_stream and cfg = text_cfg and i = 0 and rest = "[]"
         and exported = "text_batch [''a''] [''POINT'']"
         and env = export_env and L = export_layer and b = "text_batch [''a''] [''POINT'']"
         and out_array = None]
  from t1 have "buffer_ok (fst (snd (Grow [True] 329 small_buffer)))" by blast
  then have a: "buffer_ok (small_buffer\<lparr>m_nCapacity := 329\<rparr>)"
    by (simp add: grow_small_buffer)
  from t1 have "MAX_SIZE_SINT32 < m_nSize small_buffer + length (replicate 2147483648 (CHR ''x''))
      \<longrightarrow> \<not> fst (GetPtrForNewBytes [True] (replicate 2147483648 (CHR ''x'')) small_buffer)"
    by blast
  then have b: "\<not> fst (GetPtrForNewBytes [True] (replicate 2147483648 (CHR ''x'')) small_buffer)"
    by (simp add: small_buffer_def MAX_SIZE_SINT32_def)
  from t1 have "\<forall>target. fst (CreateWKBArrayFromWKTArray line_grammar [True, True, True] two_texts)
        = Some target \<longrightarrow>
      length (wkb_data target) \<le> MAX_SIZE_SINT32
      \<and> all_succeeded [True, True, True]
          (snd (CreateWKBArrayFromWKTArray line_grammar [True, True, True] two_texts))"
    by blast
  then have c: "length (replicate 21 (CHR ''p'') @ replicate 9 (CHR ''h'') @ replicate 320 (CHR ''c''))
       \<le> MAX_SIZE_SINT32
     \<and> all_succeeded [True, True, True]
        (snd (CreateWKBArrayFromWKTArray line_grammar [True, True, True] two_texts))"
    by (simp add: build_two_texts)
  from t2 have "\<not> fst (VSI_MALLOC_ALIGNED_AUTO_VERBOSE [False])
      \<longrightarrow> fst (CreateWKBArrayFromWKTArray line_grammar [False] two_texts) = None"
    by blast
  then have d: "fst (CreateWKBArrayFromWKTArray line_grammar [False] two_texts) = None"
    by (simp add: VSI_MALLOC_ALIGNED_AUTO_VERBOSE_def)
  have e: "max (m_nSize small_buffer + 329)
             (min MAX_SIZE_SINT32 (2 * m_nCapacity small_buffer)) = 329"
    by (simp add: small_buffer_def MAX_SIZE_SINT32_def)
  have f: "fst (CreateWKBArrayFromWKTArray line_grammar [True, True, True] two_texts)
       = Some \<lparr>wkb_nulls = None, wkb_offsets = [0, 21, 350],
               wkb_data = replicate 21 (CHR ''p'') @ replicate 9 (CHR ''h'')
                            @ replicate 320 (CHR ''c'')\<rparr>"
    by (simp add: build_two_texts)
  let ?src = "\<lparr>null_count = 0, wkt_nulls = Some [False], wkt_texts = [''POINT'']\<rparr>"
  from t3 have "\<not> fst (VSI_MALLOC_ALIGNED_AUTO_VERBOSE [])
      \<longrightarrow> fst (CreateWKBArrayFromWKTArray line_grammar [] ?src) = None"
    by blast
  then have n1: "fst (CreateWKBArrayFromWKTArray line_grammar [] ?src) = None"
    by (simp add: VSI_MALLOC_ALIGNED_AUTO_VERBOSE_def)
  have n2: "snd (CreateWKBArrayFromWKTArray line_grammar [] ?src) = []"
    by (simp add: CreateWKBArrayFromWKTArray_def VSI_MALLOC_ALIGNED_AUTO_VERBOSE_def Let_def)
  from t3 have "\<not> geom_IsIgnored export_stream ! 0 \<and> m_aeGeomEncoding text_cfg ! 0 = WKT
            \<and> WKTArray_of (columns (text_batch [''a''] [''POINT''])
                 ! nat (if m_bIgnoredFields text_cfg
                        then m_anMapGeomFieldIndexToArrayIndex text_cfg ! 0
                        else m_anMapGeomFieldIndexToArrowColumn text_cfg ! 0)) = Some ?src
            \<and> line_grammar = wkt_grammar export_stream
            \<and> fst (CreateWKBArrayFromWKTArray line_grammar [] ?src) = None
            \<longrightarrow> replace_wkt_columns text_cfg export_stream [0] (text_batch [''a''] [''POINT'']) []
                  = Inr (None, snd (CreateWKBArrayFromWKTArray line_grammar [] ?src))"
    by blast
  with no_memory_for_first n1 n2
  have g: "replace_wkt_columns text_cfg export_stream [0] (text_batch [''a''] [''POINT'']) []
       = Inr (None, [])"
    by simp
  from t3 have "\<not> m_bEOF export_layer
        \<and> batch_to_export export_env text_cfg export_layer
            = (True, export_layer\<lparr>m_iRecordBatch := 0,
                 m_poBatch := Some (text_batch [''a''] [''POINT''])\<rparr>)
        \<and> m_poBatch (export_layer\<lparr>m_iRecordBatch := 0,
                 m_poBatch := Some (text_batch [''a''] [''POINT''])\<rparr>)
            = Some (text_batch [''a''] [''POINT''])
        \<and> ExportRecordBatch export_stream (text_batch [''a''] [''POINT''])
            = Some (text_batch [''a''] [''POINT''])
        \<and> GEOMETRY_ENCODING_is_WKB export_stream
        \<and> replace_wkt_columns text_cfg export_stream [0..<length (geom_field_types text_cfg)]
             (text_batch [''a''] [''POINT'']) [] = Inr (None, [])
        \<longrightarrow> export_loop export_env text_cfg export_stream None [] export_layer
              = Inr (ENOMEM, None,
                     (export_layer\<lparr>m_iRecordBatch := 0,
                        m_poBatch := Some (text_batch [''a''] [''POINT''])\<rparr>)
                       \<lparr>m_nIdxInBatch := num_rows (text_batch [''a''] [''POINT''])\<rparr>, [])"
    by blast
  moreover have "\<not> m_bEOF export_layer" by (simp add: export_layer_def new_layer_def)
  ultimately have h: "export_loop export_env text_cfg export_stream None [] export_layer
       = Inr (ENOMEM, None,
              export_layer\<lparr>m_iRecordBatch := 0,
                 m_poBatch := Some (text_batch [''a''] [''POINT'']),
                 m_nIdxInBatch := num_rows (text_batch [''a''] [''POINT''])\<rparr>, [])"
    using first_batch_to_export export_stream_fields no_memory_for_first(5) g by simp
  from ok a b c d e f g h grow_small_buffer show ?thesis by blast
qed

text \<open>
  The claim as first stated has the capacity doubled (capped at the maximum). A buffer
  of capacity 100 that has to take an item of 329 bytes grows to 329 bytes, not to 200.
\<close>

theorem C9_counterexample:
  "fst (Grow [True] 329 small_buffer)
   \<and> m_nCapacity small_buffer = 100
   \<and> m_nCapacity (fst (snd (Grow [True] 329 small_buffer))) = 329
   \<and> min MAX_SIZE_SINT32 (2 * m_nCapacity small_buffer) = 200"
proof -
  have "m_nCapacity small_buffer = 100"
    "min MAX_SIZE_SINT32 (2 * m_nCapacity small_buffer) = 200"
    by (simp_all add: small_buffer_def MAX_SIZE_SINT32_def)
  then show ?thesis by (simp add: grow_small_buffer)
qed

subsection \<open>Batch export\<close>













subsection \<open>Fast extent\<close>

lemma longest_value_length: "length longest_value = INT_MAX"
  by (simp add: longest_value_def INT_MAX_def)

lemma fast_extent_of_large_binary:
  "map_sum (\<lambda>f. f) fst
     (GetExtent (large_binary_env w) scenario_cfg (\<lambda>L i f. (None, L)) 0 True new_layer)
   = Inr (if length w < INT_MAX then Some (Envelope 1 2 1 2) else None)"
  by (simp add: GetExtent_def FastGetExtent_def new_layer_def large_binary_env_def
        scenario_env_def scenario_cfg_def GetExtentFromMetadata_def fast_extent_pass_def
        ResetReading_def ReadNextBatch_def SetBatch_def clear_shortcuts_def Let_def
        extent_loop.simps wkb_extent_step_def has_type_BINARY_def GetValue_def)

lemma decoded_extent_of_large_binary:
  "decoded_extent (large_binary_env w) scenario_cfg 0
   = Inr (if length w > INT_MAX then Uninit else Envelope 1 2 1 2)"
  by (simp add: decoded_extent_def merge_decoded_def read_geom_field_def large_binary_env_def
        scenario_env_def scenario_cfg_def normalize_geometry_def envelope_of_points_def
        Let_def)

text \<open>
  C4. The claim is that the fast pass gives the extent that full decoding gives. For a
  well-known-binary column stored as a large binary array, the fast pass reads the
  bounding box of a value only if its length is below 2147483647 (\<open>INT_MAX\<close>), while
  the decoder reads every value whose length is not above it. So for a layer whose only
  geometry is a value of exactly 2147483647 bytes, which the parser reads as the point
  (1, 2), the fast pass fails to give an extent, and full decoding gives the extent of
  the point; with a value of 21 bytes both give the extent of the point.
\<close>

theorem C4_value_of_INT_MAX_bytes_is_left_out_of_the_fast_extent:
  "length longest_value = INT_MAX
   \<and> map_sum (\<lambda>f. f) fst
       (GetExtent (large_binary_env longest_value) scenario_cfg (\<lambda>L i f. (None, L)) 0 True
          new_layer)
     = Inr None
   \<and> decoded_extent (large_binary_env longest_value) scenario_cfg 0 = Inr (Envelope 1 2 1 2)
   \<and> map_sum (\<lambda>f. f) fst
       (GetExtent (large_binary_env (replicate 21 (CHR ''w''))) scenario_cfg
          (\<lambda>L i f. (None, L)) 0 True new_layer)
     = Inr (Some (Envelope 1 2 1 2))
   \<and> decoded_extent (large_binary_env (replicate 21 (CHR ''w''))) scenario_cfg 0
     = Inr (Envelope 1 2 1 2)"
  by (simp add: fast_extent_of_large_binary decoded_extent_of_large_binary
        longest_value_length)
     (simp add: INT_MAX_def)

end
